theory Spec2Isabelle
  imports Complex_Main
begin

section \<open>Conventions of the embedding\<close>

text \<open>
  The podcast generator is a Node.js program.  Its pure parts are embedded as HOL
  functions that keep the names of the source.  JavaScript strings are modelled as
  \<^typ>\<open>string\<close>; a thrown exception is the left injection of a sum; the clock, the random
  number generator, the model backend and the network are parameters of the functions
  that consult them, and every call to one of them is recorded in an explicit trace
  where a property counts such calls.

  JavaScript numbers are IEEE doubles.  The word counts and targets handled here are
  small naturals, on which the source performs one division, one multiplication by a
  power of ten and a comparison with a small integer constant; these are modelled
  with exact arithmetic on \<^typ>\<open>real\<close>.  Where the source divides by a denominator that
  may be zero the model says what the resulting \<open>NaN\<close> or \<open>Infinity\<close> does in the
  comparison that follows.
\<close>

subsection \<open>Configuration constants (\<open>config.js\<close>)\<close>

definition wordsPerMinute :: nat where
  "wordsPerMinute = 150"

definition tolerancePercent :: nat where
  "tolerancePercent = 5"

definition maxConcurrentAgents :: nat where
  "maxConcurrentAgents = 5"

text \<open>\<open>Math.round\<close>: the nearest integer, a tie going towards plus infinity.\<close>

definition js_round :: "real \<Rightarrow> int" where
  "js_round x = \<lfloor>x + 1 / 2\<rfloor>"

section \<open>Regular expressions and string methods of JavaScript\<close>

text \<open>
  The agents parse the model's markdown with regular expressions and with the methods
  of \<open>String\<close>.  To keep every pattern of the source readable in the model, a pattern
  is a term of the datatype \<open>re\<close> below, written after the source's regular expression
  construct by construct, and one backtracking matcher gives all patterns their
  meaning.

  Strings are lists of \<^typ>\<open>char\<close>: the code units below 256.  The character classes
  follow ECMAScript on that range: \<open>\s\<close> holds the code units 9 to 13, 32 and 160,
  \<open>\d\<close> the ten digits, \<open>\w\<close> the letters, the digits and the underscore, and a line
  terminator is a line feed or a carriage return.
\<close>

subsection \<open>Patterns\<close>

datatype atom = Ch char | Rng char char | Space | NonSpace | Digit | Word

text \<open>
  \<open>One as\<close> is a character class (a single literal character is a class of one atom),
  \<open>NoneOf as\<close> its complement, \<open>Dot\<close> the full stop, \<open>Str p\<close> a run of literal
  characters, \<open>Star\<close> and \<open>LazyStar\<close> the greedy and the lazy star, \<open>Opt\<close> the question
  mark, \<open>Grp n\<close> the \<open>n\<close>-th capturing group, \<open>Ahead\<close> a positive lookahead, \<open>Behind as\<close>
  a positive lookbehind of one character class, \<open>Bol\<close> and \<open>Eol\<close> the anchors, and
  \<open>WordB\<close> the word boundary.
\<close>

datatype re =
    One "atom list"
  | NoneOf "atom list"
  | Dot
  | Str string
  | Seq re re
  | Alt re re
  | Star re
  | LazyStar re
  | Opt re
  | Grp nat re
  | Ahead re
  | Behind "atom list"
  | Bol
  | Eol
  | WordB

record flags =
  ignoreCase :: bool
  multiline :: bool
  dotAll :: bool

definition flags_of :: "string \<Rightarrow> flags" where
  "flags_of fl = \<lparr>ignoreCase = (CHR ''i'' \<in> set fl), multiline = (CHR ''m'' \<in> set fl),
                  dotAll = (CHR ''s'' \<in> set fl)\<rparr>"

definition code_unit :: "char \<Rightarrow> nat" where
  "code_unit c = of_char c"

definition is_space :: "char \<Rightarrow> bool" where
  "is_space c = (code_unit c \<in> {9, 10, 11, 12, 13, 32, 160})"

definition is_digit :: "char \<Rightarrow> bool" where
  "is_digit c = (48 \<le> code_unit c \<and> code_unit c \<le> 57)"

definition is_upper :: "char \<Rightarrow> bool" where
  "is_upper c = (65 \<le> code_unit c \<and> code_unit c \<le> 90)"

definition is_lower :: "char \<Rightarrow> bool" where
  "is_lower c = (97 \<le> code_unit c \<and> code_unit c \<le> 122)"

definition is_word :: "char \<Rightarrow> bool" where
  "is_word c = (is_upper c \<or> is_lower c \<or> is_digit c \<or> c = CHR ''_'')"

definition is_line_terminator :: "char \<Rightarrow> bool" where
  "is_line_terminator c = (code_unit c = 10 \<or> code_unit c = 13)"

text \<open>
  Under the flag \<open>i\<close> two characters match when their canonical forms agree.  The
  patterns of the source that carry the flag hold ASCII letters only, for which the
  canonical form is the upper-case letter.
\<close>

definition canonicalize :: "char \<Rightarrow> char" where
  "canonicalize c = (if is_lower c then char_of (code_unit c - 32) else c)"

fun atom_ok :: "bool \<Rightarrow> atom \<Rightarrow> char \<Rightarrow> bool" where
  "atom_ok i (Ch a) c = (if i then canonicalize a = canonicalize c else a = c)"
| "atom_ok i (Rng a b) c = (code_unit a \<le> code_unit c \<and> code_unit c \<le> code_unit b)"
| "atom_ok i Space c = is_space c"
| "atom_ok i NonSpace c = (\<not> is_space c)"
| "atom_ok i Digit c = is_digit c"
| "atom_ok i Word c = is_word c"

fun str_ok :: "bool \<Rightarrow> string \<Rightarrow> string \<Rightarrow> bool" where
  "str_ok i [] cs = True"
| "str_ok i (p # ps) [] = False"
| "str_ok i (p # ps) (c # cs) = (atom_ok i (Ch p) c \<and> str_ok i ps cs)"

subsection \<open>The backtracking matcher\<close>

text \<open>
  A state of the matcher holds the input before the current position, latest character
  first, the input from the current position on, and the captures made so far, latest
  first.  \<open>ms f r s\<close> lists the states in which a match of \<open>r\<close> that starts in \<open>s\<close> can
  end, in the order in which a backtracking matcher tries them: the head of the list is
  the match that JavaScript reports.  As in ECMAScript, an iteration of a star that
  consumes nothing is not continued.  No pattern of the source has a capturing group
  under a quantifier, so captures are never reset.
\<close>

datatype mstate = MS string string "(nat \<times> string) list"

fun before_of :: "mstate \<Rightarrow> string" where
  "before_of (MS b r c) = b"

fun rest_of :: "mstate \<Rightarrow> string" where
  "rest_of (MS b r c) = r"

fun caps_of :: "mstate \<Rightarrow> (nat \<times> string) list" where
  "caps_of (MS b r c) = c"

function ms :: "flags \<Rightarrow> re \<Rightarrow> mstate \<Rightarrow> mstate list" where
  "ms f (One as) (MS b r c) =
     (case r of [] \<Rightarrow> []
      | x # xs \<Rightarrow> if list_ex (\<lambda>a. atom_ok (ignoreCase f) a x) as then [MS (x # b) xs c] else [])"
| "ms f (NoneOf as) (MS b r c) =
     (case r of [] \<Rightarrow> []
      | x # xs \<Rightarrow> if list_ex (\<lambda>a. atom_ok (ignoreCase f) a x) as then [] else [MS (x # b) xs c])"
| "ms f Dot (MS b r c) =
     (case r of [] \<Rightarrow> []
      | x # xs \<Rightarrow> if is_line_terminator x \<and> \<not> dotAll f then [] else [MS (x # b) xs c])"
| "ms f (Str p) (MS b r c) =
     (if str_ok (ignoreCase f) p r
      then [MS (rev (take (length p) r) @ b) (drop (length p) r) c] else [])"
| "ms f (Seq x y) s = concat (map (ms f y) (ms f x s))"
| "ms f (Alt x y) s = ms f x s @ ms f y s"
| "ms f (Star x) s =
     concat (map (ms f (Star x))
                 (filter (\<lambda>t. length (rest_of t) < length (rest_of s)) (ms f x s))) @ [s]"
| "ms f (LazyStar x) s =
     s # concat (map (ms f (LazyStar x))
                     (filter (\<lambda>t. length (rest_of t) < length (rest_of s)) (ms f x s)))"
| "ms f (Opt x) s = filter (\<lambda>t. length (rest_of t) < length (rest_of s)) (ms f x s) @ [s]"
| "ms f (Grp n x) s =
     map (\<lambda>t. MS (before_of t) (rest_of t)
                ((n, rev (take (length (before_of t) - length (before_of s)) (before_of t)))
                 # caps_of t))
         (ms f x s)"
| "ms f (Ahead x) s =
     (case ms f x s of [] \<Rightarrow> [] | t # ts \<Rightarrow> [MS (before_of s) (rest_of s) (caps_of t)])"
| "ms f (Behind as) (MS b r c) =
     (case b of [] \<Rightarrow> []
      | x # xs \<Rightarrow> if list_ex (\<lambda>a. atom_ok (ignoreCase f) a x) as then [MS b r c] else [])"
| "ms f Bol (MS b r c) =
     (case b of [] \<Rightarrow> [MS b r c]
      | x # xs \<Rightarrow> if multiline f \<and> is_line_terminator x then [MS b r c] else [])"
| "ms f Eol (MS b r c) =
     (case r of [] \<Rightarrow> [MS b r c]
      | x # xs \<Rightarrow> if multiline f \<and> is_line_terminator x then [MS b r c] else [])"
| "ms f WordB (MS b r c) =
     (if (case b of [] \<Rightarrow> False | x # xs \<Rightarrow> is_word x)
         \<noteq> (case r of [] \<Rightarrow> False | x # xs \<Rightarrow> is_word x)
      then [MS b r c] else [])"
  by pat_completeness auto
termination
  by (relation "inv_image (measure size <*lex*> measure length) (\<lambda>(f, r, s). (r, rest_of s))")
     auto

text \<open>The numbers of the capturing groups of a pattern.\<close>

primrec grps :: "re \<Rightarrow> nat set" where
  "grps (One as) = {}"
| "grps (NoneOf as) = {}"
| "grps Dot = {}"
| "grps (Str p) = {}"
| "grps (Seq x y) = grps x \<union> grps y"
| "grps (Alt x y) = grps x \<union> grps y"
| "grps (Star x) = grps x"
| "grps (LazyStar x) = grps x"
| "grps (Opt x) = grps x"
| "grps (Grp n x) = insert n (grps x)"
| "grps (Ahead x) = grps x"
| "grps (Behind as) = {}"
| "grps Bol = {}"
| "grps Eol = {}"
| "grps WordB = {}"

text \<open>The quantifiers \<open>+\<close>, \<open>+?\<close> and \<open>{m,n}\<close>, and the shorthands for one-atom classes.\<close>

definition OneOrMore :: "re \<Rightarrow> re" where
  "OneOrMore x = Seq x (Star x)"

definition LazyOneOrMore :: "re \<Rightarrow> re" where
  "LazyOneOrMore x = Seq x (LazyStar x)"

fun between :: "nat \<Rightarrow> nat \<Rightarrow> re \<Rightarrow> re" where
  "between 0 0 x = Str []"
| "between 0 (Suc n) x = Opt (Seq x (between 0 n x))"
| "between (Suc m) n x = Seq x (between m (n - 1) x)"

definition chr :: "char \<Rightarrow> re" where
  "chr c = One [Ch c]"

definition space :: re where
  "space = One [Space]"

definition digit :: re where
  "digit = One [Digit]"

text \<open>
  \<open>match_at f r b s\<close> is the match of \<open>r\<close> that starts exactly where \<open>b\<close> ends and \<open>s\<close>
  begins: its length and its captures.
\<close>

type_synonym captures = "(nat \<times> string) list"

definition match_at :: "flags \<Rightarrow> re \<Rightarrow> string \<Rightarrow> string \<Rightarrow> (nat \<times> captures) option" where
  "match_at f r b s =
     (case ms f r (MS b s []) of
        [] \<Rightarrow> None
      | t # ts \<Rightarrow> Some (length s - length (rest_of t), caps_of t))"

text \<open>A group that did not take part in the match reads as the empty string.\<close>

definition group :: "captures \<Rightarrow> nat \<Rightarrow> string" where
  "group c n = (case map_of c n of None \<Rightarrow> [] | Some g \<Rightarrow> g)"

subsection \<open>Methods that take a regular expression\<close>

text \<open>
  \<open>replace_all\<close> is \<open>String.prototype.replace\<close> with a global pattern and
  \<open>replace_first\<close> with a pattern that is not global; the replacement is a function of
  the matched text and the captures.  \<open>match_first\<close> is \<open>String.prototype.match\<close> with a
  pattern that is not global and \<open>match_all\<close> with a global one (the source reads
  \<open>null\<close> as no match at all).  After an empty match a global search moves on by one
  character.
\<close>

function replace_all ::
  "flags \<Rightarrow> re \<Rightarrow> (string \<Rightarrow> captures \<Rightarrow> string) \<Rightarrow> string \<Rightarrow> string \<Rightarrow> string" where
  "replace_all f r repl b s =
     (case match_at f r b s of
        Some (n, c) \<Rightarrow>
          repl (take n s) c @
          (if n = 0 then (case s of [] \<Rightarrow> [] | x # xs \<Rightarrow> x # replace_all f r repl (x # b) xs)
           else replace_all f r repl (rev (take n s) @ b) (drop n s))
      | None \<Rightarrow> (case s of [] \<Rightarrow> [] | x # xs \<Rightarrow> x # replace_all f r repl (x # b) xs))"
  by pat_completeness auto
termination
  by (relation "measure (\<lambda>(f, r, repl, b, s). length s)")
     (auto simp add: match_at_def split: list.splits)

fun replace_first ::
  "flags \<Rightarrow> re \<Rightarrow> (string \<Rightarrow> captures \<Rightarrow> string) \<Rightarrow> string \<Rightarrow> string \<Rightarrow> string" where
  "replace_first f r repl b s =
     (case match_at f r b s of
        Some (n, c) \<Rightarrow> repl (take n s) c @ drop n s
      | None \<Rightarrow> (case s of [] \<Rightarrow> [] | x # xs \<Rightarrow> x # replace_first f r repl (x # b) xs))"

fun match_first :: "flags \<Rightarrow> re \<Rightarrow> string \<Rightarrow> string \<Rightarrow> (string \<times> captures) option" where
  "match_first f r b s =
     (case match_at f r b s of
        Some (n, c) \<Rightarrow> Some (take n s, c)
      | None \<Rightarrow> (case s of [] \<Rightarrow> None | x # xs \<Rightarrow> match_first f r (x # b) xs))"

function match_all :: "flags \<Rightarrow> re \<Rightarrow> string \<Rightarrow> string \<Rightarrow> string list" where
  "match_all f r b s =
     (case match_at f r b s of
        Some (n, c) \<Rightarrow>
          take n s #
          (if n = 0 then (case s of [] \<Rightarrow> [] | x # xs \<Rightarrow> match_all f r (x # b) xs)
           else match_all f r (rev (take n s) @ b) (drop n s))
      | None \<Rightarrow> (case s of [] \<Rightarrow> [] | x # xs \<Rightarrow> match_all f r (x # b) xs))"
  by pat_completeness auto
termination
  by (relation "measure (\<lambda>(f, r, b, s). length s)")
     (auto simp add: match_at_def split: list.splits)

text \<open>
  \<open>exec_all\<close> is the loop \<open>while ((match = regex.exec(text)) !== null)\<close> over a global
  pattern, and returns the matches it visits.  The loop itself does not move
  \<open>lastIndex\<close>: after an empty match the same match is found again and the loop does
  not end, which is the result \<open>None\<close>.
\<close>

function exec_all :: "flags \<Rightarrow> re \<Rightarrow> string \<Rightarrow> string \<Rightarrow> (string \<times> captures) list option" where
  "exec_all f r b s =
     (case match_at f r b s of
        Some (n, c) \<Rightarrow>
          if n = 0 then None
          else map_option ((#) (take n s, c)) (exec_all f r (rev (take n s) @ b) (drop n s))
      | None \<Rightarrow> (case s of [] \<Rightarrow> Some [] | x # xs \<Rightarrow> exec_all f r (x # b) xs))"
  by pat_completeness auto
termination
  by (relation "measure (\<lambda>(f, r, b, s). length s)")
     (auto simp add: match_at_def split: list.splits)

text \<open>
  \<open>split_re\<close> is \<open>String.prototype.split\<close> with a pattern without capturing groups:
  \<open>cur\<close> holds the piece since the last separator, latest character first, and a match
  that ends where the piece starts is skipped.
\<close>

function split_loop :: "flags \<Rightarrow> re \<Rightarrow> string \<Rightarrow> string \<Rightarrow> string \<Rightarrow> string list" where
  "split_loop f r b s cur =
     (case s of
        [] \<Rightarrow> [rev cur]
      | x # xs \<Rightarrow>
          (case match_at f r b s of
             None \<Rightarrow> split_loop f r (x # b) xs (x # cur)
           | Some (n, c) \<Rightarrow>
               if n = 0 then
                 (if cur = [] then split_loop f r (x # b) xs [x]
                  else rev cur # split_loop f r (x # b) xs [x])
               else rev cur # split_loop f r (rev (take n s) @ b) (drop n s) []))"
  by pat_completeness auto
termination
  by (relation "measure (\<lambda>(f, r, b, s, cur). length s)")
     (auto simp add: match_at_def split: list.splits)

definition split_re :: "flags \<Rightarrow> re \<Rightarrow> string \<Rightarrow> string list" where
  "split_re f r s =
     (if s = [] then (case match_at f r [] [] of None \<Rightarrow> [[]] | Some m \<Rightarrow> [])
      else split_loop f r [] s [])"

definition empty_repl :: "string \<Rightarrow> captures \<Rightarrow> string" where
  "empty_repl m c = []"

definition group1_repl :: "string \<Rightarrow> captures \<Rightarrow> string" where
  "group1_repl m c = group c 1"

definition const_repl :: "string \<Rightarrow> string \<Rightarrow> captures \<Rightarrow> string" where
  "const_repl t m c = t"

subsection \<open>Methods on plain strings\<close>

definition nl :: string where
  "nl = [CHR 0x0A]"

fun split_on :: "char \<Rightarrow> string \<Rightarrow> string \<Rightarrow> string list" where
  "split_on sep cur [] = [rev cur]"
| "split_on sep cur (x # xs) =
     (if x = sep then rev cur # split_on sep [] xs else split_on sep (x # cur) xs)"

definition trim :: "string \<Rightarrow> string" where
  "trim s = rev (dropWhile is_space (rev (dropWhile is_space s)))"

fun js_includes :: "string \<Rightarrow> string \<Rightarrow> bool" where
  "js_includes [] sub = (sub = [])"
| "js_includes (x # xs) sub = (str_ok False sub (x # xs) \<or> js_includes xs sub)"

definition startsWith :: "string \<Rightarrow> string \<Rightarrow> bool" where
  "startsWith s p = str_ok False p s"

definition join :: "string \<Rightarrow> string list \<Rightarrow> string" where
  "join sep xs = (case xs of [] \<Rightarrow> [] | y # ys \<Rightarrow> y @ concat (map (\<lambda>z. sep @ z) ys))"

text \<open>
  \<open>toLowerCase\<close> on the code units below 256: the letters A to Z and the capital
  letters of Latin-1, whose codes are 192 to 222 without the multiplication sign 215.
\<close>

definition lower_char :: "char \<Rightarrow> char" where
  "lower_char c =
     (if is_upper c \<or> (192 \<le> code_unit c \<and> code_unit c \<le> 222 \<and> code_unit c \<noteq> 215)
      then char_of (code_unit c + 32) else c)"

definition toLowerCase :: "string \<Rightarrow> string" where
  "toLowerCase s = map lower_char s"

text \<open>The decimal numeral of a natural number, as a template literal prints it.\<close>

fun string_of_nat :: "nat \<Rightarrow> string" where
  "string_of_nat n =
     (if n < 10 then [char_of (48 + n)]
      else string_of_nat (n div 10) @ [char_of (48 + n mod 10)])"

section \<open>The agent runtime (\<open>BaseAgent\<close>)\<close>

subsection \<open>Errors and model calls\<close>

text \<open>
  An exception is its message; an \<open>AgentError\<close> also names the agent that raised it.
  \<open>BaseAgent.chatComplete\<close> sends one user message to the model backend of the agent
  and returns the content of the answer, or throws an \<open>AgentError\<close> that wraps the
  error of the backend.  The backend is a function of the number of calls made before
  and of the message; the state threaded through the agents is the list of the calls
  made so far, each with the name of the agent and the message, so that one model call
  is one entry of this list.
\<close>

datatype exn = Error string | AgentError string string

type_synonym backend = "nat \<Rightarrow> string \<Rightarrow> exn + string"

type_synonym call_log = "(string \<times> string) list"

fun message :: "exn \<Rightarrow> string" where
  "message (Error m) = m"
| "message (AgentError m a) = m"

definition chatComplete ::
  "backend \<Rightarrow> string \<Rightarrow> string \<Rightarrow> call_log \<Rightarrow> (exn + string) \<times> call_log" where
  "chatComplete model agent userMessage lg =
     (case model (length lg) userMessage of
        Inl e \<Rightarrow> Inl (AgentError (agent @ '' execution failed: '' @ message e) agent)
      | Inr response \<Rightarrow> Inr response,
      lg @ [(agent, userMessage)])"

subsection \<open>Word counting\<close>

text \<open>\<open>BaseAgent.countWords\<close>: the raw words of a markdown text.\<close>

definition countWords :: "string \<Rightarrow> nat" where
  "countWords text =
     (if text = [] then 0
      else let
        t1 = replace_all (flags_of ''g'')
               (Seq (between 1 6 (chr CHR ''#'')) (OneOrMore space)) empty_repl [] text;
        t2 = replace_all (flags_of ''g'')
               (Seq (between 1 2 (chr CHR ''*''))
                 (Seq (Grp 1 (OneOrMore (NoneOf [Ch CHR ''*''])))
                      (between 1 2 (chr CHR ''*'')))) group1_repl [] t1;
        t3 = replace_all (flags_of ''g'')
               (Seq (chr CHR ''['')
                 (Seq (Grp 1 (OneOrMore (NoneOf [Ch CHR '']''])))
                   (Seq (Str '']('')
                     (Seq (OneOrMore (NoneOf [Ch CHR '')''])) (chr CHR '')''))))) group1_repl [] t2;
        t4 = replace_all (flags_of ''g'')
               (Seq (chr CHR 0x60) (Seq (Grp 1 (OneOrMore (NoneOf [Ch CHR 0x60]))) (chr CHR 0x60)))
               group1_repl [] t3;
        t5 = replace_all (flags_of ''gm'')
               (Seq Bol (Seq (Star space)
                 (Seq (One [Ch CHR ''-'', Ch CHR ''*'', Ch CHR ''+'']) (OneOrMore space))))
               empty_repl [] t4;
        t6 = replace_all (flags_of ''gm'')
               (Seq Bol (Seq (Star space)
                 (Seq (OneOrMore digit) (Seq (chr CHR ''.'') (OneOrMore space)))))
               empty_repl [] t5;
        cleanText = trim t6;
        words = filter (\<lambda>w. length w > 0) (split_re (flags_of []) (OneOrMore space) cleanText)
      in length words)"

text \<open>
  \<open>BaseAgent.countSpokenWords\<close>: the words of the dialogue lines.  The six patterns
  that remove a notes section are not global and end in the lookahead
  \<open>(?=\n##|\n\*\*Host|\Z)\<close>; the pattern has no flag \<open>u\<close>, so \<open>\Z\<close> is the letter Z.
\<close>

definition section_end :: re where
  "section_end = Ahead (Alt (Str (nl @ ''##'')) (Alt (Str (nl @ ''**Host'')) (Str ''Z'')))"

definition remove_section :: "string \<Rightarrow> string \<Rightarrow> string" where
  "remove_section title s =
     replace_first (flags_of ''s'') (Seq (Str title) (Seq (LazyStar Dot) section_end))
       empty_repl [] s"

definition host_line :: re where
  "host_line =
     Seq (Str ''**Host'')
       (Seq (OneOrMore space)
         (Seq (OneOrMore digit)
           (Seq (Str '':**'')
             (Seq (Star space)
               (Seq (Opt (Seq (chr CHR ''['') (Seq (LazyStar Dot) (chr CHR '']''))))
                 (Seq (Star space) (Grp 1 (OneOrMore Dot))))))))"

definition cleanContent :: "string \<Rightarrow> string" where
  "cleanContent content =
     (let
        c1 = replace_all (flags_of ''gm'')
               (Seq (between 1 6 (chr CHR ''#''))
                 (Seq (OneOrMore space) (Seq (Star Dot) Eol))) empty_repl [] content;
        c2 = replace_all (flags_of ''gm'')
               (Seq Bol (Seq (Str ''##'') (Seq (Star Dot) Eol))) empty_repl [] c1;
        c3 = replace_all (flags_of ''gm'')
               (Seq Bol (Seq (Str ''###'') (Seq (Star Dot) Eol))) empty_repl [] c2;
        c4 = replace_all (flags_of ''gm'')
               (Seq Bol (Seq (One [Ch CHR ''-'', Ch CHR ''*'', Ch CHR ''+''])
                 (Seq (OneOrMore space) (Seq (Star Dot) Eol)))) empty_repl [] c3;
        c5 = replace_all (flags_of ''gi'')
               (Seq (Str ''[Continue'') (Seq (LazyStar Dot) (chr CHR '']''))) empty_repl [] c4;
        c6 = replace_all (flags_of ''g'')
               (Seq (chr CHR ''['') (Seq (LazyStar Dot) (chr CHR '']''))) empty_repl [] c5;
        c7 = remove_section ''Speaking Notes'' c6;
        c8 = remove_section ''Script Metadata'' c7;
        c9 = remove_section ''Tone Analysis'' c8;
        c10 = remove_section ''Expression Notes'' c9;
        c11 = remove_section ''Technical TTS Guidance'' c10
      in remove_section ''CONSTRAINTS:'' c11)"

definition dialogueLines :: "string \<Rightarrow> string list" where
  "dialogueLines content =
     filter (\<lambda>text. length text > 0)
       (map (\<lambda>line. case match_first (flags_of ''i'') host_line [] line of
                       Some (m, c) \<Rightarrow> trim (group c 1)
                     | None \<Rightarrow> [])
          (filter (\<lambda>line. js_includes line ''**Host'')
             (map trim (split_on (CHR 0x0A) [] (cleanContent content)))))"

definition countSpokenWords :: "string \<Rightarrow> nat" where
  "countSpokenWords content =
     (if content = [] then 0
      else let
        totalSpokenText = join '' '' (dialogueLines content);
        w1 = replace_all (flags_of ''g'') (NoneOf [Word, Space]) (const_repl '' '') []
               totalSpokenText;
        w2 = replace_all (flags_of ''g'') (OneOrMore space) (const_repl '' '') [] w1;
        words = filter (\<lambda>word. length word > 0) (split_on CHR '' '' [] (trim w2))
      in length words)"

subsection \<open>Markdown extraction\<close>

text \<open>
  \<open>BaseAgent.extractMetadata\<close> and \<open>BaseAgent.extractMarkdown\<close>.  A response whose
  content is the empty string is falsy: \<open>response.content || response\<close> is then the
  response object, which is not a string, and \<open>extractMarkdown\<close> throws.
\<close>

record metadata =
  headings :: "string list option"
  listItems :: "nat option"
  links :: "nat option"

definition nonempty :: "'a list \<Rightarrow> 'a list option" where
  "nonempty xs = (if xs = [] then None else Some xs)"

definition extractMetadata :: "string \<Rightarrow> metadata" where
  "extractMetadata content =
     \<lparr>headings =
        map_option
          (map (replace_first (flags_of [])
                  (Seq Bol (Seq (OneOrMore (chr CHR ''#'')) (OneOrMore space))) empty_repl []))
          (nonempty (match_all (flags_of ''gm'')
             (Seq Bol (Seq (OneOrMore (chr CHR ''#''))
               (Seq (OneOrMore space) (Seq (Grp 1 (OneOrMore Dot)) Eol)))) [] content)),
      listItems =
        map_option length
          (nonempty (match_all (flags_of ''gm'')
             (Seq Bol (Seq (One [Ch CHR ''-'', Ch CHR ''*'', Ch CHR ''+''])
               (Seq (OneOrMore space) (Seq (Grp 1 (OneOrMore Dot)) Eol)))) [] content)),
      links =
        map_option length
          (nonempty (match_all (flags_of ''g'')
             (Seq (chr CHR ''['')
               (Seq (Grp 1 (OneOrMore (NoneOf [Ch CHR '']''])))
                 (Seq (Str '']('')
                   (Seq (Grp 2 (OneOrMore (NoneOf [Ch CHR '')'']))) (chr CHR '')''))))) [] content))\<rparr>"

record markdown =
  content :: string
  meta :: metadata
  wordCount :: nat

definition extractMarkdown :: "string \<Rightarrow> string \<Rightarrow> exn + markdown" where
  "extractMarkdown agent response =
     (if response = [] then
        Inl (AgentError (''Invalid response format from '' @ agent @ '' agent'') agent)
      else
        Inr \<lparr>content = trim response,
             meta = extractMetadata response,
             wordCount = countSpokenWords response\<rparr>)"

subsection \<open>Numbers\<close>

text \<open>
  A quotient of the source may be \<open>NaN\<close> or infinite.  Such a number fails every
  comparison \<open>\<le>\<close> with a finite bound, and only the positive infinity passes a
  comparison \<open>>\<close>.  \<open>calculateWordAccuracy\<close>, which the Scripter and the Editor define
  alike, is \<open>Math.round(((actualWords - targetWords) / targetWords) * 10000) / 100\<close>.
  The quotient and the product are exact here and doubles in the source, so that
  where the exact product ends in one half the source may round to the other side:
  for 793 words of 800 the source computes -0.88 and this definition -0.87.
\<close>

datatype num = Num real | PosInfinity | NegInfinity | NaN

definition js_divide :: "int \<Rightarrow> nat \<Rightarrow> num" where
  "js_divide a b =
     (if b = 0 then (if a = 0 then NaN else if 0 < a then PosInfinity else NegInfinity)
      else Num (real_of_int a / real b))"

fun num_map :: "(real \<Rightarrow> real) \<Rightarrow> num \<Rightarrow> num" where
  "num_map g (Num x) = Num (g x)"
| "num_map g n = n"

fun js_abs :: "num \<Rightarrow> num" where
  "js_abs (Num x) = Num \<bar>x\<bar>"
| "js_abs NegInfinity = PosInfinity"
| "js_abs n = n"

fun js_le :: "num \<Rightarrow> real \<Rightarrow> bool" where
  "js_le (Num x) y = (x \<le> y)"
| "js_le NegInfinity y = True"
| "js_le n y = False"

fun js_gt :: "num \<Rightarrow> real \<Rightarrow> bool" where
  "js_gt (Num x) y = (x > y)"
| "js_gt PosInfinity y = True"
| "js_gt n y = False"

definition calculateWordAccuracy :: "nat \<Rightarrow> nat \<Rightarrow> num" where
  "calculateWordAccuracy actualWords targetWords =
     num_map (\<lambda>x. real_of_int (js_round (x * 10000)) / 100)
       (js_divide (int actualWords - int targetWords) targetWords)"

section \<open>The word-count convergence loops\<close>

text \<open>
  \<open>ScriptAgent.generateScriptWithWordCount\<close> and \<open>EditorAgent.editForWordCount\<close>.  Each
  is a \<open>for\<close> loop over \<open>attempt = 1, ..., maxAttempts\<close> that returns from inside the loop
  when an answer is within tolerance, followed by the statements after the loop; \<open>wc\<close>
  is the variable \<open>wordCount\<close> of the source.  The
  recursion below runs the loop while \<open>attempt \<le> maxAttempts\<close> and then the statements
  after it.
\<close>

definition maxAttempts :: nat where
  "maxAttempts = 3"

definition script_short :: "nat \<Rightarrow> nat \<Rightarrow> string" where
  "script_short wc targetWords =
     nl @ nl @ ''IMPORTANT: The previous attempt was '' @ string_of_nat wc @
     '' words, which is '' @ string_of_nat (targetWords - wc) @
     '' words SHORT. Please expand the content to reach exactly '' @ string_of_nat targetWords @
     '' words by adding more detail, examples, or explanations.''"

definition script_long :: "nat \<Rightarrow> nat \<Rightarrow> string" where
  "script_long wc targetWords =
     nl @ nl @ ''IMPORTANT: The previous attempt was '' @ string_of_nat wc @
     '' words, which is '' @ string_of_nat (wc - targetWords) @
     '' words TOO LONG. Please condense the content to reach exactly '' @
     string_of_nat targetWords @
     '' words by being more concise while keeping all key points.''"

function script_loop ::
  "backend \<Rightarrow> nat \<Rightarrow> nat \<Rightarrow> string \<Rightarrow> call_log \<Rightarrow> (exn + string) \<times> call_log" where
  "script_loop model targetWords attempt prompt lg =
     (if attempt \<le> maxAttempts then
        (case chatComplete model ''ScriptAgent'' prompt lg of
           (Inl e, lg') \<Rightarrow> (Inl e, lg')
         | (Inr response, lg') \<Rightarrow>
             let wc = countSpokenWords response;
                 accuracy = calculateWordAccuracy wc targetWords
             in if js_le (js_abs accuracy) 2 then (Inr response, lg')
                else script_loop model targetWords (attempt + 1)
                       (if attempt < maxAttempts then
                          (if wc < targetWords
                           then prompt @ script_short wc targetWords
                           else prompt @ script_long wc targetWords)
                        else prompt)
                       lg')
      else chatComplete model ''ScriptAgent'' prompt lg)"
  by pat_completeness auto
termination
  by (relation "measure (\<lambda>(model, targetWords, attempt, prompt, lg). Suc maxAttempts - attempt)")
     auto

declare script_loop.simps [simp del]

definition generateScriptWithWordCount ::
  "backend \<Rightarrow> string \<Rightarrow> nat \<Rightarrow> call_log \<Rightarrow> (exn + string) \<times> call_log" where
  "generateScriptWithWordCount model prompt targetWords lg =
     script_loop model targetWords 1 prompt lg"

definition edit_long :: "nat \<Rightarrow> nat \<Rightarrow> string" where
  "edit_long wc difference =
     nl @ nl @ ''CRITICAL: Previous attempt was '' @ string_of_nat wc @ '' words ('' @
     string_of_nat difference @ '' words TOO LONG). You must reduce by exactly '' @
     string_of_nat difference @
     '' words while maintaining quality. Be more aggressive in condensing content.''"

definition edit_short :: "nat \<Rightarrow> nat \<Rightarrow> string" where
  "edit_short wc difference =
     nl @ nl @ ''CRITICAL: Previous attempt was '' @ string_of_nat wc @ '' words ('' @
     string_of_nat difference @ '' words TOO SHORT). You must add exactly '' @
     string_of_nat difference @
     '' words while maintaining quality. Include more detail and examples.''"

function edit_loop ::
  "backend \<Rightarrow> nat \<Rightarrow> real \<Rightarrow> nat \<Rightarrow> string \<Rightarrow> call_log \<Rightarrow> (exn + string) \<times> call_log" where
  "edit_loop model targetWords tolerance attempt prompt lg =
     (if attempt \<le> maxAttempts then
        (case chatComplete model ''EditorAgent'' prompt lg of
           (Inl e, lg') \<Rightarrow> (Inl e, lg')
         | (Inr response, lg') \<Rightarrow>
             let wc = countSpokenWords response;
                 accuracy = js_abs (calculateWordAccuracy wc targetWords)
             in if js_le accuracy tolerance then (Inr response, lg')
                else edit_loop model targetWords tolerance (attempt + 1)
                       (if attempt < maxAttempts then
                          (if targetWords < wc
                           then prompt @ edit_long wc (wc - targetWords)
                           else prompt @ edit_short wc (targetWords - wc))
                        else prompt)
                       lg')
      else chatComplete model ''EditorAgent'' prompt lg)"
  by pat_completeness auto
termination
  by (relation
       "measure (\<lambda>(model, targetWords, tolerance, attempt, prompt, lg). Suc maxAttempts - attempt)")
     auto

declare edit_loop.simps [simp del]

definition editForWordCount ::
  "backend \<Rightarrow> string \<Rightarrow> nat \<Rightarrow> real \<Rightarrow> call_log \<Rightarrow> (exn + string) \<times> call_log" where
  "editForWordCount model prompt targetWords tolerance lg =
     edit_loop model targetWords tolerance 1 prompt lg"

text \<open>
  A backend for the examples: its \<open>k\<close>-th answer is one dialogue line of \<open>k\<close> words, far
  below any admissible target.
\<close>

definition short_answers :: backend where
  "short_answers k userMessage =
     Inr (''**Host 1:** '' @ join '' '' (replicate (Suc k) ''word''))"

text \<open>An answer misses the target when its deviation is not within the tolerance.\<close>

definition misses :: "real \<Rightarrow> nat \<Rightarrow> string \<Rightarrow> bool" where
  "misses tolerance targetWords response =
     (\<not> js_le (js_abs (calculateWordAccuracy (countSpokenWords response) targetWords)) tolerance)"

section \<open>The Editor (\<open>EditorAgent\<close>)\<close>

text \<open>
  The input object of the Editor is the record \<open>editor_input\<close>; its fields carry the
  prefix \<open>ed_\<close> because \<open>targetWords\<close>, \<open>style\<close> and \<open>mood\<close> are fields of other inputs
  too.  Of the analysis that \<open>analyzeScript\<close> returns, the fields that the validation
  reads are kept: the spoken word count, the number of sentences and the average
  number of words per sentence, rounded to one decimal.
\<close>

record editor_input =
  ed_script :: string
  ed_targetWords :: nat
  ed_tolerance :: real
  ed_style :: string
  ed_mood :: string

record script_analysis =
  an_wordCount :: nat
  an_sentences :: nat
  an_avgWordsPerSentence :: num

definition analyzeScript :: "string \<Rightarrow> script_analysis" where
  "analyzeScript script =
     (let wc = countSpokenWords script;
          sentences = filter (\<lambda>s. length (trim s) > 0)
                        (split_re (flags_of [])
                           (OneOrMore (One [Ch CHR ''.'', Ch CHR ''!'', Ch CHR ''?''])) script);
          avgWordsPerSentence = js_divide (int wc) (length sentences)
      in \<lparr>an_wordCount = wc,
          an_sentences = length sentences,
          an_avgWordsPerSentence =
            num_map (\<lambda>x. real_of_int (js_round (x * 10)) / 10) avgWordsPerSentence\<rparr>)"

text \<open>\<open>EditorAgent.validateInput\<close>.\<close>

definition editor_validateInput :: "editor_input \<Rightarrow> exn + bool" where
  "editor_validateInput input =
     (if length (trim (ed_script input)) = 0 then
        Inl (Error ''Script content is required for editing'')
      else if ed_targetWords input < 50 \<or> ed_targetWords input > 5000 then
        Inl (Error ''Target words must be between 50 and 5000'')
      else if ed_tolerance input < 0 \<or> ed_tolerance input > 10 then
        Inl (Error ''Tolerance must be between 0 and 10 percent'')
      else Inr True)"

text \<open>
  \<open>EditorAgent.validateFinalScript\<close>.  Every check of the source ends in a call of
  the logger; the model returns the warnings in the order in which the source logs
  them, next to the value that the source returns.
\<close>

datatype warning =
    WordCountOutsideRange
  | FinalScriptQuiteShort
  | MissingToneLabels
  | SentencesTooLong
  | NotProductionReady

definition newToneLabel :: re where
  "newToneLabel =
     Seq (Str ''**Host '')
       (Seq (One [Ch CHR ''1'', Ch CHR ''2''])
         (Seq (Str '':**'')
           (Seq (Star space)
             (Seq (chr CHR ''['')
               (Seq (Grp 1 (OneOrMore (NoneOf [Ch CHR '']'']))) (chr CHR '']''))))))"

definition oldToneLabel :: re where
  "oldToneLabel =
     Seq (Str ''**['') (Seq (Grp 1 (OneOrMore (NoneOf [Ch CHR '']'']))) (Str '']**''))"

definition productionReady :: "string \<Rightarrow> bool" where
  "productionReady c =
     (js_includes c ''**['' \<and> length c > 100 \<and>
      \<not> js_includes c ''TODO'' \<and> \<not> js_includes c ''[INSERT'')"

definition validateFinalScript :: "markdown \<Rightarrow> editor_input \<Rightarrow> (exn + bool) \<times> warning list" where
  "validateFinalScript finalScript input =
     (let lenientTolerance = max (ed_tolerance input) 15;
          wordAccuracy = js_abs (calculateWordAccuracy (wordCount finalScript) (ed_targetWords input));
          newToneLabels = length (match_all (flags_of ''g'') newToneLabel [] (content finalScript));
          oldToneLabels = length (match_all (flags_of ''g'') oldToneLabel [] (content finalScript));
          totalToneLabels = newToneLabels + oldToneLabels;
          finalAnalysis = analyzeScript (content finalScript)
      in (Inr True,
          (if js_gt wordAccuracy lenientTolerance then [WordCountOutsideRange] else []) @
          (if wordCount finalScript < 25 then [FinalScriptQuiteShort] else []) @
          (if totalToneLabels = 0 then [MissingToneLabels] else []) @
          (if js_gt (an_avgWordsPerSentence finalAnalysis) 30 then [SentencesTooLong] else []) @
          (if \<not> productionReady (content finalScript) then [NotProductionReady] else [])))"

text \<open>
  \<open>EditorAgent.execute\<close>.  The text of the editing prompt is built by
  \<open>createEditingPrompt\<close> from the input and the analysis of the script; the function
  is a parameter.  The result is the extracted final script together with the
  \<open>editingData\<close> of the source; the editorial analysis and the quality metrics, which
  nothing downstream reads, are left out.
\<close>

record final_script = markdown +
  originalWordCount :: nat
  finalWordCount :: nat
  accuracy :: num

definition editor_execute ::
  "backend \<Rightarrow> (editor_input \<Rightarrow> script_analysis \<Rightarrow> string) \<Rightarrow> editor_input \<Rightarrow> call_log
     \<Rightarrow> (exn + final_script) \<times> call_log" where
  "editor_execute model createEditingPrompt input lg =
     (case editor_validateInput input of
        Inl e \<Rightarrow> (Inl e, lg)
      | Inr ok \<Rightarrow>
          let currentAnalysis = analyzeScript (ed_script input);
              editingPrompt = createEditingPrompt input currentAnalysis
          in case editForWordCount model editingPrompt (ed_targetWords input)
                    (ed_tolerance input) lg of
               (Inl e, lg') \<Rightarrow> (Inl e, lg')
             | (Inr response, lg') \<Rightarrow>
                 (case extractMarkdown ''EditorAgent'' response of
                    Inl e \<Rightarrow> (Inl e, lg')
                  | Inr finalScript \<Rightarrow>
                      (case fst (validateFinalScript finalScript input) of
                         Inl e \<Rightarrow> (Inl e, lg')
                       | Inr valid \<Rightarrow>
                           (Inr \<lparr>content = content finalScript,
                                 meta = meta finalScript,
                                 wordCount = wordCount finalScript,
                                 originalWordCount = an_wordCount currentAnalysis,
                                 finalWordCount = wordCount finalScript,
                                 accuracy = calculateWordAccuracy (wordCount finalScript)
                                              (ed_targetWords input)\<rparr>,
                            lg'))))"

text \<open>
  For the examples: a backend whose every answer is the placeholder \<open>TODO\<close>, and an
  input of the Editor with the tolerance of the configuration.
\<close>

definition todo_answers :: backend where
  "todo_answers k userMessage = Inr ''TODO''"

definition editor_input0 :: editor_input where
  "editor_input0 =
     \<lparr>ed_script = ''**Host 1:** [calm] Hello.'', ed_targetWords = 150, ed_tolerance = 5,
      ed_style = ''conversational'', ed_mood = ''neutral''\<rparr>"

section \<open>The Tone Annotator's parser (\<open>ToneAgent\<close>)\<close>

text \<open>
  An utterance is the record that \<open>parseUtterances\<close> pushes.  Its fields \<open>index\<close>,
  \<open>text\<close> and \<open>wordCount\<close> are named \<open>idx\<close>, \<open>utext\<close> and \<open>u_wordCount\<close> here.
\<close>

record utterance =
  idx :: nat
  speaker :: string
  tone :: string
  utext :: string
  u_wordCount :: nat
  estimatedDuration :: int

subsection \<open>Sentences\<close>

definition abbreviation_dot :: re where
  "abbreviation_dot =
     Seq WordB
       (Seq (Grp 1
              (Alt (Str ''Mr'') (Alt (Str ''Mrs'') (Alt (Str ''Ms'') (Alt (Str ''Dr'')
              (Alt (Str ''Prof'') (Alt (Str ''Sr'') (Alt (Str ''Jr'') (Alt (Str ''vs'')
              (Alt (Str ''etc'') (Alt (Str ''i.e'') (Str ''e.g''))))))))))))
            (chr CHR ''.''))"

definition protect_dot :: "string \<Rightarrow> captures \<Rightarrow> string" where
  "protect_dot m c = replace_first (flags_of []) (Str ''.'') (const_repl ''<!DOT!>'') [] m"

definition comma_chunks :: "string list \<Rightarrow> string list" where
  "comma_chunks parts =
     (if parts = [] then [] else map (\<lambda>chunk. chunk @ '','') (butlast parts) @ [last parts])"

definition splitIntoSentences :: "string \<Rightarrow> string list" where
  "splitIntoSentences t =
     (if length (trim t) = 0 then []
      else let
        sentences =
          filter (\<lambda>sentence. length sentence > 0)
            (map trim
              (map (replace_all (flags_of ''g'') (Str ''<!DOT!>'') (const_repl ''.'') [])
                (split_re (flags_of [])
                   (Seq (Behind [Ch CHR ''.'', Ch CHR ''!'', Ch CHR ''?'']) (OneOrMore space))
                   (replace_all (flags_of ''gi'') abbreviation_dot protect_dot [] t))));
        chunks =
          (case sentences of
             [longSentence] \<Rightarrow>
               if length longSentence > 120
               then comma_chunks (split_re (flags_of [])
                                    (Seq (chr CHR '','') (OneOrMore space)) longSentence)
               else []
           | other \<Rightarrow> [])
      in if length chunks > 1 \<and> list_all (\<lambda>chunk. length chunk < 80) chunks then chunks
         else if length sentences > 0 then sentences else [t])"

subsection \<open>Tone inferred from the content\<close>

definition inferToneFromContent :: "string \<Rightarrow> string" where
  "inferToneFromContent t =
     (let lowerText = toLowerCase t in
      if js_includes lowerText ''!'' \<or> js_includes lowerText ''amazing'' \<or>
         js_includes lowerText ''incredible'' \<or> js_includes lowerText ''wow'' then ''excited''
      else if js_includes lowerText ''?'' \<or> js_includes lowerText ''wonder'' \<or>
         js_includes lowerText ''curious'' then ''curious''
      else if js_includes lowerText ''however'' \<or> js_includes lowerText ''consider'' \<or>
         js_includes lowerText ''think'' \<or> js_includes lowerText ''reflect'' then ''reflective''
      else if js_includes lowerText ''ha'' \<or> js_includes lowerText ''funny'' \<or>
         js_includes lowerText ''joke'' then ''humorous''
      else if js_includes lowerText ''serious'' \<or> js_includes lowerText ''important'' \<or>
         js_includes lowerText ''critical'' then ''serious''
      else if js_includes lowerText ''doubt'' \<or> js_includes lowerText ''really'' \<or>
         js_includes lowerText ''sure'' then ''skeptical''
      else ''calm'')"

subsection \<open>Pushing utterances\<close>

text \<open>
  The parser keeps the list \<open>utterances\<close> and the counter \<open>utteranceIndex\<close>.  A push
  reads the counter for the index, increments it, and then computes the speaker, which
  in the alternating formats depends on the incremented counter.  \<open>push_sentences\<close>
  is the \<open>forEach\<close> over the sentences of one block of text.
\<close>

type_synonym parser_state = "utterance list \<times> nat"

definition push_utterance ::
  "(nat \<Rightarrow> string) \<Rightarrow> string \<Rightarrow> string \<Rightarrow> string \<Rightarrow> parser_state \<Rightarrow> parser_state" where
  "push_utterance speakerOf tn t counted st =
     (case st of (utterances, utteranceIndex) \<Rightarrow>
        (utterances @
           [\<lparr>idx = utteranceIndex,
             speaker = speakerOf (utteranceIndex + 1),
             tone = tn,
             utext = t,
             u_wordCount = countWords counted,
             estimatedDuration = js_round (real (countWords counted) / 150 * 60)\<rparr>],
         utteranceIndex + 1))"

definition push_sentences ::
  "(nat \<Rightarrow> string) \<Rightarrow> string \<Rightarrow> string list \<Rightarrow> parser_state \<Rightarrow> parser_state" where
  "push_sentences speakerOf tn sentences st =
     foldl (\<lambda>st sentence.
              if length (trim sentence) > 0
              then push_utterance speakerOf tn (trim sentence) sentence st else st)
           st sentences"

definition host :: "string \<Rightarrow> nat \<Rightarrow> string" where
  "host hostNumber utteranceIndex = ''host'' @ hostNumber"

definition alternate_odd :: "nat \<Rightarrow> string" where
  "alternate_odd utteranceIndex = (if utteranceIndex mod 2 = 1 then ''host1'' else ''host2'')"

definition alternate_even :: "nat \<Rightarrow> string" where
  "alternate_even utteranceIndex = (if utteranceIndex mod 2 = 0 then ''host1'' else ''host2'')"

subsection \<open>The patterns of the parser\<close>

definition enhancedSection :: re where
  "enhancedSection =
     Seq (Str ''## Enhanced Script Content'')
       (Seq (Star space)
         (Seq (Str nl)
           (Seq (Grp 1 (LazyStar Dot)) (Ahead (Alt (Str (nl @ ''##'')) Eol)))))"

definition hostLabel :: re where
  "hostLabel = Seq (Str ''**Host '') (Seq (One [Ch CHR ''1'', Ch CHR ''2'']) (Str '':**''))"

definition hostToneRegex :: re where
  "hostToneRegex =
     Seq (Str ''**Host '')
       (Seq (Grp 1 (One [Ch CHR ''1'', Ch CHR ''2'']))
         (Seq (Str '':**'')
           (Seq (Star space)
             (Seq (chr CHR ''['')
               (Seq (Grp 2 (OneOrMore (NoneOf [Ch CHR '']''])))
                 (Seq (chr CHR '']'')
                   (Seq (OneOrMore space)
                     (Seq (Grp 3 (LazyStar Dot)) (Ahead (Alt hostLabel Eol))))))))))"

definition utteranceRegex :: re where
  "utteranceRegex =
     Seq (Str ''**['')
       (Seq (Grp 1 (OneOrMore (NoneOf [Ch CHR '']''])))
         (Seq (Str '']**'')
           (Seq (OneOrMore space)
             (Seq (Grp 2 (LazyStar Dot)) (Ahead (Alt (Str ''**['') Eol))))))"

definition hostLineRegex :: re where
  "hostLineRegex =
     Seq (Str ''**Host '')
       (Seq (Grp 1 (One [Ch CHR ''1'', Ch CHR ''2'']))
         (Seq (Str '':**'') (Seq (OneOrMore space) (Grp 2 (Star Dot)))))"

definition cleanText :: "string \<Rightarrow> string" where
  "cleanText t =
     trim (replace_all (flags_of ''g'') (OneOrMore space) (const_repl '' '') []
            (replace_all (flags_of ''g'') (OneOrMore (chr (CHR 0x0A))) (const_repl '' '') [] t))"

subsection \<open>The four strategies\<close>

definition hostToneStep :: "parser_state \<Rightarrow> string \<times> captures \<Rightarrow> parser_state" where
  "hostToneStep st m =
     (let hostNumber = group (snd m) 1; tn = group (snd m) 2; t = cleanText (group (snd m) 3)
      in if length t > 0
         then push_sentences (host hostNumber) (trim (toLowerCase tn)) (splitIntoSentences t) st
         else st)"

definition toneOnlyStep :: "parser_state \<Rightarrow> string \<times> captures \<Rightarrow> parser_state" where
  "toneOnlyStep st m =
     (let tn = group (snd m) 1; t = cleanText (group (snd m) 2)
      in if length t > 0
         then push_sentences alternate_odd (trim (toLowerCase tn)) (splitIntoSentences t) st
         else st)"

definition hostLineStep :: "parser_state \<Rightarrow> string \<Rightarrow> parser_state" where
  "hostLineStep st line =
     (case match_first (flags_of []) hostLineRegex [] line of
        None \<Rightarrow> st
      | Some (m, c) \<Rightarrow>
          let hostNumber = group c 1; t = trim (group c 2)
          in if length t > 0
             then push_sentences (host hostNumber) (inferToneFromContent t)
                    (splitIntoSentences t) st
             else st)"

definition paragraphStep :: "parser_state \<Rightarrow> string \<Rightarrow> parser_state" where
  "paragraphStep st paragraph =
     (if startsWith paragraph ''#'' \<or>
         (js_includes paragraph ''**'' \<and> js_includes paragraph '':'' \<and>
          \<not> js_includes paragraph ''Host'')
      then st
      else case match_first (flags_of []) hostLineRegex [] paragraph of
             Some (m, c) \<Rightarrow>
               let hostNumber = group c 1; t = trim (group c 2)
               in if length t > 0
                  then push_sentences (host hostNumber) (inferToneFromContent t)
                         (splitIntoSentences t) st
                  else st
           | None \<Rightarrow>
               push_utterance alternate_even (inferToneFromContent paragraph) paragraph
                 paragraph st)"

definition parseAlternativeFormat :: "string \<Rightarrow> utterance list" where
  "parseAlternativeFormat c =
     (let lines = filter (\<lambda>line. length (trim line) > 0) (split_on (CHR 0x0A) [] c);
          byLine = foldl hostLineStep ([], 0) lines
      in if length (fst byLine) = 0 then
           let paragraphs =
                 map (\<lambda>p. trim (replace_all (flags_of ''g'') (chr (CHR 0x0A))
                                   (const_repl '' '') [] p))
                   (filter (\<lambda>p. length (trim p) > 0)
                      (split_re (flags_of [])
                         (Seq (Str nl) (Seq (Star space) (Str nl))) c))
           in fst (foldl paragraphStep byLine paragraphs)
         else fst byLine)"

text \<open>
  \<open>ToneAgent.parseUtterances\<close>.  The result is \<open>None\<close> when one of the two \<open>exec\<close> loops
  does not end.
\<close>

definition scriptContentOf :: "string \<Rightarrow> string" where
  "scriptContentOf c =
     (case match_first (flags_of ''s'') enhancedSection [] c of
        Some (m, g) \<Rightarrow> group g 1
      | None \<Rightarrow> c)"

definition parseUtterances :: "string \<Rightarrow> utterance list option" where
  "parseUtterances c =
     (let scriptContent = scriptContentOf c
      in case exec_all (flags_of ''gs'') hostToneRegex [] scriptContent of
           None \<Rightarrow> None
         | Some hostToneMatches \<Rightarrow>
             let byHostTone = foldl hostToneStep ([], 0) hostToneMatches
             in if length (fst byHostTone) = 0 then
                  (case exec_all (flags_of ''gs'') utteranceRegex [] scriptContent of
                     None \<Rightarrow> None
                   | Some toneMatches \<Rightarrow>
                       let byTone = foldl toneOnlyStep (fst byHostTone, 0) toneMatches
                       in if length (fst byTone) = 0 then
                            let byLine = foldl hostLineStep (fst byTone, 0)
                                           (split_on (CHR 0x0A) [] scriptContent)
                            in if length (fst byLine) = 0
                               then Some (parseAlternativeFormat scriptContent)
                               else Some (fst byLine)
                          else Some (fst byTone))
                else Some (fst byHostTone))"

text \<open>The closed tone set of the specification and the synonyms it accepts.\<close>

definition closedToneSet :: "string list" where
  "closedToneSet =
     [''upbeat'', ''calm'', ''excited'', ''reflective'', ''suspenseful'', ''skeptical'',
      ''humorous'', ''serious'', ''curious'', ''confident'']"

definition toneSynonyms :: "string list" where
  "toneSynonyms = [''sad'', ''hopeful'', ''empathetic'', ''angry'']"

text \<open>
  The tones that \<open>inferToneFromContent\<close> returns, and the bracketed tags of a script:
  the second group of every match of the host-tone pattern and the first group of
  every match of the legacy pattern, lower-cased and trimmed.
\<close>

definition inferredTones :: "string list" where
  "inferredTones =
     [''excited'', ''curious'', ''reflective'', ''humorous'', ''serious'', ''skeptical'', ''calm'']"

definition bracketTones :: "string \<Rightarrow> string list" where
  "bracketTones c =
     map (\<lambda>m. trim (toLowerCase (group (snd m) 2)))
       (case exec_all (flags_of ''gs'') hostToneRegex [] (scriptContentOf c) of
          None \<Rightarrow> [] | Some found \<Rightarrow> found) @
     map (\<lambda>m. trim (toLowerCase (group (snd m) 1)))
       (case exec_all (flags_of ''gs'') utteranceRegex [] (scriptContentOf c) of
          None \<Rightarrow> [] | Some found \<Rightarrow> found)"

text \<open>
  An utterance is in order, relative to a list of tags, when its speaker is \<open>host1\<close> or
  \<open>host2\<close> and its tone is an inferred tone or one of the tags.
\<close>

definition utterance_ok :: "string list \<Rightarrow> utterance \<Rightarrow> bool" where
  "utterance_ok tags u =
     ((speaker u = ''host1'' \<or> speaker u = ''host2'') \<and>
      (tone u \<in> set inferredTones \<or> tone u \<in> set tags))"

text \<open>
  The tones that the two tagged strategies should give, in the words of the amended
  specification: a block of text that carries a bracketed tag yields one utterance for
  each of its sentences that is not blank, and the tone of each is the tag of the
  block, lower-cased and trimmed.  \<open>hostToneTags\<close> lists these tones for the blocks
  that the host-tone pattern finds in a script, \<open>toneOnlyTags\<close> for the blocks that
  the legacy pattern finds.
\<close>

definition block_tones :: "string \<Rightarrow> string \<Rightarrow> string list" where
  "block_tones tag t =
     (if length t > 0
      then replicate (length (filter (\<lambda>sentence. length (trim sentence) > 0)
                                (splitIntoSentences t))) tag
      else [])"

definition hostToneTags :: "string \<Rightarrow> string list" where
  "hostToneTags c =
     concat (map (\<lambda>m. block_tones (trim (toLowerCase (group (snd m) 2)))
                         (cleanText (group (snd m) 3)))
               (case exec_all (flags_of ''gs'') hostToneRegex [] (scriptContentOf c) of
                  None \<Rightarrow> [] | Some found \<Rightarrow> found))"

definition toneOnlyTags :: "string \<Rightarrow> string list" where
  "toneOnlyTags c =
     concat (map (\<lambda>m. block_tones (trim (toLowerCase (group (snd m) 1)))
                         (cleanText (group (snd m) 2)))
               (case exec_all (flags_of ''gs'') utteranceRegex [] (scriptContentOf c) of
                  None \<Rightarrow> [] | Some found \<Rightarrow> found))"

section \<open>The planning-side agents\<close>

text \<open>
  \<open>PlannerAgent\<close>, \<open>ResearchAgent\<close> and \<open>OutlineAgent\<close> share one shape of \<open>execute\<close>:
  validate the input, build a prompt, make one model call, extract the markdown of
  the answer with \<open>BaseAgent.extractMarkdown\<close>, parse it, validate it, and return the
  extracted markdown extended with the parsed fields.  The prompt builders only
  concatenate text and are parameters.  Of the parsed fields the model keeps those
  that the orchestrator reads: the sections and the timing of an outline.  The chapter
  list of a plan and the findings and sources of research notes are parsed from the
  content, feed log entries and prompts only, and are left out.
\<close>

subsection \<open>Required sections\<close>

text \<open>
  \<open>requiredSections.filter(section => !section.patterns.some(pattern =>
  content.includes(pattern)))\<close>, where \<open>content\<close> is the lower-cased content.
\<close>

definition missingSections ::
  "(string \<times> string list) list \<Rightarrow> string \<Rightarrow> (string \<times> string list) list" where
  "missingSections requiredSections c =
     filter (\<lambda>(name, patterns). \<not> list_ex (\<lambda>pattern. js_includes c pattern) patterns)
       requiredSections"

subsection \<open>\<open>PlannerAgent\<close>\<close>

record planning_input =
  pl_topic :: string
  pl_focus :: "string option"
  pl_chapters :: nat
  pl_durationMin :: nat
  pl_mood :: string
  pl_style :: string
  pl_targetWords :: nat

definition planner_validateInput :: "planning_input \<Rightarrow> exn + bool" where
  "planner_validateInput input =
     (if length (trim (pl_topic input)) = 0 then
        Inl (Error ''Topic is required and must be a non-empty string'')
      else if pl_chapters input < 1 \<or> pl_chapters input > 10 then
        Inl (Error ''Chapters must be between 1 and 10'')
      else if pl_durationMin input < 1 \<or> pl_durationMin input > 120 then
        Inl (Error ''Duration must be between 1 and 120 minutes'')
      else if pl_targetWords input < 50 then
        Inl (Error ''Target words must be at least 50'')
      else Inr True)"

definition planSections :: "(string \<times> string list) list" where
  "planSections =
     [(''Overview'',
       [''overview'', ''episode overview'', ''podcast overview'', ''summary'', ''introduction'']),
      (''Chapter Breakdown'',
       [''chapter breakdown'', ''chapters'', ''episode structure'', ''chapter structure'',
        ''breakdown'', ''content structure'']),
      (''Research Priorities'',
       [''research priorities'', ''research'', ''research focus'', ''research needs'',
        ''sources'', ''information needs'']),
      (''Style Guidelines'',
       [''style guidelines'', ''style'', ''guidelines'', ''tone guidelines'', ''approach'',
        ''tone'', ''format''])]"

definition missing_message :: "string \<Rightarrow> (string \<times> string list) list \<Rightarrow> string" where
  "missing_message what missing =
     what @ '' missing required sections: '' @ join '', '' (map fst missing) @
     ''. Expected patterns: '' @ join ''; '' (map (\<lambda>s. join '' OR '' (snd s)) missing)"

definition validatePlan :: "markdown \<Rightarrow> planning_input \<Rightarrow> exn + bool" where
  "validatePlan plan input =
     (let missing = missingSections planSections (toLowerCase (content plan))
      in if length missing > 2 then Inl (Error (missing_message ''Plan'' missing))
         else Inr True)"

definition planner_execute ::
  "backend \<Rightarrow> (planning_input \<Rightarrow> string) \<Rightarrow> planning_input \<Rightarrow> call_log
     \<Rightarrow> (exn + markdown) \<times> call_log" where
  "planner_execute model createPlanningPrompt input lg =
     (case planner_validateInput input of
        Inl e \<Rightarrow> (Inl e, lg)
      | Inr ok \<Rightarrow>
          (case chatComplete model ''PlannerAgent'' (createPlanningPrompt input) lg of
             (Inl e, lg') \<Rightarrow> (Inl e, lg')
           | (Inr response, lg') \<Rightarrow>
               (case extractMarkdown ''PlannerAgent'' response of
                  Inl e \<Rightarrow> (Inl e, lg')
                | Inr plan \<Rightarrow>
                    (case validatePlan plan input of
                       Inl e \<Rightarrow> (Inl e, lg')
                     | Inr ok \<Rightarrow> (Inr plan, lg')))))"

subsection \<open>\<open>ResearchAgent\<close>\<close>

record research_input =
  rs_topic :: string
  rs_focus :: "string option"
  rs_plan :: string
  rs_source :: "string option"

definition research_validateInput :: "research_input \<Rightarrow> exn + bool" where
  "research_validateInput input =
     (if length (trim (rs_topic input)) = 0 then Inl (Error ''Topic is required for research'')
      else if length (rs_topic input) < 5 then
        Inl (Error ''Topic is too short for meaningful research'')
      else Inr True)"

definition researchSections :: "(string \<times> string list) list" where
  "researchSections =
     [(''Executive Summary'',
       [''executive summary'', ''summary'', ''overview'', ''research summary'', ''key insights'']),
      (''Key Facts & Statistics'',
       [''key facts'', ''statistics'', ''facts'', ''data'', ''key data'', ''findings'',
        ''key findings'']),
      (''Main Themes & Perspectives'',
       [''main themes'', ''perspectives'', ''themes'', ''viewpoints'', ''key themes'',
        ''analysis'', ''insights''])]"

definition validateResearch :: "markdown \<Rightarrow> research_input \<Rightarrow> exn + bool" where
  "validateResearch research input =
     (let missing = missingSections researchSections (toLowerCase (content research))
      in if length missing > 2 then Inl (Error (missing_message ''Research'' missing))
         else Inr True)"

definition research_execute ::
  "backend \<Rightarrow> (research_input \<Rightarrow> string) \<Rightarrow> research_input \<Rightarrow> call_log
     \<Rightarrow> (exn + markdown) \<times> call_log" where
  "research_execute model createResearchPrompt input lg =
     (case research_validateInput input of
        Inl e \<Rightarrow> (Inl e, lg)
      | Inr ok \<Rightarrow>
          (case chatComplete model ''ResearchAgent'' (createResearchPrompt input) lg of
             (Inl e, lg') \<Rightarrow> (Inl e, lg')
           | (Inr response, lg') \<Rightarrow>
               (case extractMarkdown ''ResearchAgent'' response of
                  Inl e \<Rightarrow> (Inl e, lg')
                | Inr research \<Rightarrow>
                    (case validateResearch research input of
                       Inl e \<Rightarrow> (Inl e, lg')
                     | Inr ok \<Rightarrow> (Inr research, lg')))))"

subsection \<open>\<open>OutlineAgent\<close>\<close>

text \<open>
  A section of an outline is the object that \<open>parseOutlineSections\<close> pushes: the
  opening hook and the closing segment have no \<open>number\<close> and a fixed \<open>wordEstimate\<close>, a
  chapter has the number that \<open>parseInt\<close> reads from its heading.  The fields that
  \<open>parseChapterContent\<close> adds to a chapter are not read by the orchestrator.
\<close>

record outline_section =
  sec_type :: string
  sec_number :: "nat option"
  sec_title :: string
  sec_duration :: string
  sec_content :: string
  sec_wordEstimate :: "nat option"

definition parseInt :: "string \<Rightarrow> nat" where
  "parseInt digits = foldl (\<lambda>n c. 10 * n + (code_unit c - 48)) 0 digits"

definition anything :: re where
  "anything = One [Space, NonSpace]"

definition segment_end :: re where
  "segment_end = Ahead (Alt (Str (nl @ ''## '')) (Alt (Str (nl @ ''# '')) Eol))"

definition hookRegex :: re where
  "hookRegex =
     Seq (Str ''## Opening Hook'')
       (Seq (LazyStar Dot) (Seq (Str nl) (Seq (Grp 1 (LazyStar anything)) segment_end)))"

definition closingRegex :: re where
  "closingRegex =
     Seq (Str ''## Closing Segment'')
       (Seq (LazyStar Dot) (Seq (Str nl) (Seq (Grp 1 (LazyStar anything)) segment_end)))"

definition chapterRegex :: re where
  "chapterRegex =
     Seq (Str ''### Chapter '')
       (Seq (Grp 1 (OneOrMore digit))
         (Seq (Str '': '')
           (Seq (Grp 2 (LazyOneOrMore Dot))
             (Seq (Star space)
               (Seq (chr CHR ''('')
                 (Seq (Grp 3 (OneOrMore (NoneOf [Ch CHR '')''])))
                   (Seq (Str ('')'' @ nl))
                     (Seq (Grp 4 (LazyStar anything))
                       (Ahead
                         (Alt (Seq (Str ''### Chapter '') (Seq (OneOrMore digit) (chr CHR '':'')))
                           (Alt (Str ''## Closing Segment'')
                             (Alt (Str ''## Pacing Notes'') Eol))))))))))))"

definition parseOutlineSections :: "string \<Rightarrow> nat \<Rightarrow> outline_section list option" where
  "parseOutlineSections c expectedChapters =
     (let opening =
            (case match_first (flags_of []) hookRegex [] c of
               Some hookMatch \<Rightarrow>
                 [\<lparr>sec_type = ''opening'', sec_number = None, sec_title = ''Opening Hook'',
                   sec_duration = ''30-60 seconds'',
                   sec_content = trim (group (snd hookMatch) 1), sec_wordEstimate = Some 50\<rparr>]
             | None \<Rightarrow> []);
          chapters =
            map_option
              (map (\<lambda>m. \<lparr>sec_type = ''chapter'', sec_number = Some (parseInt (group (snd m) 1)),
                         sec_title = trim (group (snd m) 2),
                         sec_duration = trim (group (snd m) 3),
                         sec_content = trim (group (snd m) 4), sec_wordEstimate = None\<rparr>))
              (exec_all (flags_of ''g'') chapterRegex [] c);
          closing =
            (case match_first (flags_of []) closingRegex [] c of
               Some closingMatch \<Rightarrow>
                 [\<lparr>sec_type = ''closing'', sec_number = None, sec_title = ''Closing Segment'',
                   sec_duration = ''60-90 seconds'',
                   sec_content = trim (group (snd closingMatch) 1),
                   sec_wordEstimate = Some 100\<rparr>]
             | None \<Rightarrow> [])
      in map_option (\<lambda>found. opening @ found @ closing) chapters)"

text \<open>
  \<open>calculateTiming\<close>.  \<open>wordsPerChapter\<close> is read only for a section of type chapter,
  and then the number of chapter sections is not zero.  With a target of zero the
  deviation is \<open>NaN\<close> or \<open>Infinity\<close> and the balance is poor.
\<close>

record outline_timing =
  totalEstimatedWords :: nat
  balance :: string

definition calculateTiming :: "outline_section list \<Rightarrow> nat \<Rightarrow> outline_timing" where
  "calculateTiming secs targetWords =
     (let chapterSections = filter (\<lambda>s. sec_type s = ''chapter'') secs;
          wordsPerChapter = nat (js_round (real targetWords / real (length chapterSections)));
          totalWords =
            sum_list (map (\<lambda>s. if sec_type s = ''opening'' then 50
                                else if sec_type s = ''closing'' then 100
                                else if sec_type s = ''chapter'' then wordsPerChapter
                                else countWords (sec_content s)) secs);
          deviation = real_of_int \<bar>int totalWords - int targetWords\<bar> / real targetWords * 100
      in \<lparr>totalEstimatedWords = totalWords,
          balance = (if targetWords = 0 then ''poor''
                     else if deviation \<le> 5 then ''excellent''
                     else if deviation \<le> 10 then ''good''
                     else if deviation \<le> 20 then ''fair''
                     else ''poor'')\<rparr>)"

record outline_input =
  ol_plan :: string
  ol_research :: string
  ol_chapters :: nat
  ol_targetWords :: nat
  ol_style :: string

definition outline_validateInput :: "outline_input \<Rightarrow> exn + bool" where
  "outline_validateInput input =
     (if length (trim (ol_plan input)) = 0 then
        Inl (Error ''Plan is required for outline creation'')
      else if length (trim (ol_research input)) = 0 then
        Inl (Error ''Research is required for outline creation'')
      else if ol_chapters input < 1 \<or> ol_chapters input > 10 then
        Inl (Error ''Chapters must be between 1 and 10'')
      else if ol_targetWords input < 100 then
        Inl (Error ''Target words must be at least 100'')
      else Inr True)"

definition outlineSections :: "(string \<times> string list) list" where
  "outlineSections =
     [(''Episode Overview'',
       [''Episode Overview'', ''Overview'', ''Introduction'', ''Summary'', ''Podcast Overview'']),
      (''Opening Hook'',
       [''Opening Hook'', ''Hook'', ''Opening'', ''Introduction Hook'', ''Opener'']),
      (''Chapter Outlines'',
       [''Chapter Outlines'', ''Outlines'', ''Chapters'', ''Chapter Structure'',
        ''Content Outline'']),
      (''Closing Segment'',
       [''Closing Segment'', ''Closing'', ''Conclusion'', ''Wrap-up'', ''Summary''])]"

definition validateOutline :: "markdown \<Rightarrow> outline_input \<Rightarrow> exn + bool" where
  "validateOutline outline input =
     (let missing =
            map fst
              (missingSections (map (\<lambda>(name, patterns). (name, map toLowerCase patterns))
                                  outlineSections)
                 (toLowerCase (content outline)))
      in if length missing > 2 then
           Inl (Error (''Outline missing required sections: '' @ join '', '' missing))
         else Inr True)"

record outline = markdown +
  sections :: "outline_section list"
  timing :: outline_timing

text \<open>
  \<open>OutlineAgent.execute\<close>.  The result is \<open>None\<close> when the \<open>exec\<close> loop of
  \<open>parseOutlineSections\<close> does not end.
\<close>

definition outline_execute ::
  "backend \<Rightarrow> (outline_input \<Rightarrow> string) \<Rightarrow> outline_input \<Rightarrow> call_log
     \<Rightarrow> ((exn + outline) \<times> call_log) option" where
  "outline_execute model createOutlinePrompt input lg =
     (case outline_validateInput input of
        Inl e \<Rightarrow> Some (Inl e, lg)
      | Inr ok \<Rightarrow>
          (case chatComplete model ''OutlineAgent'' (createOutlinePrompt input) lg of
             (Inl e, lg') \<Rightarrow> Some (Inl e, lg')
           | (Inr response, lg') \<Rightarrow>
               (case extractMarkdown ''OutlineAgent'' response of
                  Inl e \<Rightarrow> Some (Inl e, lg')
                | Inr extracted \<Rightarrow>
                    (case parseOutlineSections (content extracted) (ol_chapters input) of
                       None \<Rightarrow> None
                     | Some secs \<Rightarrow>
                         (case validateOutline extracted input of
                            Inl e \<Rightarrow> Some (Inl e, lg')
                          | Inr ok \<Rightarrow>
                              Some (Inr \<lparr>content = content extracted, meta = meta extracted,
                                         wordCount = wordCount extracted, sections = secs,
                                         timing = calculateTiming secs (ol_targetWords input)\<rparr>,
                                    lg'))))))"

section \<open>The content fetcher (\<open>ContentFetcher\<close>)\<close>

text \<open>
  A fetched source is the object that \<open>fetchFromUrl\<close> and \<open>fetchFromFile\<close> return.  The
  two read the network and the file system and are parameters, as is \<open>isUrl\<close>, which
  asks the URL parser of the platform.  \<open>fetchContent\<close> returns \<open>null\<close> for an empty
  source and wraps every error of the two.  \<open>ContentFetcher.countWords\<close> counts the
  pieces between white space; \<open>validateContent\<close>, which requires 50 words, is defined
  by the class and called nowhere in the program.
\<close>

record source_content =
  src_title :: string
  src_content :: string
  src_source :: string
  src_wordCount :: nat

definition fetchContent ::
  "(string \<Rightarrow> bool) \<Rightarrow> (string \<Rightarrow> exn + source_content) \<Rightarrow> (string \<Rightarrow> exn + source_content)
     \<Rightarrow> string \<Rightarrow> exn + source_content option" where
  "fetchContent isUrl fetchFromUrl fetchFromFile source =
     (if source = [] then Inr None
      else case (if isUrl source then fetchFromUrl source else fetchFromFile source) of
             Inl e \<Rightarrow>
               Inl (Error (''Failed to fetch content from '' @ source @ '': '' @ message e))
           | Inr fetched \<Rightarrow> Inr (Some fetched))"

definition fetcher_countWords :: "string \<Rightarrow> nat" where
  "fetcher_countWords text =
     length (filter (\<lambda>word. length word > 0) (split_re (flags_of []) (OneOrMore space) text))"

definition validateContent :: "source_content option \<Rightarrow> exn + source_content" where
  "validateContent fetched =
     (case fetched of
        None \<Rightarrow> Inl (Error ''No content extracted'')
      | Some c \<Rightarrow>
          if src_content c = [] then Inl (Error ''No content extracted'')
          else if src_wordCount c < 50 then
            Inl (Error ''Content too short (minimum 50 words required)'')
          else Inr c)"

section \<open>Word-count accuracy of a finished job (\<open>PodcastOrchestrator.calculateAccuracy\<close>)\<close>

text \<open>
  \<open>percentDifference = (Math.abs(target - actual) / target) * 100\<close> is compared with
  \<open>tolerance\<close>, \<open>tolerance * 2\<close> and \<open>tolerance * 3\<close>.  With \<open>target = 0\<close> the quotient is
  \<open>NaN\<close> or \<open>Infinity\<close>, every comparison \<open>\<le>\<close> is false and the last branch is taken.
\<close>

definition calculateAccuracy :: "nat \<Rightarrow> nat \<Rightarrow> string" where
  "calculateAccuracy target actual =
     (let tolerance = real tolerancePercent;
          difference = \<bar>int target - int actual\<bar>;
          percentDifference = (real_of_int difference / real target) * 100
      in if target = 0 then ''poor''
         else if percentDifference \<le> tolerance then ''excellent''
         else if percentDifference \<le> tolerance * 2 then ''good''
         else if percentDifference \<le> tolerance * 3 then ''fair''
         else ''poor'')"

text \<open>The deviation of the specification: \<open>d = |target - actual| / target\<close>.\<close>

definition spec_deviation :: "nat \<Rightarrow> nat \<Rightarrow> real" where
  "spec_deviation target actual = real_of_int \<bar>int target - int actual\<bar> / real target"

section \<open>Cancellation (\<open>PodcastController.cancelGeneration\<close>)\<close>

text \<open>
  The controller keeps its jobs in the map \<open>activeGenerations\<close>.  Of a job record the
  fields that cancellation reads or writes are kept, and the fields the status
  endpoint reports with them.  An HTTP response is its status code and the members of
  its JSON body.  The value of \<open>new Date().toISOString()\<close> is the parameter \<open>now\<close>.
\<close>

record generation =
  topic :: string
  status :: string
  createdAt :: string
  completedAt :: "string option"
  error :: "string option"

record response =
  code :: nat
  body :: "(string \<times> string) list"

definition cancelGeneration ::
  "string \<Rightarrow> string \<Rightarrow> (string \<rightharpoonup> generation) \<Rightarrow> response \<times> (string \<rightharpoonup> generation)" where
  "cancelGeneration jobId now activeGenerations =
     (case activeGenerations jobId of
        None \<Rightarrow>
          (\<lparr>code = 404,
            body = [(''error'', ''Generation not found''),
                    (''message'', ''No generation found with ID: '' @ jobId)]\<rparr>,
           activeGenerations)
      | Some generation \<Rightarrow>
          if status generation = ''completed'' \<or> status generation = ''failed'' then
            (\<lparr>code = 400,
              body = [(''error'', ''Cannot cancel completed generation''),
                      (''message'', ''Generation is already completed or failed'')]\<rparr>,
             activeGenerations)
          else
            (\<lparr>code = 200,
              body = [(''id'', jobId), (''status'', ''cancelled''),
                      (''message'', ''Generation cancelled successfully'')]\<rparr>,
             activeGenerations(jobId \<mapsto>
               generation\<lparr>status := ''cancelled'', completedAt := Some now\<rparr>)))"

text \<open>A finished job, for the examples.\<close>

definition job1 :: generation where
  "job1 = \<lparr>topic = ''The history of the bicycle'', status = ''completed'',
           createdAt = ''2024-01-01T10:00:00.000Z'',
           completedAt = Some ''2024-01-01T10:05:00.000Z'', error = None\<rparr>"

section \<open>Retries of a chat completion (\<open>AzureOpenAIService.getChatCompletion\<close>)\<close>

text \<open>
  One call of \<open>client.getChatCompletions\<close> either returns a response with a content,
  returns a response without one, or throws an error that may carry an HTTP \<open>status\<close>;
  a timeout is an error without one.  A content that is the empty string is falsy: for
  it, as for a response without content, the source throws \<open>No content in response\<close>
  inside the \<open>try\<close> block, and the \<open>catch\<close> block treats this error like any other
  without a status.  The backend is the function \<open>client\<close> from the attempt number to
  the outcome, \<open>rng n\<close> is the value of \<open>Math.random()\<close> drawn after attempt \<open>n\<close> failed,
  and the trace lists the calls made and the delays slept, in milliseconds, in order.

  The delay is computed in doubles: \<open>baseDelay * Math.pow(2, attempt - 1)\<close> is exact,
  the product \<open>Math.random() * 1000\<close> and the sum are rounded.  \<open>toDouble\<close> is the
  rounding of a real number to a double; it is a parameter, and no property below
  depends on what it does.
\<close>

datatype outcome = Content string | NoContent | Thrown "nat option"

datatype event = Call nat | Sleep real

datatype azure_error = NotInitialized | FailedAfterRetries

definition maxRetries :: nat where
  "maxRetries = 3"

definition baseDelay :: real where
  "baseDelay = 1000"

definition nonRetryable :: "outcome \<Rightarrow> bool" where
  "nonRetryable r =
     (case r of Thrown (Some s) \<Rightarrow> s = 400 \<or> s = 401 \<or> s = 403 | _ \<Rightarrow> False)"

text \<open>The content that an attempt returns, if it returns one.\<close>

definition answered :: "outcome \<Rightarrow> string option" where
  "answered r = (case r of Content c \<Rightarrow> if c = [] then None else Some c | _ \<Rightarrow> None)"

function attemptLoop ::
  "(nat \<Rightarrow> outcome) \<Rightarrow> (nat \<Rightarrow> real) \<Rightarrow> (real \<Rightarrow> real) \<Rightarrow> nat \<Rightarrow> event list
     \<Rightarrow> (azure_error + string) \<times> event list" where
  "attemptLoop client rng toDouble attempt tr =
     (if attempt \<le> maxRetries then
        (case answered (client attempt) of
           Some c \<Rightarrow> (Inr c, tr @ [Call attempt])
         | None \<Rightarrow>
             if nonRetryable (client attempt) then
               (Inl FailedAfterRetries, tr @ [Call attempt])
             else if attempt < maxRetries then
               attemptLoop client rng toDouble (attempt + 1)
                 (tr @ [Call attempt,
                        Sleep (toDouble (baseDelay * 2 ^ (attempt - 1) +
                                         toDouble (rng attempt * 1000)))])
             else attemptLoop client rng toDouble (attempt + 1) (tr @ [Call attempt]))
      else (Inl FailedAfterRetries, tr))"
  by pat_completeness auto
termination
  by (relation "measure (\<lambda>(client, rng, toDouble, attempt, tr). Suc maxRetries - attempt)") auto

definition getChatCompletion ::
  "bool \<Rightarrow> (nat \<Rightarrow> outcome) \<Rightarrow> (nat \<Rightarrow> real) \<Rightarrow> (real \<Rightarrow> real)
     \<Rightarrow> (azure_error + string) \<times> event list" where
  "getChatCompletion isInitialized client rng toDouble =
     (if \<not> isInitialized then (Inl NotInitialized, [])
      else attemptLoop client rng toDouble 1 [])"

text \<open>The attempts made, read off a trace.\<close>

fun calls :: "event list \<Rightarrow> nat list" where
  "calls [] = []"
| "calls (Call n # es) = n # calls es"
| "calls (Sleep d # es) = calls es"

declare attemptLoop.simps [simp del]

text \<open>
  The retry policy in the words of the specification.  An attempt ends the sequence
  when it returns a content or fails with a status that is not retried; at most three
  attempts are made; attempt \<open>n\<close>, unless it is the last one made, is followed by one
  delay of \<open>1000 * 2 ^ (n - 1)\<close> milliseconds plus the jitter, which is a thousand times
  the random draw; and then attempt \<open>n + 1\<close> follows.
\<close>

definition stops :: "outcome \<Rightarrow> bool" where
  "stops r = (nonRetryable r \<or> answered r \<noteq> None)"

definition retry_attempts :: "(nat \<Rightarrow> outcome) \<Rightarrow> nat" where
  "retry_attempts client = (if stops (client 1) then 1 else if stops (client 2) then 2 else 3)"

definition retry_delay :: "(real \<Rightarrow> real) \<Rightarrow> nat \<Rightarrow> real \<Rightarrow> real" where
  "retry_delay toDouble n jitter = toDouble (1000 * 2 ^ (n - 1) + toDouble jitter)"

definition retry_schedule :: "(nat \<Rightarrow> real) \<Rightarrow> (real \<Rightarrow> real) \<Rightarrow> nat \<Rightarrow> event list" where
  "retry_schedule rng toDouble k =
     concat (map (\<lambda>n. Call n #
                       (if n < k then [Sleep (retry_delay toDouble n (rng n * 1000))] else []))
                 [1..<Suc k])"

text \<open>
  Backends for the examples: one that times out, then answers 401; one that first
  returns an empty content and then an answer.
\<close>

definition client0 :: "nat \<Rightarrow> outcome" where
  "client0 n = (if n = 1 then Thrown None else if n = 2 then Thrown (Some 401) else Content ''ok'')"

definition client1 :: "nat \<Rightarrow> outcome" where
  "client1 n = (if n = 1 then Content [] else Content ''ok'')"

section \<open>The orchestrator (\<open>PodcastOrchestrator\<close>)\<close>

subsection \<open>Tasks\<close>

text \<open>
  An asynchronous call of the orchestrator is a task: from a state it returns a value
  or throws, in a new state, or it does not return, which is \<open>None\<close>.  \<open>and_then\<close> is
  \<open>await\<close> followed by the rest of the function; \<open>returns\<close> makes a task of a function
  that always returns.
\<close>

type_synonym ('a, 's) task = "'s \<Rightarrow> ((exn + 'a) \<times> 's) option"

definition and_then :: "('a, 's) task \<Rightarrow> ('a \<Rightarrow> ('b, 's) task) \<Rightarrow> ('b, 's) task" where
  "and_then m k s =
     (case m s of
        None \<Rightarrow> None
      | Some (Inl e, s') \<Rightarrow> Some (Inl e, s')
      | Some (Inr a, s') \<Rightarrow> k a s')"

definition returns :: "('s \<Rightarrow> (exn + 'a) \<times> 's) \<Rightarrow> ('a, 's) task" where
  "returns m s = Some (m s)"

definition settled :: "exn + 'a \<Rightarrow> ('a, 's) task" where
  "settled r s = Some (r, s)"

subsection \<open>Inputs and artifacts\<close>

text \<open>
  The request of a job, the inputs that the orchestrator builds for the agents, and
  the artifacts that it reads back.  Research notes are either the object that the
  orchestrator builds from a fetched source or the result of the Research agent.  Time
  stamps and the time a generation took are left out.
\<close>

record request =
  req_id :: string
  req_topic :: string
  req_focus :: "string option"
  req_mood :: string
  req_style :: string
  req_chapters :: nat
  req_durationMin :: nat
  req_source :: "string option"

record grounded_research =
  gr_content :: string
  gr_sources :: "string list"
  gr_wordCount :: nat
  gr_sourceWordCount :: nat
  gr_sourceTitle :: string

datatype research = SourceResearch grounded_research | AgentResearch markdown

fun research_content :: "research \<Rightarrow> string" where
  "research_content (SourceResearch r) = gr_content r"
| "research_content (AgentResearch r) = content r"

fun research_wordCount :: "research \<Rightarrow> nat" where
  "research_wordCount (SourceResearch r) = gr_wordCount r"
| "research_wordCount (AgentResearch r) = wordCount r"

record script_input =
  scr_section :: string
  scr_chapterNumber :: nat
  scr_targetWords :: nat
  scr_style :: string
  scr_context :: string

record chapter_script = markdown +
  chapterNumber :: nat

record tone_input =
  tn_scripts :: "chapter_script list"
  tn_mood :: string
  tn_style :: string
  tn_targetTones :: "string list"

record tone_script = markdown +
  utterances :: "utterance list"

record tts_input =
  tts_script :: string
  tts_utterances :: "utterance list"
  tts_chapters :: nat
  tts_podcastTempDir :: string

definition availableTones :: "string list" where
  "availableTones =
     [''upbeat'', ''calm'', ''excited'', ''reflective'', ''suspenseful'', ''skeptical'',
      ''humorous'', ''angry'', ''sad'', ''hopeful'']"

text \<open>
  The agents and services that the orchestrator holds.  The state \<open>'w\<close> that the agents
  share is, for the agents of this development, the list of the model calls.
\<close>

record 'w services =
  ag_planner :: "planning_input \<Rightarrow> (markdown, 'w) task"
  ag_research :: "research_input \<Rightarrow> (markdown, 'w) task"
  ag_outline :: "outline_input \<Rightarrow> (outline, 'w) task"
  ag_script :: "script_input \<Rightarrow> (chapter_script, 'w) task"
  ag_tone :: "tone_input \<Rightarrow> (tone_script, 'w) task"
  ag_editor :: "editor_input \<Rightarrow> (final_script, 'w) task"
  ag_tts :: "tts_input \<Rightarrow> (string list, 'w) task"
  isUrl :: "string \<Rightarrow> bool"
  fetchFromUrl :: "string \<Rightarrow> exn + source_content"
  fetchFromFile :: "string \<Rightarrow> exn + source_content"
  jingleExists :: bool
  concatenateAudio :: "string list \<Rightarrow> string \<Rightarrow> exn + unit"
  getAudioDuration :: "string \<Rightarrow> exn + real"
  tempDir :: string
  audioOutputDir :: string

record artifacts =
  art_plan :: markdown
  art_sourceContent :: "source_content option"
  art_research :: research
  art_outline :: outline
  art_scripts :: "chapter_script list"
  art_toneScript :: tone_script
  art_finalScript :: final_script
  art_audioFiles :: "string list"

record job_metadata =
  md_id :: string
  md_duration :: real
  md_wordCount :: nat
  md_chapters :: nat
  md_actualWordsPerMinute :: num
  md_targetWordsPerMinute :: nat
  md_accuracy :: string
  md_topic :: string
  md_mood :: string
  md_style :: string

record podcast =
  pod_id :: string
  pod_audioPath :: string
  pod_artifacts :: artifacts
  pod_metadata :: job_metadata

subsection \<open>Script generation\<close>

text \<open>
  \<open>createBatches\<close> is a loop \<open>for (let i = 0; i < items.length; i += batchSize)\<close>; with a
  batch size of zero and an item it does not end.
\<close>

function batches_from :: "nat \<Rightarrow> 'a list \<Rightarrow> 'a list list" where
  "batches_from batchSize items =
     (if batchSize = 0 \<or> items = [] then []
      else take batchSize items # batches_from batchSize (drop batchSize items))"
  by pat_completeness auto
termination
  by (relation "measure (\<lambda>(batchSize, items). length items)") auto

declare batches_from.simps [simp del]

definition createBatches :: "'a list \<Rightarrow> nat \<Rightarrow> 'a list list option" where
  "createBatches items batchSize =
     (if batchSize = 0 \<and> items \<noteq> [] then None else Some (batches_from batchSize items))"

text \<open>
  \<open>generateScriptsInParallel\<close> starts the Scripter once for every section of a batch,
  waits for the batch with \<open>Promise.all\<close>, and goes on to the next batch.  The calls of
  a batch are modelled one after the other, in the order of the batch; all of them
  are made before the first error of the batch is thrown, and no later batch is
  started after an error.  \<open>index\<close> is the index of a section in its batch, and
  \<open>section.number || index + 1\<close> reads a number that is absent or zero as falsy.
\<close>

definition scriptInput ::
  "outline \<Rightarrow> planning_input \<Rightarrow> outline_section \<times> nat \<Rightarrow> script_input" where
  "scriptInput outline planningInput = (\<lambda>(sec, index).
     \<lparr>scr_section = sec_content sec,
      scr_chapterNumber =
        (case sec_number sec of
           None \<Rightarrow> index + 1
         | Some n \<Rightarrow> if n = 0 then index + 1 else n),
      scr_targetWords =
        nat (js_round (real (pl_targetWords planningInput) / real (length (sections outline)))),
      scr_style = pl_style planningInput,
      scr_context = content outline\<rparr>)"

fun run_batch :: "('i \<Rightarrow> ('a, 'w) task) \<Rightarrow> 'i list \<Rightarrow> 'w \<Rightarrow> ((exn + 'a) list \<times> 'w) option" where
  "run_batch agent [] w = Some ([], w)"
| "run_batch agent (i # inputs) w =
     (case agent i w of
        None \<Rightarrow> None
      | Some (r, w') \<Rightarrow>
          (case run_batch agent inputs w' of
             None \<Rightarrow> None
           | Some (rs, w'') \<Rightarrow> Some (r # rs, w'')))"

fun all_results :: "(exn + 'a) list \<Rightarrow> exn + 'a list" where
  "all_results [] = Inr []"
| "all_results (Inl e # rs) = Inl e"
| "all_results (Inr a # rs) =
     (case all_results rs of Inl e \<Rightarrow> Inl e | Inr as \<Rightarrow> Inr (a # as))"

fun run_batches ::
  "('i \<Rightarrow> ('a, 'w) task) \<Rightarrow> 'i list list \<Rightarrow> 'a list \<Rightarrow> ('a list, 'w) task" where
  "run_batches agent [] scripts w = Some (Inr scripts, w)"
| "run_batches agent (batch # batches) scripts w =
     (case run_batch agent batch w of
        None \<Rightarrow> None
      | Some (rs, w') \<Rightarrow>
          (case all_results rs of
             Inl e \<Rightarrow> Some (Inl e, w')
           | Inr batchResults \<Rightarrow> run_batches agent batches (scripts @ batchResults) w'))"

definition generateScriptsInParallel ::
  "(script_input \<Rightarrow> (chapter_script, 'w) task) \<Rightarrow> outline \<Rightarrow> planning_input
     \<Rightarrow> (chapter_script list, 'w) task" where
  "generateScriptsInParallel agent outline planningInput w =
     (if sections outline = [] then Some (Inl (Error ''No sections found in outline''), w)
      else case createBatches (sections outline) maxConcurrentAgents of
             None \<Rightarrow> None
           | Some batches \<Rightarrow>
               run_batches agent
                 (map (\<lambda>batch. map (scriptInput outline planningInput)
                                  (zip batch [0..<length batch])) batches)
                 [] w)"

text \<open>
  To observe the invocations of an agent, \<open>recording\<close> adds to the state the list of
  the inputs that the agent has been invoked with.
\<close>

definition recording :: "('i \<Rightarrow> ('a, 'w) task) \<Rightarrow> 'i \<Rightarrow> ('a, 'w \<times> 'i list) task" where
  "recording agent input = (\<lambda>(w, seen).
     case agent input w of
       None \<Rightarrow> None
     | Some (r, w') \<Rightarrow> Some (r, (w', seen @ [input])))"

subsection \<open>The research stage\<close>

text \<open>
  The second step of \<open>generatePodcast\<close>.  A source that is given and not empty is
  fetched; an error of the fetcher is caught and leaves \<open>sourceContent\<close> null.  With a
  fetched source the research notes are built from it, otherwise the Research agent
  runs.
\<close>

definition fetched_source :: "'w services \<Rightarrow> string option \<Rightarrow> source_content option" where
  "fetched_source svc source =
     (case source of
        None \<Rightarrow> None
      | Some s \<Rightarrow>
          if s = [] then None
          else case fetchContent (isUrl svc) (fetchFromUrl svc) (fetchFromFile svc) s of
                 Inl e \<Rightarrow> None
               | Inr sourceContent \<Rightarrow> sourceContent)"

definition groundedResearch :: "source_content \<Rightarrow> grounded_research" where
  "groundedResearch sourceContent =
     \<lparr>gr_content = ''# Research Based on Source Material'' @ nl @ nl @ ''## Source: '' @
                    src_title sourceContent @ nl @ nl @ src_content sourceContent,
      gr_sources = [src_source sourceContent],
      gr_wordCount = src_wordCount sourceContent,
      gr_sourceWordCount = src_wordCount sourceContent,
      gr_sourceTitle = src_title sourceContent\<rparr>"

definition researchStage ::
  "'w services \<Rightarrow> request \<Rightarrow> markdown \<Rightarrow> (source_content option \<times> research, 'w) task" where
  "researchStage svc request plan w =
     (case fetched_source svc (req_source request) of
        Some sourceContent \<Rightarrow>
          Some (Inr (Some sourceContent, SourceResearch (groundedResearch sourceContent)), w)
      | None \<Rightarrow>
          and_then
            (ag_research svc
               \<lparr>rs_topic = req_topic request, rs_focus = req_focus request,
                rs_plan = content plan, rs_source = req_source request\<rparr>)
            (\<lambda>research. settled (Inr (None, AgentResearch research))) w)"

subsection \<open>The pipeline\<close>

text \<open>
  The state of a run is the progress reported to the callback and the state of the
  agents.  \<open>generatePodcast\<close> runs the steps in order; every error is caught at the
  end and thrown again as an \<open>AgentError\<close> of the orchestrator.  The directories that
  a run creates and removes are not part of the state.
\<close>

record 'w run =
  progress :: "(string \<times> nat \<times> nat) list"
  world :: 'w

definition updateProgress :: "string \<Rightarrow> nat \<Rightarrow> nat \<Rightarrow> (unit, 'w run) task" where
  "updateProgress step completed totalSteps st =
     Some (Inr (), st\<lparr>progress := progress st @ [(step, completed, totalSteps)]\<rparr>)"

definition agent_call :: "('a, 'w) task \<Rightarrow> ('a, 'w run) task" where
  "agent_call m st =
     (case m (world st) of
        None \<Rightarrow> None
      | Some (r, w') \<Rightarrow> Some (r, st\<lparr>world := w'\<rparr>))"

definition rethrow :: "('a, 's) task \<Rightarrow> ('a, 's) task" where
  "rethrow m s =
     (case m s of
        None \<Rightarrow> None
      | Some (Inl e, s') \<Rightarrow>
          Some (Inl (AgentError (''Podcast generation failed: '' @ message e) ''Orchestrator''), s')
      | Some (Inr a, s') \<Rightarrow> Some (Inr a, s'))"

definition planningInputOf :: "request \<Rightarrow> planning_input" where
  "planningInputOf request =
     \<lparr>pl_topic = req_topic request, pl_focus = req_focus request,
      pl_chapters = req_chapters request, pl_durationMin = req_durationMin request,
      pl_mood = req_mood request, pl_style = req_style request,
      pl_targetWords = req_durationMin request * wordsPerMinute\<rparr>"

definition actualWordsPerMinute :: "nat \<Rightarrow> real \<Rightarrow> num" where
  "actualWordsPerMinute words totalDuration =
     (if totalDuration = 0 then (if words = 0 then NaN else PosInfinity)
      else Num (real_of_int (js_round (real words / (totalDuration / 60)))))"

definition generatePodcast :: "'w services \<Rightarrow> request \<Rightarrow> (podcast, 'w run) task" where
  "generatePodcast svc request =
     (let planningInput = planningInputOf request;
          podcastTempDir = tempDir svc @ ''/'' @ req_id request;
          finalAudioPath = audioOutputDir svc @ ''/'' @ req_id request @ ''.mp3''
      in rethrow
        (and_then (updateProgress ''planning'' 1 7) (\<lambda>u1.
         and_then (agent_call (ag_planner svc planningInput)) (\<lambda>plan.
         and_then (updateProgress ''research'' 2 7) (\<lambda>u2.
         and_then (agent_call (researchStage svc request plan)) (\<lambda>(sourceContent, research).
         and_then (updateProgress ''outlining'' 3 7) (\<lambda>u3.
         and_then (agent_call (ag_outline svc
                     \<lparr>ol_plan = content plan, ol_research = research_content research,
                      ol_chapters = req_chapters request,
                      ol_targetWords = pl_targetWords planningInput,
                      ol_style = req_style request\<rparr>)) (\<lambda>outline.
         and_then (updateProgress ''scripting'' 4 7) (\<lambda>u4.
         and_then (agent_call (generateScriptsInParallel (ag_script svc) outline planningInput))
           (\<lambda>scripts.
         and_then (updateProgress ''tone-enhancement'' 5 7) (\<lambda>u5.
         and_then (agent_call (ag_tone svc
                     \<lparr>tn_scripts = scripts, tn_mood = req_mood request,
                      tn_style = req_style request, tn_targetTones = availableTones\<rparr>))
           (\<lambda>toneEnhancedScript.
         and_then (updateProgress ''editing'' 6 7) (\<lambda>u6.
         and_then (agent_call (ag_editor svc
                     \<lparr>ed_script = content toneEnhancedScript,
                      ed_targetWords = pl_targetWords planningInput,
                      ed_tolerance = real tolerancePercent,
                      ed_style = req_style request, ed_mood = req_mood request\<rparr>))
           (\<lambda>finalScript.
         and_then (updateProgress ''audio-generation'' 7 7) (\<lambda>u7.
         and_then (agent_call (ag_tts svc
                     \<lparr>tts_script = content finalScript,
                      tts_utterances = utterances toneEnhancedScript,
                      tts_chapters = req_chapters request,
                      tts_podcastTempDir = podcastTempDir\<rparr>)) (\<lambda>audioFiles.
         and_then (updateProgress ''audio-stitching'' 7 7) (\<lambda>u8.
         and_then (settled (concatenateAudio svc
                     (if jingleExists svc then ''assets/jingle.mp3'' # audioFiles
                      else audioFiles) finalAudioPath)) (\<lambda>u9.
         and_then (settled (getAudioDuration svc finalAudioPath)) (\<lambda>totalDuration.
         settled (Inr
           \<lparr>pod_id = req_id request,
            pod_audioPath = finalAudioPath,
            pod_artifacts =
              \<lparr>art_plan = plan, art_sourceContent = sourceContent, art_research = research,
               art_outline = outline, art_scripts = scripts,
               art_toneScript = toneEnhancedScript, art_finalScript = finalScript,
               art_audioFiles = audioFiles\<rparr>,
            pod_metadata =
              \<lparr>md_id = req_id request,
               md_duration = totalDuration,
               md_wordCount = wordCount finalScript,
               md_chapters = req_chapters request,
               md_actualWordsPerMinute =
                 actualWordsPerMinute (wordCount finalScript) totalDuration,
               md_targetWordsPerMinute = wordsPerMinute,
               md_accuracy =
                 calculateAccuracy (pl_targetWords planningInput) (wordCount finalScript),
               md_topic = take 100 (req_topic request),
               md_mood = req_mood request,
               md_style = req_style request\<rparr>\<rparr>))))))))))))))))))))"

subsection \<open>Submission\<close>

text \<open>
  The brief of a submission is validated by the chain \<open>generateValidation\<close> of the
  route: the topic is a string of 1 to 500 characters, the focus has at most 1000,
  mood and style are of the lists of the configuration, the chapters are 1 to 10 and
  the minutes 1 to 120.  The controller then fills in the defaults.
\<close>

record brief =
  br_topic :: string
  br_focus :: "string option"
  br_mood :: "string option"
  br_style :: "string option"
  br_chapters :: "int option"
  br_durationMin :: "int option"
  br_source :: "string option"

definition availableMoods :: "string list" where
  "availableMoods = [''neutral'', ''excited'', ''calm'', ''reflective'', ''enthusiastic'']"

definition availableStyles :: "string list" where
  "availableStyles =
     [''storytelling'', ''conversational'', ''interview'', ''educational'', ''narrative'']"

definition generateValidation :: "brief \<Rightarrow> string list" where
  "generateValidation b =
     (if 1 \<le> length (br_topic b) \<and> length (br_topic b) \<le> 500 then []
      else [''Topic must be between 1 and 500 characters'']) @
     (case br_focus b of
        Some focus \<Rightarrow>
          if length focus \<le> 1000 then [] else [''Focus must be less than 1000 characters'']
      | None \<Rightarrow> []) @
     (case br_mood b of
        Some mood \<Rightarrow>
          if mood \<in> set availableMoods then []
          else [''Mood must be one of: '' @ join '', '' availableMoods]
      | None \<Rightarrow> []) @
     (case br_style b of
        Some style \<Rightarrow>
          if style \<in> set availableStyles then []
          else [''Style must be one of: '' @ join '', '' availableStyles]
      | None \<Rightarrow> []) @
     (case br_chapters b of
        Some chapters \<Rightarrow>
          if 1 \<le> chapters \<and> chapters \<le> 10 then [] else [''Chapters must be between 1 and 10'']
      | None \<Rightarrow> []) @
     (case br_durationMin b of
        Some durationMin \<Rightarrow>
          if 1 \<le> durationMin \<and> durationMin \<le> 120 then []
          else [''Duration must be between 1 and 120 minutes'']
      | None \<Rightarrow> [])"

definition generationRequest :: "string \<Rightarrow> brief \<Rightarrow> request" where
  "generationRequest operationId b =
     \<lparr>req_id = operationId,
      req_topic = br_topic b,
      req_focus = br_focus b,
      req_mood = (case br_mood b of Some mood \<Rightarrow> mood | None \<Rightarrow> ''neutral''),
      req_style = (case br_style b of Some style \<Rightarrow> style | None \<Rightarrow> ''storytelling''),
      req_chapters = (case br_chapters b of Some chapters \<Rightarrow> nat chapters | None \<Rightarrow> 3),
      req_durationMin =
        (case br_durationMin b of Some durationMin \<Rightarrow> nat durationMin | None \<Rightarrow> 5),
      req_source = br_source b\<rparr>"

text \<open>
  The message with which \<open>ResearchAgent.validateInput\<close> rejects a topic of fewer than
  five characters.
\<close>

definition research_rejection :: "string \<Rightarrow> string" where
  "research_rejection t =
     (if length (trim t) = 0 then ''Topic is required for research''
      else ''Topic is too short for meaningful research'')"

section \<open>Example runs\<close>

text \<open>
  The objects of the example runs below: a backend that answers every prompt with a
  short plan, one that answers with a short outline of one chapter, the inputs of a
  job of one chapter and one minute, a text file of fifty words, and a configuration of
  the orchestrator in which the first three agents are the agents above and the later
  agents are stand-ins that throw.  \<open>echo_script\<close> is a stand-in for the Scripter that
  returns the section it is given.
\<close>

definition plan_text :: string where
  "plan_text =
     ''# Plan'' @ nl @ nl @ ''## Overview'' @ nl @ ''Three chapters, the research and the style.''"

definition plan_answers :: backend where
  "plan_answers k userMessage = Inr plan_text"

definition planning_input0 :: planning_input where
  "planning_input0 =
     \<lparr>pl_topic = ''Green tea'', pl_focus = None, pl_chapters = 1, pl_durationMin = 1,
      pl_mood = ''neutral'', pl_style = ''storytelling'', pl_targetWords = 150\<rparr>"

definition research_input0 :: research_input where
  "research_input0 =
     \<lparr>rs_topic = ''Green tea'', rs_focus = None, rs_plan = plan_text, rs_source = None\<rparr>"

definition outline_text :: string where
  "outline_text =
     ''## Opening Hook'' @ nl @ ''A question.'' @ nl @ nl @
     ''## Chapter Outlines'' @ nl @
     ''### Chapter 1: Origins (2 minutes)'' @ nl @ ''The story.'' @ nl @
     ''## Closing Segment'' @ nl @ ''Goodbye.''"

definition outline_answers :: backend where
  "outline_answers k userMessage = Inr outline_text"

definition outline_input0 :: outline_input where
  "outline_input0 =
     \<lparr>ol_plan = plan_text, ol_research = ''Notes.'', ol_chapters = 1, ol_targetWords = 150,
      ol_style = ''storytelling''\<rparr>"

definition outline0 :: outline where
  "outline0 =
     \<lparr>content = outline_text,
      meta = \<lparr>headings = Some [''Opening Hook'', ''Chapter Outlines'',
                                ''Chapter 1: Origins (2 minutes)'', ''Closing Segment''],
              listItems = None, links = None\<rparr>,
      wordCount = 0,
      sections =
        [\<lparr>sec_type = ''opening'', sec_number = None, sec_title = ''Opening Hook'',
          sec_duration = ''30-60 seconds'', sec_content = ''A question.'',
          sec_wordEstimate = Some 50\<rparr>,
         \<lparr>sec_type = ''chapter'', sec_number = Some 1, sec_title = ''Origins'',
          sec_duration = ''2 minutes'', sec_content = ''The story.'',
          sec_wordEstimate = None\<rparr>,
         \<lparr>sec_type = ''closing'', sec_number = None, sec_title = ''Closing Segment'',
          sec_duration = ''60-90 seconds'', sec_content = ''Goodbye.'',
          sec_wordEstimate = Some 100\<rparr>],
      timing = \<lparr>totalEstimatedWords = 300, balance = ''poor''\<rparr>\<rparr>"

definition echo_script :: "script_input \<Rightarrow> (chapter_script, 'w) task" where
  "echo_script input w =
     Some (Inr \<lparr>content = scr_section input,
                meta = \<lparr>headings = None, listItems = None, links = None\<rparr>,
                wordCount = 0, chapterNumber = scr_chapterNumber input\<rparr>, w)"

definition unavailable :: "'i \<Rightarrow> ('a, 'w) task" where
  "unavailable input w = Some (Inl (Error ''unavailable''), w)"

definition tea_notes :: string where
  "tea_notes = join '' '' (replicate 50 ''tea'')"

definition readNotes :: "string \<Rightarrow> exn + source_content" where
  "readNotes filePath =
     (if filePath = ''notes.txt'' then
        Inr \<lparr>src_title = ''Tea notes'', src_content = tea_notes, src_source = filePath,
             src_wordCount = fetcher_countWords tea_notes\<rparr>
      else Inl (Error ''ENOENT: no such file or directory''))"

definition example_services :: "backend \<Rightarrow> call_log services" where
  "example_services model =
     \<lparr>ag_planner = (\<lambda>input. returns (planner_execute model (\<lambda>i. ''Plan.'') input)),
      ag_research = (\<lambda>input. returns (research_execute model (\<lambda>i. ''Research.'') input)),
      ag_outline = outline_execute model (\<lambda>i. ''Outline.''),
      ag_script = unavailable,
      ag_tone = unavailable,
      ag_editor = unavailable,
      ag_tts = unavailable,
      isUrl = (\<lambda>source. False),
      fetchFromUrl = (\<lambda>url. Inl (Error ''fetch failed'')),
      fetchFromFile = readNotes,
      jingleExists = False,
      concatenateAudio = (\<lambda>audioFiles outputPath. Inr ()),
      getAudioDuration = (\<lambda>filePath. Inr 60),
      tempDir = ''temp'',
      audioOutputDir = ''output''\<rparr>"

definition brief0 :: "string \<Rightarrow> string option \<Rightarrow> brief" where
  "brief0 topicText source =
     \<lparr>br_topic = topicText, br_focus = None, br_mood = None, br_style = None, br_chapters = None,
      br_durationMin = None, br_source = source\<rparr>"

definition run0 :: "call_log run" where
  "run0 = \<lparr>progress = [], world = []\<rparr>"

definition notes0 :: source_content where
  "notes0 =
     \<lparr>src_title = ''Tea notes'', src_content = tea_notes, src_source = ''notes.txt'',
      src_wordCount = 50\<rparr>"

definition plan0 :: markdown where
  "plan0 =
     \<lparr>content = plan_text,
      meta = \<lparr>headings = Some [''Plan'', ''Overview''], listItems = None, links = None\<rparr>,
      wordCount = 0\<rparr>"

definition scripts0 :: "chapter_script list" where
  "scripts0 =
     [\<lparr>content = ''A question.'',
       meta = \<lparr>headings = None, listItems = None, links = None\<rparr>,
       wordCount = 0, chapterNumber = 1\<rparr>,
      \<lparr>content = ''The story.'',
       meta = \<lparr>headings = None, listItems = None, links = None\<rparr>,
       wordCount = 0, chapterNumber = 1\<rparr>,
      \<lparr>content = ''Goodbye.'',
       meta = \<lparr>headings = None, listItems = None, links = None\<rparr>,
       wordCount = 0, chapterNumber = 3\<rparr>]"

definition seen0 :: "script_input list" where
  "seen0 =
     [\<lparr>scr_section = ''A question.'', scr_chapterNumber = 1, scr_targetWords = 50,
       scr_style = ''storytelling'', scr_context = outline_text\<rparr>,
      \<lparr>scr_section = ''The story.'', scr_chapterNumber = 1, scr_targetWords = 50,
       scr_style = ''storytelling'', scr_context = outline_text\<rparr>,
      \<lparr>scr_section = ''Goodbye.'', scr_chapterNumber = 3, scr_targetWords = 50,
       scr_style = ''storytelling'', scr_context = outline_text\<rparr>]"

section \<open>Properties\<close>

subsection \<open>Captures of the matcher\<close>

text \<open>A match changes the captures of the groups of its pattern only.\<close>

declare ms.simps [simp del]

lemma ms_frame:
  "t \<in> set (ms f r s) \<Longrightarrow> k \<notin> grps r \<Longrightarrow> map_of (caps_of t) k = map_of (caps_of s) k"
proof (induction f r s arbitrary: t rule: ms.induct)
  case (1 f as b r c)
  then show ?case by (auto simp add: ms.simps(1) split: list.splits if_splits)
next
  case (2 f as b r c)
  then show ?case by (auto simp add: ms.simps(2) split: list.splits if_splits)
next
  case (3 f b r c)
  then show ?case by (auto simp add: ms.simps(3) split: list.splits if_splits)
next
  case (4 f p b r c)
  then show ?case by (auto simp add: ms.simps(4) split: list.splits if_splits)
next
  case (5 f x y s)
  from "5.prems"(1) obtain u where u: "u \<in> set (ms f x s)" and t: "t \<in> set (ms f y u)"
    by (subst (asm) ms.simps(5)) auto
  have "map_of (caps_of t) k = map_of (caps_of u) k" using "5.IH"(2) [OF u t] "5.prems"(2) by simp
  also have "\<dots> = map_of (caps_of s) k" using "5.IH"(1) [OF u] "5.prems"(2) by simp
  finally show ?case .
next
  case (6 f x y s)
  from "6.prems"(1) have "t \<in> set (ms f x s) \<or> t \<in> set (ms f y s)"
    by (subst (asm) ms.simps(6)) auto
  then show ?case using "6.IH" "6.prems"(2) by auto
next
  case (7 f x s)
  from "7.prems"(1) have "t = s \<or>
      (\<exists>u \<in> set (filter (\<lambda>t. length (rest_of t) < length (rest_of s)) (ms f x s)).
         t \<in> set (ms f (Star x) u))"
    by (subst (asm) ms.simps(7)) auto
  then show ?case
  proof
    assume "t = s" then show ?thesis by simp
  next
    assume "\<exists>u \<in> set (filter (\<lambda>t. length (rest_of t) < length (rest_of s)) (ms f x s)).
         t \<in> set (ms f (Star x) u)"
    then obtain u where u: "u \<in> set (filter (\<lambda>t. length (rest_of t) < length (rest_of s)) (ms f x s))"
      and t: "t \<in> set (ms f (Star x) u)" by blast
    have u': "u \<in> set (ms f x s)" using u by simp
    have "map_of (caps_of t) k = map_of (caps_of u) k" using "7.IH"(2) [OF u t] "7.prems"(2) by simp
    also have "\<dots> = map_of (caps_of s) k" using "7.IH"(1) [OF u'] "7.prems"(2) by simp
    finally show ?thesis .
  qed
next
  case (8 f x s)
  from "8.prems"(1) have "t = s \<or>
      (\<exists>u \<in> set (filter (\<lambda>t. length (rest_of t) < length (rest_of s)) (ms f x s)).
         t \<in> set (ms f (LazyStar x) u))"
    by (subst (asm) ms.simps(8)) auto
  then show ?case
  proof
    assume "t = s" then show ?thesis by simp
  next
    assume "\<exists>u \<in> set (filter (\<lambda>t. length (rest_of t) < length (rest_of s)) (ms f x s)).
         t \<in> set (ms f (LazyStar x) u)"
    then obtain u where u: "u \<in> set (filter (\<lambda>t. length (rest_of t) < length (rest_of s)) (ms f x s))"
      and t: "t \<in> set (ms f (LazyStar x) u)" by blast
    have u': "u \<in> set (ms f x s)" using u by simp
    have "map_of (caps_of t) k = map_of (caps_of u) k" using "8.IH"(2) [OF u t] "8.prems"(2) by simp
    also have "\<dots> = map_of (caps_of s) k" using "8.IH"(1) [OF u'] "8.prems"(2) by simp
    finally show ?thesis .
  qed
next
  case (9 f x s)
  from "9.prems"(1) have "t = s \<or> t \<in> set (ms f x s)"
    by (subst (asm) ms.simps(9)) auto
  then show ?case using "9.IH" "9.prems"(2) by auto
next
  case (10 f n x s)
  from "10.prems"(1) obtain u where u: "u \<in> set (ms f x s)"
    and t: "caps_of t = (n, rev (take (length (before_of u) - length (before_of s)) (before_of u))) # caps_of u"
    by (subst (asm) ms.simps(10)) auto
  show ?case using "10.IH" [OF u] "10.prems"(2) t by auto
next
  case (11 f x s)
  show ?case
  proof (cases "ms f x s")
    case Nil
    then show ?thesis using "11.prems"(1) by (subst (asm) ms.simps(11)) simp
  next
    case (Cons u us)
    then have t: "caps_of t = caps_of u"
      using "11.prems"(1) by (subst (asm) ms.simps(11)) simp
    have u: "u \<in> set (ms f x s)" using Cons by simp
    show ?thesis using "11.IH" [OF u] "11.prems"(2) t by auto
  qed
next
  case (12 f as b r c)
  then show ?case by (auto simp add: ms.simps(12) split: list.splits if_splits)
next
  case (13 f b r c)
  then show ?case by (auto simp add: ms.simps(13) split: list.splits if_splits)
next
  case (14 f b r c)
  then show ?case by (auto simp add: ms.simps(14) split: list.splits if_splits)
next
  case (15 f b r c)
  then show ?case by (auto simp add: ms.simps(15) split: list.splits if_splits)
qed

text \<open>
  A pattern that starts with literal text and the group \<open>([12])\<close> captures the digit 1
  or the digit 2 in its first group; the matches that the search loops return are
  matches of the pattern at some position.
\<close>

lemma ms_host_digit:
  assumes t: "t \<in> set (ms f (Seq (Str p) (Seq (Grp 1 (One [Ch CHR ''1'', Ch CHR ''2''])) r)) s)"
    and r: "1 \<notin> grps r" and i: "\<not> ignoreCase f"
  shows "group (caps_of t) 1 = ''1'' \<or> group (caps_of t) 1 = ''2''"
proof -
  from t obtain u where t1: "t \<in> set (ms f (Seq (Grp 1 (One [Ch CHR ''1'', Ch CHR ''2''])) r) u)"
    by (subst (asm) ms.simps(5)) auto
  then obtain v where v: "v \<in> set (ms f (Grp 1 (One [Ch CHR ''1'', Ch CHR ''2''])) u)"
    and t2: "t \<in> set (ms f r v)"
    by (subst (asm) ms.simps(5)) auto
  obtain b r0 c where u: "u = MS b r0 c" by (cases u)
  from v obtain w where w: "w \<in> set (ms f (One [Ch CHR ''1'', Ch CHR ''2'']) u)"
    and cv: "caps_of v = (1, rev (take (length (before_of w) - length (before_of u)) (before_of w))) # caps_of w"
    by (subst (asm) ms.simps(10)) auto
  from w u i obtain x xs where "w = MS (x # b) xs c" and x: "x = CHR ''1'' \<or> x = CHR ''2''"
    by (auto simp add: ms.simps(1) split: list.splits if_splits)
  then have "caps_of v = (1, [x]) # c" using cv u by simp
  then have "map_of (caps_of v) 1 = Some [x]" by simp
  then have "map_of (caps_of t) 1 = Some [x]" using ms_frame [OF t2 r] by simp
  then show ?thesis using x by (auto simp add: group_def)
qed

lemma match_at_caps:
  "match_at f r b s = Some (n, c) \<Longrightarrow> \<exists>t \<in> set (ms f r (MS b s [])). c = caps_of t"
  by (auto simp add: match_at_def split: list.splits)

lemma exec_all_caps:
  "exec_all f r b s = Some found \<Longrightarrow> m \<in> set found \<Longrightarrow>
     \<exists>b' s' n. match_at f r b' s' = Some (n, snd m)"
proof (induction f r b s arbitrary: found rule: exec_all.induct)
  case (1 f r b s)
  show ?case
  proof (cases "match_at f r b s")
    case None
    show ?thesis
    proof (cases s)
      case Nil
      then show ?thesis using None "1.prems" by (subst (asm) exec_all.simps) simp
    next
      case (Cons x xs)
      then have "exec_all f r (x # b) xs = Some found"
        using None "1.prems"(1) by (subst (asm) exec_all.simps) simp
      then show ?thesis using "1.IH"(1) [OF None Cons] "1.prems"(2) by blast
    qed
  next
    case (Some a)
    obtain n c where a: "a = (n, c)" by (cases a)
    show ?thesis
    proof (cases "n = 0")
      case True
      then show ?thesis using Some a "1.prems"(1) by (subst (asm) exec_all.simps) simp
    next
      case False
      then obtain tl where tl: "exec_all f r (rev (take n s) @ b) (drop n s) = Some tl"
        and f: "found = (take n s, c) # tl"
        using Some a "1.prems"(1) by (subst (asm) exec_all.simps) auto
      show ?thesis
      proof (cases "m = (take n s, c)")
        case True
        then show ?thesis using Some a by auto
      next
        case False
        then have "m \<in> set tl" using f "1.prems"(2) by simp
        then show ?thesis using "1.IH"(2) [OF Some a [symmetric] \<open>n \<noteq> 0\<close> tl] by blast
      qed
    qed
  qed
qed

lemma match_first_caps:
  "match_first f r b s = Some (m, c) \<Longrightarrow> \<exists>b' s' n. match_at f r b' s' = Some (n, c)"
proof (induction s arbitrary: b)
  case Nil
  then show ?case by (auto split: option.splits)
next
  case (Cons x xs)
  then show ?case by (auto split: option.splits)
qed

subsection \<open>Accuracy classification\<close>

text \<open>
  Claim C4 says that the accuracy recorded in a finished job's metadata is fair for a
  deviation \<open>d\<close> with \<open>10% < d \<le> 20%\<close>.  The orchestrator compares with three times the
  configured tolerance, which is 15%: a final script of 82 words against a target of
  100 deviates by 18% and is classified poor.
\<close>

theorem calculateAccuracy_fair_counterexample:
  "calculateAccuracy 100 82 = ''poor'' \<and>
   10 / 100 < spec_deviation 100 82 \<and> spec_deviation 100 82 \<le> 20 / 100"
  by (simp add: calculateAccuracy_def spec_deviation_def tolerancePercent_def Let_def)

text \<open>
  Claim C4, amended: for a positive target the classification of the deviation
  \<open>d = |target - actual| / target\<close> is excellent when \<open>d \<le> 5%\<close>, good when
  \<open>5% < d \<le> 10%\<close>, fair when \<open>10% < d \<le> 15%\<close>, and poor otherwise.
\<close>

theorem calculateAccuracy_buckets:
  "0 < target \<Longrightarrow>
   calculateAccuracy target actual =
     (if spec_deviation target actual \<le> 5 / 100 then ''excellent''
      else if spec_deviation target actual \<le> 10 / 100 then ''good''
      else if spec_deviation target actual \<le> 15 / 100 then ''fair''
      else ''poor'')"
  by (simp add: calculateAccuracy_def spec_deviation_def tolerancePercent_def Let_def field_simps)

theorem calculateAccuracy_buckets_witness:
  "(0::nat) < 750 \<and> calculateAccuracy 750 860 = ''fair'' \<and>
   10 / 100 < spec_deviation 750 860 \<and> spec_deviation 750 860 \<le> 15 / 100"
  using calculateAccuracy_buckets [of 750 860]
  by (simp add: spec_deviation_def)

subsection \<open>Cancelling a finished job\<close>

text \<open>
  Claim C8 says that cancelling a job in a terminal state reports the existing state
  back to the caller.  For a completed job the controller answers with status code 400
  and an error body that has no \<open>status\<close> member.
\<close>

theorem cancelGeneration_completed_counterexample:
  "code (fst (cancelGeneration ''j1'' ''2024-01-01T11:00:00.000Z'' [''j1'' \<mapsto> job1])) = 400 \<and>
   map_of (body (fst (cancelGeneration ''j1'' ''2024-01-01T11:00:00.000Z'' [''j1'' \<mapsto> job1])))
     ''status'' = None"
  by (simp add: cancelGeneration_def job1_def)

text \<open>
  Claim C8, amended: cancelling a job whose state is completed or failed leaves the job
  map, and with it the job's recorded state and completion timestamp, unchanged, and is
  answered with the error response of code 400 instead of the existing state;
  cancelling a job that is already cancelled leaves its state cancelled and reports
  the state cancelled.
\<close>

theorem cancelGeneration_terminal:
  "activeGenerations jobId = Some g \<Longrightarrow>
     (status g = ''completed'' \<or> status g = ''failed'' \<longrightarrow>
        cancelGeneration jobId now activeGenerations =
          (\<lparr>code = 400,
            body = [(''error'', ''Cannot cancel completed generation''),
                    (''message'', ''Generation is already completed or failed'')]\<rparr>,
           activeGenerations)) \<and>
     (status g = ''cancelled'' \<longrightarrow>
        map_of (body (fst (cancelGeneration jobId now activeGenerations))) ''status''
          = Some ''cancelled'' \<and>
        map_option status (snd (cancelGeneration jobId now activeGenerations) jobId)
          = Some ''cancelled'')"
  by (simp add: cancelGeneration_def)

theorem cancelGeneration_terminal_witness:
  "[''j1'' \<mapsto> job1] ''j1'' = Some job1 \<and> status job1 = ''completed'' \<and>
   snd (cancelGeneration ''j1'' ''2024-01-01T11:00:00.000Z'' [''j1'' \<mapsto> job1]) ''j1'' = Some job1"
  using cancelGeneration_terminal [of "[''j1'' \<mapsto> job1]" "''j1''" job1 "''2024-01-01T11:00:00.000Z''"]
  by (simp add: job1_def)

subsection \<open>Retry policy of a chat completion\<close>

lemma attemptLoop_step:
  "snd (attemptLoop client rng toDouble attempt tr) =
     (if maxRetries < attempt then tr
      else if stops (client attempt) then tr @ [Call attempt]
      else if attempt < maxRetries then
        snd (attemptLoop client rng toDouble (attempt + 1)
              (tr @ [Call attempt, Sleep (retry_delay toDouble attempt (rng attempt * 1000))]))
      else snd (attemptLoop client rng toDouble (attempt + 1) (tr @ [Call attempt])))"
  by (subst attemptLoop.simps)
     (auto simp add: stops_def retry_delay_def baseDelay_def split: option.split)

lemma attemptLoop_from_4:
  "attempt = 4 \<Longrightarrow> snd (attemptLoop client rng toDouble attempt tr) = tr"
  by (subst attemptLoop_step) (simp add: maxRetries_def)

lemma attemptLoop_from_3:
  "attempt = 3 \<Longrightarrow> snd (attemptLoop client rng toDouble attempt tr) = tr @ [Call 3]"
  by (subst attemptLoop_step) (simp add: maxRetries_def attemptLoop_from_4)

lemma attemptLoop_from_2:
  "attempt = 2 \<Longrightarrow> snd (attemptLoop client rng toDouble attempt tr) =
      (if stops (client 2) then tr @ [Call 2]
       else tr @ [Call 2, Sleep (retry_delay toDouble 2 (rng 2 * 1000)), Call 3])"
  by (subst attemptLoop_step) (simp add: maxRetries_def attemptLoop_from_3)

lemma getChatCompletion_trace:
  "snd (getChatCompletion True client rng toDouble) =
     (if stops (client 1) then [Call 1]
      else if stops (client 2) then
        [Call 1, Sleep (retry_delay toDouble 1 (rng 1 * 1000)), Call 2]
      else [Call 1, Sleep (retry_delay toDouble 1 (rng 1 * 1000)), Call 2,
            Sleep (retry_delay toDouble 2 (rng 2 * 1000)), Call 3])"
proof -
  have "snd (getChatCompletion True client rng toDouble) =
          snd (attemptLoop client rng toDouble 1 [])"
    by (simp add: getChatCompletion_def)
  also have "\<dots> = (if stops (client 1) then [Call 1]
      else if stops (client 2) then
        [Call 1, Sleep (retry_delay toDouble 1 (rng 1 * 1000)), Call 2]
      else [Call 1, Sleep (retry_delay toDouble 1 (rng 1 * 1000)), Call 2,
            Sleep (retry_delay toDouble 2 (rng 2 * 1000)), Call 3])"
    by (subst attemptLoop_step) (simp add: maxRetries_def attemptLoop_from_2)
  finally show ?thesis .
qed

lemma retry_schedule_1: "retry_schedule rng toDouble 1 = [Call 1]"
  by (simp add: retry_schedule_def)

lemma retry_schedule_2:
  "retry_schedule rng toDouble 2 =
     [Call 1, Sleep (retry_delay toDouble 1 (rng 1 * 1000)), Call 2]"
proof -
  have "[1..<Suc 2] = [1, 2]" by (simp add: upt_rec)
  then show ?thesis by (simp add: retry_schedule_def)
qed

lemma retry_schedule_3:
  "retry_schedule rng toDouble 3 =
     [Call 1, Sleep (retry_delay toDouble 1 (rng 1 * 1000)), Call 2,
      Sleep (retry_delay toDouble 2 (rng 2 * 1000)), Call 3]"
proof -
  have "[1..<Suc 3] = [1, 2, 3]" by (simp add: upt_rec)
  then show ?thesis by (simp add: retry_schedule_def)
qed

lemma retry_attempts_cases:
  "stops (client 1) \<Longrightarrow> retry_attempts client = 1"
  "\<not> stops (client 1) \<Longrightarrow> stops (client 2) \<Longrightarrow> retry_attempts client = 2"
  "\<not> stops (client 1) \<Longrightarrow> \<not> stops (client 2) \<Longrightarrow> retry_attempts client = 3"
  by (simp_all only: retry_attempts_def if_True if_False)

lemma getChatCompletion_schedule:
  "snd (getChatCompletion True client rng toDouble) =
     retry_schedule rng toDouble (retry_attempts client)"
proof -
  consider (a) "stops (client 1)" | (b) "\<not> stops (client 1)" "stops (client 2)"
    | (c) "\<not> stops (client 1)" "\<not> stops (client 2)" by blast
  then show ?thesis
  proof cases
    case a
    then show ?thesis
      by (simp only: getChatCompletion_trace retry_attempts_cases(1) retry_schedule_1 if_True)
  next
    case b
    then show ?thesis
      by (simp only: getChatCompletion_trace retry_attempts_cases(2) [OF b] retry_schedule_2
          if_True if_False)
  next
    case c
    then show ?thesis
      by (simp only: getChatCompletion_trace retry_attempts_cases(3) [OF c] retry_schedule_3
          if_False)
  qed
qed

lemma stops_nonRetryable:
  "client n = Thrown (Some s) \<Longrightarrow> s \<in> {400, 401, 403} \<Longrightarrow> stops (client n)"
  by (auto simp add: stops_def nonRetryable_def)

lemma stops_answered: "answered (client n) \<noteq> None \<Longrightarrow> stops (client n)"
  by (simp add: stops_def)

lemma not_stops_retryable:
  "answered (client n) = None \<Longrightarrow>
   \<forall>s. client n = Thrown (Some s) \<longrightarrow> s \<notin> {400, 401, 403} \<Longrightarrow> \<not> stops (client n)"
  by (auto simp add: stops_def nonRetryable_def split: outcome.splits option.splits)

text \<open>
  What the policy says of a trace \<open>tr\<close>: at most three calls are made; every delay of
  the trace is slept between an attempt \<open>n\<close> and the attempt \<open>n + 1\<close> and is the double
  sum of \<open>baseDelay * 2 ^ (n - 1)\<close> and of the jitter drawn after attempt \<open>n\<close>, which is at
  least 0 and less than 1000 milliseconds; no attempt follows an answer or a failure
  with status 400, 401 or 403; the next attempt follows every other outcome of an
  attempt before the third.
\<close>

lemma calls_1: "calls [Call 1] = [1]" by simp
lemma calls_2: "calls [Call 1, Sleep d, Call 2] = [1, 2]" by simp
lemma calls_3: "calls [Call 1, Sleep d, Call 2, Sleep e, Call 3] = [1, 2, 3]" by simp

lemma policy_of_trace:
  assumes rng: "\<forall>n. 0 \<le> rng n \<and> rng n < 1"
    and tr: "tr = retry_schedule rng toDouble k" and k: "k = retry_attempts client"
  shows "length (calls tr) \<le> 3 \<and>
         (\<forall>d. Sleep d \<in> set tr \<longrightarrow>
            (\<exists>n j. n \<in> set (calls tr) \<and> Suc n \<in> set (calls tr) \<and> j = rng n * 1000 \<and>
                   0 \<le> j \<and> j < 1000 \<and>
                   d = toDouble (baseDelay * 2 ^ (n - 1) + toDouble j))) \<and>
         (\<forall>n s. n \<in> set (calls tr) \<and> client n = Thrown (Some s) \<and> s \<in> {400, 401, 403} \<longrightarrow>
                Suc n \<notin> set (calls tr)) \<and>
         (\<forall>n. n \<in> set (calls tr) \<and> answered (client n) \<noteq> None \<longrightarrow> Suc n \<notin> set (calls tr)) \<and>
         (\<forall>n. n \<in> set (calls tr) \<and> n < 3 \<and> answered (client n) = None \<and>
                (\<forall>s. client n = Thrown (Some s) \<longrightarrow> s \<notin> {400, 401, 403}) \<longrightarrow>
                Suc n \<in> set (calls tr))"
proof -
  let ?d1 = "retry_delay toDouble 1 (rng 1 * 1000)"
  let ?d2 = "retry_delay toDouble 2 (rng 2 * 1000)"
  have r1: "0 \<le> rng 1 * 1000" "rng 1 * 1000 < 1000"
    and r2: "0 \<le> rng 2 * 1000" "rng 2 * 1000 < 1000" using rng by simp_all
  have d1: "?d1 = toDouble (baseDelay * 2 ^ (1 - 1) + toDouble (rng 1 * 1000))"
    and d2: "?d2 = toDouble (baseDelay * 2 ^ (2 - 1) + toDouble (rng 2 * 1000))"
    by (simp_all add: retry_delay_def baseDelay_def)
  consider (a) "stops (client 1)" | (b) "\<not> stops (client 1)" "stops (client 2)"
    | (c) "\<not> stops (client 1)" "\<not> stops (client 2)" by blast
  then show ?thesis
  proof cases
    case a
    then have t: "tr = [Call 1]"
      by (simp only: tr k retry_attempts_cases(1) retry_schedule_1)
    have l: "length [1::nat] \<le> 3" by simp
    have s: "\<forall>d. Sleep d \<in> set [Call 1] \<longrightarrow>
            (\<exists>n j. n \<in> set [1::nat] \<and> Suc n \<in> set [1::nat] \<and> j = rng n * 1000 \<and>
                   0 \<le> j \<and> j < 1000 \<and>
                   d = toDouble (baseDelay * 2 ^ (n - 1) + toDouble j))"
      by simp
    have p: "\<forall>n s. n \<in> set [1::nat] \<and> client n = Thrown (Some s) \<and> s \<in> {400, 401, 403} \<longrightarrow>
                  Suc n \<notin> set [1::nat]" by simp
    have q: "\<forall>n. n \<in> set [1::nat] \<and> answered (client n) \<noteq> None \<longrightarrow> Suc n \<notin> set [1::nat]"
      by simp
    have u: "\<forall>n. n \<in> set [1::nat] \<and> n < 3 \<and> answered (client n) = None \<and>
                  (\<forall>s. client n = Thrown (Some s) \<longrightarrow> s \<notin> {400, 401, 403}) \<longrightarrow>
                  Suc n \<in> set [1::nat]"
      using a not_stops_retryable [of client 1] by auto
    show ?thesis unfolding t calls_1 by (intro conjI l s p q u)
  next
    case b
    then have t: "tr = [Call 1, Sleep ?d1, Call 2]"
      by (simp only: tr k retry_attempts_cases(2) [OF b] retry_schedule_2)
    have l: "length [1::nat, 2] \<le> 3" by simp
    have s: "\<forall>d. Sleep d \<in> set [Call 1, Sleep ?d1, Call 2] \<longrightarrow>
            (\<exists>n j. n \<in> set [1::nat, 2] \<and> Suc n \<in> set [1::nat, 2] \<and> j = rng n * 1000 \<and>
                   0 \<le> j \<and> j < 1000 \<and>
                   d = toDouble (baseDelay * 2 ^ (n - 1) + toDouble j))"
    proof (intro allI impI)
      fix d assume "Sleep d \<in> set [Call 1, Sleep ?d1, Call 2]"
      then have d: "d = ?d1" by simp
      have "1 \<in> set [1::nat, 2] \<and> Suc 1 \<in> set [1::nat, 2] \<and> rng 1 * 1000 = rng 1 * 1000 \<and>
            0 \<le> rng 1 * 1000 \<and> rng 1 * 1000 < 1000 \<and>
            d = toDouble (baseDelay * 2 ^ (1 - 1) + toDouble (rng 1 * 1000))"
        using r1 d d1 by simp
      then show "\<exists>n j. n \<in> set [1::nat, 2] \<and> Suc n \<in> set [1::nat, 2] \<and> j = rng n * 1000 \<and>
                   0 \<le> j \<and> j < 1000 \<and>
                   d = toDouble (baseDelay * 2 ^ (n - 1) + toDouble j)"
        by (intro exI [of _ 1] exI [of _ "rng 1 * 1000"])
    qed
    have p: "\<forall>n s. n \<in> set [1::nat, 2] \<and> client n = Thrown (Some s) \<and> s \<in> {400, 401, 403} \<longrightarrow>
                  Suc n \<notin> set [1::nat, 2]"
      using b(1) stops_nonRetryable [of client 1] by auto
    have q: "\<forall>n. n \<in> set [1::nat, 2] \<and> answered (client n) \<noteq> None \<longrightarrow>
                  Suc n \<notin> set [1::nat, 2]"
      using b(1) stops_answered [of client 1] by auto
    have u: "\<forall>n. n \<in> set [1::nat, 2] \<and> n < 3 \<and> answered (client n) = None \<and>
                  (\<forall>s. client n = Thrown (Some s) \<longrightarrow> s \<notin> {400, 401, 403}) \<longrightarrow>
                  Suc n \<in> set [1::nat, 2]"
      using b(2) not_stops_retryable [of client 2] by auto
    show ?thesis unfolding t calls_2 by (intro conjI l s p q u)
  next
    case c
    then have t: "tr = [Call 1, Sleep ?d1, Call 2, Sleep ?d2, Call 3]"
      by (simp only: tr k retry_attempts_cases(3) [OF c] retry_schedule_3)
    have l: "length [1::nat, 2, 3] \<le> 3" by simp
    have s: "\<forall>d. Sleep d \<in> set [Call 1, Sleep ?d1, Call 2, Sleep ?d2, Call 3] \<longrightarrow>
            (\<exists>n j. n \<in> set [1::nat, 2, 3] \<and> Suc n \<in> set [1::nat, 2, 3] \<and> j = rng n * 1000 \<and>
                   0 \<le> j \<and> j < 1000 \<and>
                   d = toDouble (baseDelay * 2 ^ (n - 1) + toDouble j))"
    proof (intro allI impI)
      fix d assume "Sleep d \<in> set [Call 1, Sleep ?d1, Call 2, Sleep ?d2, Call 3]"
      then consider "d = ?d1" | "d = ?d2" by auto
      then show "\<exists>n j. n \<in> set [1::nat, 2, 3] \<and> Suc n \<in> set [1::nat, 2, 3] \<and> j = rng n * 1000 \<and>
                   0 \<le> j \<and> j < 1000 \<and>
                   d = toDouble (baseDelay * 2 ^ (n - 1) + toDouble j)"
      proof cases
        case 1
        have "1 \<in> set [1::nat, 2, 3] \<and> Suc 1 \<in> set [1::nat, 2, 3] \<and>
              rng 1 * 1000 = rng 1 * 1000 \<and> 0 \<le> rng 1 * 1000 \<and> rng 1 * 1000 < 1000 \<and>
              d = toDouble (baseDelay * 2 ^ (1 - 1) + toDouble (rng 1 * 1000))"
          using r1 1 d1 by simp
        then show ?thesis by (intro exI [of _ 1] exI [of _ "rng 1 * 1000"])
      next
        case 2
        have "2 \<in> set [1::nat, 2, 3] \<and> Suc 2 \<in> set [1::nat, 2, 3] \<and>
              rng 2 * 1000 = rng 2 * 1000 \<and> 0 \<le> rng 2 * 1000 \<and> rng 2 * 1000 < 1000 \<and>
              d = toDouble (baseDelay * 2 ^ (2 - 1) + toDouble (rng 2 * 1000))"
          using r2 2 d2 by simp
        then show ?thesis by (intro exI [of _ 2] exI [of _ "rng 2 * 1000"])
      qed
    qed
    have p: "\<forall>n s. n \<in> set [1::nat, 2, 3] \<and> client n = Thrown (Some s) \<and>
                   s \<in> {400, 401, 403} \<longrightarrow> Suc n \<notin> set [1::nat, 2, 3]"
      using c stops_nonRetryable [of client 1] stops_nonRetryable [of client 2] by auto
    have q: "\<forall>n. n \<in> set [1::nat, 2, 3] \<and> answered (client n) \<noteq> None \<longrightarrow>
                   Suc n \<notin> set [1::nat, 2, 3]"
      using c stops_answered [of client 1] stops_answered [of client 2] by auto
    have u: "\<forall>n. n \<in> set [1::nat, 2, 3] \<and> n < 3 \<and> answered (client n) = None \<and>
                  (\<forall>s. client n = Thrown (Some s) \<longrightarrow> s \<notin> {400, 401, 403}) \<longrightarrow>
                  Suc n \<in> set [1::nat, 2, 3]"
      by auto
    show ?thesis unfolding t calls_3 by (intro conjI l s p q u)
  qed
qed

text \<open>
  Claim C7: a chat completion is attempted at most three times.  The trace of a
  completion is the schedule of the policy: the attempts 1, 2, ... up to the first that
  returns a content or fails with status 400, 401 or 403, and at most three, each but
  the last followed by one delay; the delay before attempt \<open>n + 1\<close> is
  \<open>1000 * 2 ^ (n - 1)\<close> milliseconds plus a thousand times the random value drawn after
  attempt \<open>n\<close>, which is at least 0 and less than 1; after a failure with status 400,
  401 or 403 no further attempt is made; after any other failure of an attempt before
  the third, a timeout, a response without content or with an empty content included,
  the next attempt is made.
\<close>

theorem getChatCompletion_retry_policy:
  assumes rng: "\<forall>n. 0 \<le> rng n \<and> rng n < 1"
  shows "let tr = snd (getChatCompletion True client rng toDouble) in
           tr = retry_schedule rng toDouble (retry_attempts client) \<and>
           length (calls tr) \<le> 3 \<and>
           (\<forall>d. Sleep d \<in> set tr \<longrightarrow>
              (\<exists>n j. n \<in> set (calls tr) \<and> Suc n \<in> set (calls tr) \<and> j = rng n * 1000 \<and>
                     0 \<le> j \<and> j < 1000 \<and>
                     d = toDouble (baseDelay * 2 ^ (n - 1) + toDouble j))) \<and>
           (\<forall>n s. n \<in> set (calls tr) \<and> client n = Thrown (Some s) \<and> s \<in> {400, 401, 403} \<longrightarrow>
                  Suc n \<notin> set (calls tr)) \<and>
           (\<forall>n. n \<in> set (calls tr) \<and> answered (client n) \<noteq> None \<longrightarrow>
                  Suc n \<notin> set (calls tr)) \<and>
           (\<forall>n. n \<in> set (calls tr) \<and> n < 3 \<and> answered (client n) = None \<and>
                  (\<forall>s. client n = Thrown (Some s) \<longrightarrow> s \<notin> {400, 401, 403}) \<longrightarrow>
                  Suc n \<in> set (calls tr))"
  unfolding Let_def
  by (rule conjI [OF getChatCompletion_schedule
        policy_of_trace [OF rng getChatCompletion_schedule refl]])

theorem getChatCompletion_retry_policy_witness:
  "(0 \<le> (1/2::real) \<and> (1/2::real) < 1) \<and>
   snd (getChatCompletion True client0 (\<lambda>n. 1/2) (\<lambda>x. x)) = [Call 1, Sleep 1500, Call 2] \<and>
   retry_schedule (\<lambda>n. 1/2) (\<lambda>x. x) (retry_attempts client0) = [Call 1, Sleep 1500, Call 2] \<and>
   3 \<notin> set (calls (snd (getChatCompletion True client0 (\<lambda>n. 1/2) (\<lambda>x. x)))) \<and>
   snd (getChatCompletion True client1 (\<lambda>n. 1/2) (\<lambda>x. x)) = [Call 1, Sleep 1500, Call 2] \<and>
   2 \<in> set (calls (snd (getChatCompletion True client1 (\<lambda>n. 1/2) (\<lambda>x. x))))"
proof -
  have h: "\<forall>n::nat. 0 \<le> (1/2::real) \<and> (1/2::real) < 1" by simp
  have tr0: "snd (getChatCompletion True client0 (\<lambda>n. 1/2) (\<lambda>x. x)) = [Call 1, Sleep 1500, Call 2]"
    by (simp add: getChatCompletion_trace stops_def nonRetryable_def answered_def client0_def
        retry_delay_def)
  have tr1: "snd (getChatCompletion True client1 (\<lambda>n. 1/2) (\<lambda>x. x)) = [Call 1, Sleep 1500, Call 2]"
    by (simp add: getChatCompletion_trace stops_def nonRetryable_def answered_def client1_def
        retry_delay_def)
  have a1: "answered (client1 1) = None" "\<forall>s. client1 1 = Thrown (Some s) \<longrightarrow> s \<notin> {400, 401, 403}"
    by (simp_all add: answered_def client1_def)
  have c0: "client0 2 = Thrown (Some 401)" by (simp add: client0_def)
  note t0 = getChatCompletion_retry_policy [OF h, of client0 "\<lambda>x. x", unfolded Let_def tr0]
  note t1 = getChatCompletion_retry_policy [OF h, of client1 "\<lambda>x. x", unfolded Let_def tr1]
  from t0 have "[Call 1, Sleep 1500, Call 2] =
                  retry_schedule (\<lambda>n. 1/2) (\<lambda>x. x) (retry_attempts client0)"
    by (rule conjunct1)
  then have p0: "retry_schedule (\<lambda>n. 1/2) (\<lambda>x. x) (retry_attempts client0) =
                   [Call 1, Sleep 1500, Call 2]"
    by (rule sym)
  have "\<forall>n s. n \<in> set (calls [Call 1, Sleep 1500, Call 2]) \<and>
                      client0 n = Thrown (Some s) \<and> s \<in> {400, 401, 403} \<longrightarrow>
                      Suc n \<notin> set (calls [Call 1, Sleep 1500, Call 2])"
    by (rule t0 [THEN conjunct2, THEN conjunct2, THEN conjunct2, THEN conjunct1])
  from this [rule_format, of 2 401] c0
  have n0: "3 \<notin> set (calls [Call 1, Sleep 1500, Call 2])" by simp
  have "\<forall>n. n \<in> set (calls [Call 1, Sleep 1500, Call 2]) \<and> n < 3 \<and>
                    answered (client1 n) = None \<and>
                    (\<forall>s. client1 n = Thrown (Some s) \<longrightarrow> s \<notin> {400, 401, 403}) \<longrightarrow>
                    Suc n \<in> set (calls [Call 1, Sleep 1500, Call 2])"
    by (rule t1 [THEN conjunct2, THEN conjunct2, THEN conjunct2, THEN conjunct2,
                 THEN conjunct2])
  from this [rule_format, of 1] a1
  have p1: "2 \<in> set (calls [Call 1, Sleep 1500, Call 2])" by simp
  show ?thesis using p0 n0 p1 by (simp add: tr0 tr1)
qed

subsection \<open>The convergence loops\<close>

text \<open>
  When a backend never fails and its first three answers miss the target, each loop
  makes a fourth call after its third attempt and returns the fourth answer.
\<close>

lemma script_loop_miss:
  assumes "attempt \<le> maxAttempts" and "attempt' = attempt + 1"
    and "model (length lg) prompt = Inr response"
    and "misses 2 targetWords response"
  shows "\<exists>prompt'. script_loop model targetWords attempt prompt lg =
           script_loop model targetWords attempt' prompt' (lg @ [(''ScriptAgent'', prompt)])"
  using assms
  by (subst script_loop.simps) (auto simp add: chatComplete_def misses_def Let_def)

lemma script_loop_after:
  assumes "maxAttempts < attempt" and "model (length lg) prompt = Inr response"
  shows "script_loop model targetWords attempt prompt lg =
           (Inr response, lg @ [(''ScriptAgent'', prompt)])"
  using assms
  by (subst script_loop.simps) (auto simp add: chatComplete_def)

lemma generateScript_four_calls:
  assumes a: "\<And>p. model 0 p = Inr a0" "\<And>p. model (Suc 0) p = Inr a1"
             "\<And>p. model (Suc (Suc 0)) p = Inr a2" "\<And>p. model (Suc (Suc (Suc 0))) p = Inr a3"
    and m: "misses 2 targetWords a0" "misses 2 targetWords a1" "misses 2 targetWords a2"
  shows "fst (generateScriptWithWordCount model prompt targetWords []) = Inr a3 \<and>
         length (snd (generateScriptWithWordCount model prompt targetWords [])) = 4"
proof -
  let ?l1 = "[] @ [(''ScriptAgent'', prompt)]"
  have "\<exists>p2. script_loop model targetWords 1 prompt [] = script_loop model targetWords 2 p2 ?l1"
    by (rule script_loop_miss [where response = a0]) (simp_all add: maxAttempts_def a m)
  then obtain p2 where 1: "script_loop model targetWords 1 prompt [] =
      script_loop model targetWords 2 p2 ?l1" by blast
  let ?l2 = "?l1 @ [(''ScriptAgent'', p2)]"
  have "\<exists>p3. script_loop model targetWords 2 p2 ?l1 = script_loop model targetWords 3 p3 ?l2"
    by (rule script_loop_miss [where response = a1]) (simp_all add: maxAttempts_def a m)
  then obtain p3 where 2: "script_loop model targetWords 2 p2 ?l1 =
      script_loop model targetWords 3 p3 ?l2" by blast
  let ?l3 = "?l2 @ [(''ScriptAgent'', p3)]"
  have "\<exists>p4. script_loop model targetWords 3 p3 ?l2 = script_loop model targetWords 4 p4 ?l3"
    by (rule script_loop_miss [where response = a2]) (simp_all add: maxAttempts_def a m)
  then obtain p4 where 3: "script_loop model targetWords 3 p3 ?l2 =
      script_loop model targetWords 4 p4 ?l3" by blast
  have 4: "script_loop model targetWords 4 p4 ?l3 = (Inr a3, ?l3 @ [(''ScriptAgent'', p4)])"
    by (rule script_loop_after) (simp_all add: maxAttempts_def a)
  have "generateScriptWithWordCount model prompt targetWords [] =
          (Inr a3, ?l3 @ [(''ScriptAgent'', p4)])"
    unfolding generateScriptWithWordCount_def using 1 2 3 4 by (simp only:)
  then show ?thesis by simp
qed

lemma short_answers_miss:
  "misses 2 100 ''**Host 1:** word''" "misses 2 100 ''**Host 1:** word word''"
  "misses 2 100 ''**Host 1:** word word word''"
  unfolding misses_def by code_simp+

lemma short_answers_at:
  "short_answers 0 p = Inr ''**Host 1:** word''"
  "short_answers (Suc 0) p = Inr ''**Host 1:** word word''"
  "short_answers (Suc (Suc 0)) p = Inr ''**Host 1:** word word word''"
  "short_answers (Suc (Suc (Suc 0))) p = Inr ''**Host 1:** word word word word''"
  by (simp_all add: short_answers_def join_def)

lemma edit_loop_miss:
  assumes "attempt \<le> maxAttempts" and "attempt' = attempt + 1"
    and "model (length lg) prompt = Inr response"
    and "misses tolerance targetWords response"
  shows "\<exists>prompt'. edit_loop model targetWords tolerance attempt prompt lg =
           edit_loop model targetWords tolerance attempt' prompt' (lg @ [(''EditorAgent'', prompt)])"
  using assms
  by (subst edit_loop.simps) (auto simp add: chatComplete_def misses_def Let_def)

lemma edit_loop_after:
  assumes "maxAttempts < attempt" and "model (length lg) prompt = Inr response"
  shows "edit_loop model targetWords tolerance attempt prompt lg =
           (Inr response, lg @ [(''EditorAgent'', prompt)])"
  using assms
  by (subst edit_loop.simps) (auto simp add: chatComplete_def)

lemma editForWordCount_four_calls:
  assumes a: "\<And>p. model 0 p = Inr a0" "\<And>p. model (Suc 0) p = Inr a1"
             "\<And>p. model (Suc (Suc 0)) p = Inr a2" "\<And>p. model (Suc (Suc (Suc 0))) p = Inr a3"
    and m: "misses tolerance targetWords a0" "misses tolerance targetWords a1" "misses tolerance targetWords a2"
  shows "fst (editForWordCount model prompt targetWords tolerance []) = Inr a3 \<and>
         length (snd (editForWordCount model prompt targetWords tolerance [])) = 4"
proof -
  let ?l1 = "[] @ [(''EditorAgent'', prompt)]"
  have "\<exists>p2. edit_loop model targetWords tolerance 1 prompt [] = edit_loop model targetWords tolerance 2 p2 ?l1"
    by (rule edit_loop_miss [where response = a0]) (simp_all add: maxAttempts_def a m)
  then obtain p2 where 1: "edit_loop model targetWords tolerance 1 prompt [] =
      edit_loop model targetWords tolerance 2 p2 ?l1" by blast
  let ?l2 = "?l1 @ [(''EditorAgent'', p2)]"
  have "\<exists>p3. edit_loop model targetWords tolerance 2 p2 ?l1 = edit_loop model targetWords tolerance 3 p3 ?l2"
    by (rule edit_loop_miss [where response = a1]) (simp_all add: maxAttempts_def a m)
  then obtain p3 where 2: "edit_loop model targetWords tolerance 2 p2 ?l1 =
      edit_loop model targetWords tolerance 3 p3 ?l2" by blast
  let ?l3 = "?l2 @ [(''EditorAgent'', p3)]"
  have "\<exists>p4. edit_loop model targetWords tolerance 3 p3 ?l2 = edit_loop model targetWords tolerance 4 p4 ?l3"
    by (rule edit_loop_miss [where response = a2]) (simp_all add: maxAttempts_def a m)
  then obtain p4 where 3: "edit_loop model targetWords tolerance 3 p3 ?l2 =
      edit_loop model targetWords tolerance 4 p4 ?l3" by blast
  have 4: "edit_loop model targetWords tolerance 4 p4 ?l3 = (Inr a3, ?l3 @ [(''EditorAgent'', p4)])"
    by (rule edit_loop_after) (simp_all add: maxAttempts_def a)
  have "editForWordCount model prompt targetWords tolerance [] =
          (Inr a3, ?l3 @ [(''EditorAgent'', p4)])"
    unfolding editForWordCount_def using 1 2 3 4 by (simp only:)
  then show ?thesis by simp
qed

lemma short_answers_miss_5:
  "misses 5 100 ''**Host 1:** word''" "misses 5 100 ''**Host 1:** word word''"
  "misses 5 100 ''**Host 1:** word word word''"
  unfolding misses_def by code_simp+

text \<open>
  Claim C2 says that each convergence loop makes at most three model calls and that,
  when no attempt lands within tolerance, the last of the three answers is accepted
  without a further call.  With a target of 100 words and a backend whose \<open>k\<close>-th answer
  has \<open>k\<close> spoken words, the Scripter's loop and the Editor's loop (tolerance 5%) each
  make four calls and return the fourth answer.
\<close>

theorem convergence_loops_fourth_call:
  "fst (generateScriptWithWordCount short_answers ''Write.'' 100 [])
     = Inr ''**Host 1:** word word word word'' \<and>
   length (snd (generateScriptWithWordCount short_answers ''Write.'' 100 [])) = 4 \<and>
   fst (editForWordCount short_answers ''Edit.'' 100 5 [])
     = Inr ''**Host 1:** word word word word'' \<and>
   length (snd (editForWordCount short_answers ''Edit.'' 100 5 [])) = 4"
  using generateScript_four_calls [OF short_answers_at short_answers_miss, where prompt = "''Write.''"]
    editForWordCount_four_calls [OF short_answers_at short_answers_miss_5, where prompt = "''Edit.''"]
  by simp

subsection \<open>Speakers and tones of the parsed utterances\<close>

text \<open>
  Every step of the parser keeps the utterances in order: the speaker of a pushed
  utterance is built from the digit captured by \<open>([12])\<close> or is one of the two
  alternating names, and its tone is inferred from the content or is a bracketed tag.
\<close>

lemma push_utterance_ok:
  assumes "list_all (utterance_ok tags) (fst st)"
    and "speakerOf (snd st + 1) = ''host1'' \<or> speakerOf (snd st + 1) = ''host2''"
    and "tn \<in> set inferredTones \<or> tn \<in> set tags"
  shows "list_all (utterance_ok tags) (fst (push_utterance speakerOf tn t w st))"
  using assms by (cases st) (simp add: push_utterance_def utterance_ok_def)

lemma push_sentences_ok:
  assumes "list_all (utterance_ok tags) (fst st)"
    and "\<And>i. speakerOf i = ''host1'' \<or> speakerOf i = ''host2''"
    and "tn \<in> set inferredTones \<or> tn \<in> set tags"
  shows "list_all (utterance_ok tags) (fst (push_sentences speakerOf tn sentences st))"
  using assms(1) unfolding push_sentences_def
proof (induction sentences arbitrary: st)
  case Nil
  then show ?case by simp
next
  case (Cons sentence sentences)
  show ?case
    using Cons.IH [of "if length (trim sentence) > 0
        then push_utterance speakerOf tn (trim sentence) sentence st else st"]
      Cons.prems push_utterance_ok [OF Cons.prems assms(2) assms(3)]
    by simp
qed

lemma inferTone_in: "inferToneFromContent t \<in> set inferredTones"
  by (simp add: inferToneFromContent_def inferredTones_def Let_def)

lemma host_ok: "h = ''1'' \<or> h = ''2'' \<Longrightarrow> host h i = ''host1'' \<or> host h i = ''host2''"
  by (auto simp add: host_def)

lemma alternate_ok:
  "alternate_odd i = ''host1'' \<or> alternate_odd i = ''host2''"
  "alternate_even i = ''host1'' \<or> alternate_even i = ''host2''"
  by (simp_all add: alternate_odd_def alternate_even_def)

lemma hostLine_digit:
  assumes "match_first (flags_of fl) hostLineRegex b s = Some (m, c)" and "CHR ''i'' \<notin> set fl"
  shows "group c 1 = ''1'' \<or> group c 1 = ''2''"
proof -
  from match_first_caps [OF assms(1)] obtain b' s' n
    where "match_at (flags_of fl) hostLineRegex b' s' = Some (n, c)" by blast
  from match_at_caps [OF this] obtain t
    where t: "t \<in> set (ms (flags_of fl) hostLineRegex (MS b' s' []))" and c: "c = caps_of t" by blast
  show ?thesis
    unfolding c
    by (rule ms_host_digit [OF t [unfolded hostLineRegex_def]])
       (simp_all add: flags_of_def assms(2) OneOrMore_def space_def chr_def)
qed

lemma hostTone_digit:
  assumes "exec_all (flags_of fl) hostToneRegex b s = Some found" and "m \<in> set found"
    and "CHR ''i'' \<notin> set fl"
  shows "group (snd m) 1 = ''1'' \<or> group (snd m) 1 = ''2''"
proof -
  from exec_all_caps [OF assms(1) assms(2)] obtain b' s' n
    where "match_at (flags_of fl) hostToneRegex b' s' = Some (n, snd m)" by blast
  from match_at_caps [OF this] obtain t
    where t: "t \<in> set (ms (flags_of fl) hostToneRegex (MS b' s' []))" and c: "snd m = caps_of t" by blast
  show ?thesis
    unfolding c
    by (rule ms_host_digit [OF t [unfolded hostToneRegex_def]])
       (simp_all add: flags_of_def assms(3) OneOrMore_def chr_def space_def hostLabel_def)
qed

lemma hostLineStep_ok:
  assumes "list_all (utterance_ok tags) (fst st)"
  shows "list_all (utterance_ok tags) (fst (hostLineStep st line))"
proof (cases "match_first (flags_of []) hostLineRegex [] line")
  case None
  then show ?thesis using assms by (simp add: hostLineStep_def)
next
  case (Some a)
  obtain m c where a: "a = (m, c)" by (cases a)
  have d: "group c 1 = ''1'' \<or> group c 1 = ''2''"
    using hostLine_digit [of "[]" "[]" line m c] Some a by simp
  have h: "\<And>i. host (group c 1) i = ''host1'' \<or> host (group c 1) i = ''host2''"
    using host_ok [OF d] by simp
  have t: "\<And>x. inferToneFromContent x \<in> set inferredTones \<or> inferToneFromContent x \<in> set tags"
    using inferTone_in by simp
  show ?thesis
    using Some a assms push_sentences_ok [OF assms h t]
    by (simp add: hostLineStep_def Let_def)
qed

lemma paragraphStep_ok:
  assumes "list_all (utterance_ok tags) (fst st)"
  shows "list_all (utterance_ok tags) (fst (paragraphStep st paragraph))"
proof (cases "match_first (flags_of []) hostLineRegex [] paragraph")
  case None
  have t: "\<And>x. inferToneFromContent x \<in> set inferredTones \<or> inferToneFromContent x \<in> set tags"
    using inferTone_in by simp
  show ?thesis
    using None assms push_utterance_ok [OF assms alternate_ok(2) t]
    by (simp add: paragraphStep_def)
next
  case (Some a)
  obtain m c where a: "a = (m, c)" by (cases a)
  have d: "group c 1 = ''1'' \<or> group c 1 = ''2''"
    using hostLine_digit [of "[]" "[]" "paragraph" m c] Some a by simp
  have h: "\<And>i. host (group c 1) i = ''host1'' \<or> host (group c 1) i = ''host2''"
    using host_ok [OF d] by simp
  have t: "\<And>x. inferToneFromContent x \<in> set inferredTones \<or> inferToneFromContent x \<in> set tags"
    using inferTone_in by simp
  show ?thesis
    using Some a assms push_sentences_ok [OF assms h t]
    by (simp add: paragraphStep_def Let_def)
qed

lemma foldl_ok:
  assumes "\<And>st x. x \<in> set xs \<Longrightarrow> list_all (utterance_ok tags) (fst st) \<Longrightarrow>
              list_all (utterance_ok tags) (fst (step st x))"
    and "list_all (utterance_ok tags) (fst st)"
  shows "list_all (utterance_ok tags) (fst (foldl step st xs))"
  using assms
proof (induction xs arbitrary: st)
  case Nil
  then show ?case by simp
next
  case (Cons x xs)
  show ?case using Cons.IH [of "step st x"] Cons.prems by simp
qed

lemma parseAlternativeFormat_ok: "list_all (utterance_ok tags) (parseAlternativeFormat c)"
proof -
  have 1: "\<And>xs. list_all (utterance_ok tags) (fst (foldl hostLineStep ([], 0) xs))"
    by (rule foldl_ok) (simp_all add: hostLineStep_ok)
  have 2: "\<And>xs ys. list_all (utterance_ok tags)
              (fst (foldl paragraphStep (foldl hostLineStep ([], 0) xs) ys))"
    by (rule foldl_ok) (simp_all add: paragraphStep_ok 1)
  show ?thesis unfolding parseAlternativeFormat_def Let_def using 1 2 by simp
qed

lemma hostToneStep_ok:
  assumes "list_all (utterance_ok tags) (fst st)"
    and "group (snd m) 1 = ''1'' \<or> group (snd m) 1 = ''2''"
    and "trim (toLowerCase (group (snd m) 2)) \<in> set tags"
  shows "list_all (utterance_ok tags) (fst (hostToneStep st m))"
proof -
  have h: "\<And>i. host (group (snd m) 1) i = ''host1'' \<or> host (group (snd m) 1) i = ''host2''"
    using host_ok [OF assms(2)] by simp
  have t: "trim (toLowerCase (group (snd m) 2)) \<in> set inferredTones \<or>
           trim (toLowerCase (group (snd m) 2)) \<in> set tags"
    using assms(3) by simp
  show ?thesis
    using assms(1) push_sentences_ok [OF assms(1) h t]
    by (simp add: hostToneStep_def Let_def)
qed

lemma toneOnlyStep_ok:
  assumes "list_all (utterance_ok tags) (fst st)"
    and "trim (toLowerCase (group (snd m) 1)) \<in> set tags"
  shows "list_all (utterance_ok tags) (fst (toneOnlyStep st m))"
proof -
  have t: "trim (toLowerCase (group (snd m) 1)) \<in> set inferredTones \<or>
           trim (toLowerCase (group (snd m) 1)) \<in> set tags"
    using assms(2) by simp
  show ?thesis
    using assms(1) push_sentences_ok [OF assms(1) alternate_ok(1) t]
    by (simp add: toneOnlyStep_def Let_def)
qed

text \<open>
  Claim C3 says that every utterance of the parser has exactly one tone of the closed
  tone set or of its four synonyms, also on the strict path that takes the bracketed
  tag from the model output.  On that path the tag is copied without a check: the
  line \<open>**Host 1:** [whispering] Hello.\<close> yields an utterance of tone \<open>whispering\<close>.
\<close>

theorem parseUtterances_tone_counterexample:
  "parseUtterances ''**Host 1:** [whispering] Hello.'' =
     Some [\<lparr>idx = 0, speaker = ''host1'', tone = ''whispering'', utext = ''Hello.'',
            u_wordCount = 1, estimatedDuration = 0\<rparr>] \<and>
   ''whispering'' \<notin> set (closedToneSet @ toneSynonyms)"
  by code_simp

lemma parseUtterances_ok:
  assumes "parseUtterances c = Some us"
  shows "list_all (utterance_ok (bracketTones c)) us"
proof -
  let ?sc = "scriptContentOf c"
  let ?tags = "bracketTones c"
  show ?thesis
  proof (cases "exec_all (flags_of ''gs'') hostToneRegex [] ?sc")
    case None
    then show ?thesis using assms(1) by (simp add: parseUtterances_def)
  next
    case (Some found1)
    have 1: "list_all (utterance_ok ?tags) (fst (foldl hostToneStep ([], 0) found1))"
    proof (rule foldl_ok)
      fix st :: parser_state and m
      assume m: "m \<in> set found1" and st: "list_all (utterance_ok ?tags) (fst st)"
      have "trim (toLowerCase (group (snd m) 2)) \<in> set ?tags"
        using m Some by (simp add: bracketTones_def)
      then show "list_all (utterance_ok ?tags) (fst (hostToneStep st m))"
        using hostToneStep_ok [OF st hostTone_digit [OF Some m]] by simp
    qed simp
    show ?thesis
    proof (cases "length (fst (foldl hostToneStep ([], 0) found1)) = 0")
      case False
      then show ?thesis using assms(1) Some 1 by (simp add: parseUtterances_def Let_def)
    next
      case True
      note e1 = True
      show ?thesis
      proof (cases "exec_all (flags_of ''gs'') utteranceRegex [] ?sc")
        case None
        then show ?thesis using assms(1) Some e1 by (simp add: parseUtterances_def Let_def)
      next
        case (Some found2)
        note s2 = Some
        have 2: "list_all (utterance_ok ?tags)
                   (fst (foldl toneOnlyStep (fst (foldl hostToneStep ([], 0) found1), 0) found2))"
        proof (rule foldl_ok)
          fix st :: parser_state and m
          assume m: "m \<in> set found2" and st: "list_all (utterance_ok ?tags) (fst st)"
          have "trim (toLowerCase (group (snd m) 1)) \<in> set ?tags"
            using m s2 by (simp add: bracketTones_def)
          then show "list_all (utterance_ok ?tags) (fst (toneOnlyStep st m))"
            using toneOnlyStep_ok [OF st] by simp
        qed (simp add: 1)
        have 3: "\<And>st xs. list_all (utterance_ok ?tags) (fst st) \<Longrightarrow>
                   list_all (utterance_ok ?tags) (fst (foldl hostLineStep st xs))"
          by (rule foldl_ok) (simp_all add: hostLineStep_ok)
        show ?thesis
          using assms(1) \<open>exec_all (flags_of ''gs'') hostToneRegex [] ?sc = Some found1\<close> e1 s2 2
            3 [of "(fst (foldl toneOnlyStep (fst (foldl hostToneStep ([], 0) found1), 0) found2), 0)"]
            parseAlternativeFormat_ok [of ?tags ?sc]
          by (auto simp add: parseUtterances_def Let_def split: if_splits)
      qed
    qed
  qed
qed

text \<open>The tones that the steps of the two tagged strategies push.\<close>

lemma push_utterance_tones:
  "map tone (fst (push_utterance speakerOf tn t w st)) = map tone (fst st) @ [tn]"
  by (cases st) (simp add: push_utterance_def)

lemma push_sentences_tones:
  "map tone (fst (push_sentences speakerOf tn sentences st)) =
     map tone (fst st) @
     replicate (length (filter (\<lambda>sentence. length (trim sentence) > 0) sentences)) tn"
  unfolding push_sentences_def
proof (induction sentences arbitrary: st)
  case Nil
  then show ?case by simp
next
  case (Cons sentence sentences)
  show ?case
    using Cons.IH [of "if length (trim sentence) > 0
        then push_utterance speakerOf tn (trim sentence) sentence st else st"]
    by (simp add: push_utterance_tones replicate_append_same)
qed

lemma hostToneStep_tones:
  "map tone (fst (hostToneStep st m)) =
     map tone (fst st) @
     block_tones (trim (toLowerCase (group (snd m) 2))) (cleanText (group (snd m) 3))"
  by (simp add: hostToneStep_def Let_def block_tones_def push_sentences_tones)

lemma toneOnlyStep_tones:
  "map tone (fst (toneOnlyStep st m)) =
     map tone (fst st) @
     block_tones (trim (toLowerCase (group (snd m) 1))) (cleanText (group (snd m) 2))"
  by (simp add: toneOnlyStep_def Let_def block_tones_def push_sentences_tones)

lemma foldl_tones:
  assumes "\<And>st x. map tone (fst (step st x)) = map tone (fst st) @ g x"
  shows "map tone (fst (foldl step st xs)) = map tone (fst st) @ concat (map g xs)"
proof (induction xs arbitrary: st)
  case Nil
  then show ?case by simp
next
  case (Cons x xs)
  show ?case using Cons.IH [of "step st x"] assms [of st x] by simp
qed

lemma inferred_only:
  "list_all (utterance_ok []) us \<Longrightarrow> \<forall>u \<in> set us. tone u \<in> set inferredTones"
  by (simp add: list_all_iff utterance_ok_def)

lemma parseUtterances_paths:
  assumes "parseUtterances c = Some us"
  shows "(hostToneTags c \<noteq> [] \<longrightarrow> map tone us = hostToneTags c) \<and>
         (hostToneTags c = [] \<and> toneOnlyTags c \<noteq> [] \<longrightarrow> map tone us = toneOnlyTags c) \<and>
         (hostToneTags c = [] \<and> toneOnlyTags c = [] \<longrightarrow>
            (\<forall>u \<in> set us. tone u \<in> set inferredTones))"
proof -
  let ?sc = "scriptContentOf c"
  from assms obtain found1 where f1: "exec_all (flags_of ''gs'') hostToneRegex [] ?sc = Some found1"
    by (cases "exec_all (flags_of ''gs'') hostToneRegex [] ?sc")
       (simp_all add: parseUtterances_def)
  let ?byHostTone = "foldl hostToneStep ([], 0) found1"
  have "hostToneTags c =
          concat (map (\<lambda>m. block_tones (trim (toLowerCase (group (snd m) 2)))
                              (cleanText (group (snd m) 3))) found1)"
    unfolding hostToneTags_def f1 by simp
  then have t1: "map tone (fst ?byHostTone) = hostToneTags c"
    using foldl_tones [of hostToneStep _ "([], 0)" found1, OF hostToneStep_tones]
    by simp
  show ?thesis
  proof (cases "fst ?byHostTone = []")
    case False
    then have "us = fst ?byHostTone"
      using assms f1 by (simp add: parseUtterances_def Let_def)
    moreover from False t1 have "hostToneTags c \<noteq> []" by (metis map_is_Nil_conv)
    ultimately show ?thesis using t1 by simp
  next
    case True
    then have h: "hostToneTags c = []" using t1 by simp
    from assms f1 True obtain found2
      where f2: "exec_all (flags_of ''gs'') utteranceRegex [] ?sc = Some found2"
      by (cases "exec_all (flags_of ''gs'') utteranceRegex [] ?sc")
         (simp_all add: parseUtterances_def Let_def)
    let ?byTone = "foldl toneOnlyStep ([], 0) found2"
    have "toneOnlyTags c =
            concat (map (\<lambda>m. block_tones (trim (toLowerCase (group (snd m) 1)))
                                (cleanText (group (snd m) 2))) found2)"
      unfolding toneOnlyTags_def f2 by simp
    then have t2: "map tone (fst ?byTone) = toneOnlyTags c"
      using foldl_tones [of toneOnlyStep _ "([], 0)" found2, OF toneOnlyStep_tones]
      by simp
    show ?thesis
    proof (cases "fst ?byTone = []")
      case False
      then have "us = fst ?byTone"
        using assms f1 f2 True by (simp add: parseUtterances_def Let_def)
      moreover from False t2 have "toneOnlyTags c \<noteq> []" by (metis map_is_Nil_conv)
      ultimately show ?thesis using t2 h by simp
    next
      case e2: True
      then have o: "toneOnlyTags c = []" using t2 by simp
      have 3: "list_all (utterance_ok []) (fst (foldl hostLineStep ([], 0) xs))" for xs
        by (rule foldl_ok) (simp_all add: hostLineStep_ok)
      have "list_all (utterance_ok []) us"
        using assms f1 f2 True e2 3 [of "split_on (CHR 0x0A) [] ?sc"]
          parseAlternativeFormat_ok [of "[]" ?sc]
        by (auto simp add: parseUtterances_def Let_def split: if_splits)
      then show ?thesis using h o inferred_only by blast
    qed
  qed
qed

text \<open>
  Claim C3, amended: every utterance that the parser produces has a speaker in
  \<open>{host1, host2}\<close> and one tone.  When the host-tone pattern yields utterances, the
  tones of the utterances are the bracketed tags of their blocks, lower-cased and
  trimmed, whatever the tags are; when it yields none and the legacy pattern of a
  bracketed tag without host label yields utterances, the same holds for the tags of
  that pattern; no tag is checked against the closed tone set.  Otherwise the tone of
  every utterance is inferred from the content, and is then one of excited, curious,
  reflective, humorous, serious, skeptical and calm, which are tones of the closed
  set.
\<close>

theorem parseUtterances_speaker_tone:
  assumes "parseUtterances c = Some us"
  shows "(\<forall>u \<in> set us. speaker u = ''host1'' \<or> speaker u = ''host2'') \<and>
         (hostToneTags c \<noteq> [] \<longrightarrow> map tone us = hostToneTags c) \<and>
         (hostToneTags c = [] \<and> toneOnlyTags c \<noteq> [] \<longrightarrow> map tone us = toneOnlyTags c) \<and>
         (hostToneTags c = [] \<and> toneOnlyTags c = [] \<longrightarrow>
            (\<forall>u \<in> set us. tone u \<in> set inferredTones)) \<and>
         set inferredTones \<subseteq> set closedToneSet"
proof -
  have s: "\<forall>u \<in> set us. speaker u = ''host1'' \<or> speaker u = ''host2''"
    using parseUtterances_ok [OF assms] by (simp add: list_all_iff utterance_ok_def)
  have i: "set inferredTones \<subseteq> set closedToneSet"
    by (simp add: inferredTones_def closedToneSet_def)
  from parseUtterances_paths [OF assms] s i show ?thesis by (intro conjI) blast+
qed

theorem parseUtterances_speaker_tone_witness:
  "parseUtterances (''**Host 1:** [Excited] Wow.'' @ nl @ ''**Host 2:** [sad] Oh no.'') =
     Some [\<lparr>idx = 0, speaker = ''host1'', tone = ''excited'', utext = ''Wow.'',
            u_wordCount = 1, estimatedDuration = 0\<rparr>,
           \<lparr>idx = 1, speaker = ''host2'', tone = ''sad'', utext = ''Oh no.'',
            u_wordCount = 2, estimatedDuration = 1\<rparr>] \<and>
   hostToneTags (''**Host 1:** [Excited] Wow.'' @ nl @ ''**Host 2:** [sad] Oh no.'') =
     [''excited'', ''sad''] \<and>
   parseUtterances ''**[Whispering]** Hello there.'' =
     Some [\<lparr>idx = 0, speaker = ''host1'', tone = ''whispering'', utext = ''Hello there.'',
            u_wordCount = 2, estimatedDuration = 1\<rparr>] \<and>
   hostToneTags ''**[Whispering]** Hello there.'' = [] \<and>
   toneOnlyTags ''**[Whispering]** Hello there.'' = [''whispering''] \<and>
   parseUtterances ''**Host 2:** Is it true?'' =
     Some [\<lparr>idx = 0, speaker = ''host2'', tone = ''curious'', utext = ''Is it true?'',
            u_wordCount = 3, estimatedDuration = 1\<rparr>] \<and>
   hostToneTags ''**Host 2:** Is it true?'' = [] \<and>
   toneOnlyTags ''**Host 2:** Is it true?'' = [] \<and>
   ''curious'' \<in> set inferredTones"
proof -
  let ?u1 = "[\<lparr>idx = 0, speaker = ''host1'', tone = ''excited'', utext = ''Wow.'',
            u_wordCount = 1, estimatedDuration = 0\<rparr>,
           \<lparr>idx = 1, speaker = ''host2'', tone = ''sad'', utext = ''Oh no.'',
            u_wordCount = 2, estimatedDuration = 1\<rparr>]"
  let ?u2 = "[\<lparr>idx = 0, speaker = ''host1'', tone = ''whispering'', utext = ''Hello there.'',
            u_wordCount = 2, estimatedDuration = 1\<rparr>]"
  let ?u3 = "[\<lparr>idx = 0, speaker = ''host2'', tone = ''curious'', utext = ''Is it true?'',
            u_wordCount = 3, estimatedDuration = 1\<rparr>]"
  have e1: "parseUtterances (''**Host 1:** [Excited] Wow.'' @ nl @ ''**Host 2:** [sad] Oh no.'')
              = Some ?u1"
    by code_simp
  have e2: "parseUtterances ''**[Whispering]** Hello there.'' = Some ?u2"
    by code_simp
  have e3: "parseUtterances ''**Host 2:** Is it true?'' = Some ?u3"
    by code_simp
  have n2: "hostToneTags ''**[Whispering]** Hello there.'' = []"
    and n3: "hostToneTags ''**Host 2:** Is it true?'' = []"
    and o3: "toneOnlyTags ''**Host 2:** Is it true?'' = []"
    by code_simp+
  have m1: "map tone ?u1 \<noteq> []" and m2: "map tone ?u2 \<noteq> []" by simp_all
  note t1 = parseUtterances_speaker_tone [OF e1]
  note t2 = parseUtterances_speaker_tone [OF e2]
  note t3 = parseUtterances_speaker_tone [OF e3]
  have h1: "hostToneTags (''**Host 1:** [Excited] Wow.'' @ nl @ ''**Host 2:** [sad] Oh no.'')
              \<noteq> []"
    by code_simp
  from t1 h1 have p1: "map tone ?u1 =
        hostToneTags (''**Host 1:** [Excited] Wow.'' @ nl @ ''**Host 2:** [sad] Oh no.'')"
    by blast
  have o2: "toneOnlyTags ''**[Whispering]** Hello there.'' \<noteq> []"
    by code_simp
  from t2 n2 o2 have p2: "map tone ?u2 = toneOnlyTags ''**[Whispering]** Hello there.''"
    by blast
  from t3 n3 o3 have "\<forall>u \<in> set ?u3. tone u \<in> set inferredTones" by blast
  then have p3: "''curious'' \<in> set inferredTones" by simp
  show ?thesis
    using e1 e2 e3 n2 n3 o3 p1 [symmetric] p2 [symmetric] p3 by simp
qed

subsection \<open>The Editor's post-validation\<close>

lemma validateFinalScript_true: "fst (validateFinalScript finalScript input) = Inr True"
  by (simp add: validateFinalScript_def Let_def)

lemma validateFinalScript_warns:
  "NotProductionReady \<in> set (snd (validateFinalScript finalScript input))
     \<longleftrightarrow> \<not> productionReady (content finalScript)"
  by (simp add: validateFinalScript_def Let_def)

lemma not_productionReady:
  "length c \<le> 100 \<or> js_includes c ''TODO'' \<or> js_includes c ''[INSERT'' \<Longrightarrow>
     \<not> productionReady c"
  by (auto simp add: productionReady_def)

lemma editor_execute_succeeds:
  assumes "editor_validateInput input = Inr True"
    and "editForWordCount model (mk input (analyzeScript (ed_script input)))
           (ed_targetWords input) (ed_tolerance input) lg = (Inr response, lg')"
    and "response \<noteq> []"
  shows "map_sum message content (fst (editor_execute model mk input lg)) = Inr (trim response)"
  using assms validateFinalScript_true
  by (simp add: editor_execute_def Let_def extractMarkdown_def)

lemma todo_misses: "misses 5 150 ''TODO''"
  unfolding misses_def by code_simp

lemma editor_input0_valid: "editor_validateInput editor_input0 = Inr True"
  by code_simp

lemma editForWordCount_todo:
  "editForWordCount todo_answers p 150 5 [] =
     (Inr ''TODO'', snd (editForWordCount todo_answers p 150 5 []))"
proof -
  have "fst (editForWordCount todo_answers p 150 5 []) = Inr ''TODO''"
    using editForWordCount_four_calls [of todo_answers "''TODO''" "''TODO''" "''TODO''" "''TODO''"
        5 150 p] todo_misses
    by (simp add: todo_answers_def)
  then show ?thesis by (metis prod.collapse)
qed

text \<open>
  Claim C6 says that the Editor's post-validation fails the stage for every final
  script that is shorter than 100 characters or contains \<open>TODO\<close> or \<open>[INSERT\<close>.  With a
  backend that always answers \<open>TODO\<close>, the editing stage succeeds, and its final script
  is \<open>TODO\<close>.
\<close>

theorem editor_execute_todo_counterexample:
  "map_sum message content
     (fst (editor_execute todo_answers (\<lambda>input analysis. ''Edit.'') editor_input0 []))
     = Inr ''TODO'' \<and>
   length ''TODO'' < (100::nat) \<and> js_includes ''TODO'' ''TODO''"
proof -
  have t: "trim ''TODO'' = ''TODO''" by code_simp
  have "map_sum message content
     (fst (editor_execute todo_answers (\<lambda>input analysis. ''Edit.'') editor_input0 []))
     = Inr (trim ''TODO'')"
  proof (rule editor_execute_succeeds)
    show "editor_validateInput editor_input0 = Inr True" by (rule editor_input0_valid)
    show "editForWordCount todo_answers ''Edit.'' (ed_targetWords editor_input0)
            (ed_tolerance editor_input0) [] =
          (Inr ''TODO'', snd (editForWordCount todo_answers ''Edit.'' 150 5 []))"
      using editForWordCount_todo [of "''Edit.''"] by (simp add: editor_input0_def)
    show "''TODO'' \<noteq> []" by simp
  qed
  then show ?thesis using t by simp
qed

text \<open>
  Claim C6, amended: the Editor's post-validation never rejects a final script.  For
  a script whose content has at most 100 characters or contains \<open>TODO\<close> or \<open>[INSERT\<close> it
  logs the warning that the script may not be production ready, and it returns true
  for every script; the editing stage succeeds with the trimmed final answer whenever
  the input is valid, the calls of the word-count loop succeed and the final answer is
  not empty.
\<close>

theorem validateFinalScript_only_warns:
  "fst (validateFinalScript finalScript input) = Inr True \<and>
   (length (content finalScript) \<le> 100 \<or> js_includes (content finalScript) ''TODO'' \<or>
    js_includes (content finalScript) ''[INSERT''
      \<longrightarrow> NotProductionReady \<in> set (snd (validateFinalScript finalScript input))) \<and>
   (editor_validateInput input = Inr True \<and>
    editForWordCount model (mk input (analyzeScript (ed_script input)))
      (ed_targetWords input) (ed_tolerance input) lg = (Inr response, lg') \<and>
    response \<noteq> []
      \<longrightarrow> map_sum message content (fst (editor_execute model mk input lg)) = Inr (trim response))"
  using validateFinalScript_true [of finalScript input]
    validateFinalScript_warns [of finalScript input]
    not_productionReady [of "content finalScript"]
    editor_execute_succeeds [of input model mk lg response lg']
  by blast

theorem validateFinalScript_only_warns_witness:
  "fst (validateFinalScript
          \<lparr>content = ''[INSERT joke]'', meta = \<lparr>headings = None, listItems = None, links = None\<rparr>,
           wordCount = 0\<rparr> editor_input0) = Inr True \<and>
   js_includes ''[INSERT joke]'' ''[INSERT'' \<and>
   NotProductionReady \<in> set (snd (validateFinalScript
          \<lparr>content = ''[INSERT joke]'', meta = \<lparr>headings = None, listItems = None, links = None\<rparr>,
           wordCount = 0\<rparr> editor_input0))"
proof -
  have i: "js_includes ''[INSERT joke]'' ''[INSERT''" by code_simp
  show ?thesis
    using validateFinalScript_only_warns
      [of "\<lparr>content = ''[INSERT joke]'', meta = \<lparr>headings = None, listItems = None, links = None\<rparr>,
            wordCount = 0\<rparr>" editor_input0] i
    by simp
qed

subsection \<open>Script generation\<close>

lemma batches_from_concat: "0 < n \<Longrightarrow> concat (batches_from n xs) = xs"
proof (induction n xs rule: batches_from.induct)
  case (1 batchSize items)
  show ?case
  proof (cases "items = []")
    case True
    then show ?thesis by (subst batches_from.simps) simp
  next
    case False
    with 1 show ?thesis by (subst batches_from.simps) simp
  qed
qed

lemma map_of_fst: "map (\<lambda>p. g (fst p)) zs = map g (map fst zs)"
  by (simp add: comp_def)

lemma scriptInput_sections:
  "map (\<lambda>x. scr_section (scriptInput outline p x)) (zip b [0..<length b]) = map sec_content b"
proof -
  have "map (\<lambda>x. scr_section (scriptInput outline p x)) (zip b [0..<length b])
        = map (\<lambda>q. sec_content (fst q)) (zip b [0..<length b])"
    by (simp add: scriptInput_def case_prod_beta)
  also have "\<dots> = map sec_content (map fst (zip b [0..<length b]))" by (rule map_of_fst)
  also have "\<dots> = map sec_content b" by simp
  finally show ?thesis .
qed

lemma scriptInput_targets:
  "map (\<lambda>x. scr_targetWords (scriptInput outline p x)) (zip b [0..<length b])
     = replicate (length b)
         (nat (js_round (real (pl_targetWords p) / real (length (sections outline)))))"
  by (simp add: scriptInput_def case_prod_beta map_replicate_const)

lemma concat_replicate: "concat (map (\<lambda>b. replicate (length b) c) bs) = replicate (length (concat bs)) c"
  by (induction bs) (simp_all add: replicate_add)

lemma recording_apply:
  "recording agent i (w, seen) =
     (case agent i w of None \<Rightarrow> None | Some (r, w') \<Rightarrow> Some (r, (w', seen @ [i])))"
  by (simp add: recording_def)

lemma run_batch_recording:
  "run_batch (recording agent) inputs (w, seen) = Some (rs, (w', seen')) \<Longrightarrow>
     seen' = seen @ inputs \<and> length rs = length inputs"
proof (induction inputs arbitrary: w seen rs)
  case Nil
  then show ?case by simp
next
  case (Cons i inputs)
  from Cons.prems obtain r w1 rs1 where
    1: "agent i w = Some (r, w1)" and
    2: "run_batch (recording agent) inputs (w1, seen @ [i]) = Some (rs1, (w', seen'))" and
    3: "rs = r # rs1"
    by (auto simp add: recording_apply split: option.splits prod.splits)
  from Cons.IH [OF 2] 3 show ?case by simp
qed

lemma all_results_length: "all_results rs = Inr xs \<Longrightarrow> length xs = length rs"
  by (induction rs arbitrary: xs rule: all_results.induct) (auto split: sum.splits)

lemma run_batches_recording:
  "run_batches (recording agent) batches acc (w, seen) = Some (Inr scripts, (w', seen')) \<Longrightarrow>
     seen' = seen @ concat batches \<and> length scripts = length acc + length (concat batches)"
proof (induction batches arbitrary: acc w seen)
  case Nil
  then show ?case by simp
next
  case (Cons b batches)
  from Cons.prems obtain rs w1 seen1 xs where
    1: "run_batch (recording agent) b (w, seen) = Some (rs, (w1, seen1))" and
    2: "all_results rs = Inr xs" and
    3: "run_batches (recording agent) batches (acc @ xs) (w1, seen1) = Some (Inr scripts, (w', seen'))"
    by (auto split: option.splits sum.splits prod.splits)
  from run_batch_recording [OF 1] all_results_length [OF 2] Cons.IH [OF 3]
  show ?case by simp
qed

lemma generateScripts_recording:
  assumes "generateScriptsInParallel (recording agent) outline planningInput (w, []) =
             Some (Inr scripts, (w', seen))"
  shows "length scripts = length (sections outline)"
    and "map scr_section seen = map sec_content (sections outline)"
    and "map scr_targetWords seen =
           replicate (length (sections outline))
             (nat (js_round (real (pl_targetWords planningInput) /
                             real (length (sections outline)))))"
proof -
  let ?bs = "batches_from maxConcurrentAgents (sections outline)"
  let ?ins = "map (\<lambda>batch. map (scriptInput outline planningInput) (zip batch [0..<length batch])) ?bs"
  from assms have ne: "sections outline \<noteq> []"
    by (auto simp add: generateScriptsInParallel_def split: if_splits)
  with assms have run: "run_batches (recording agent) ?ins [] (w, []) = Some (Inr scripts, (w', seen))"
    by (simp add: generateScriptsInParallel_def createBatches_def maxConcurrentAgents_def)
  have cc: "concat ?bs = sections outline"
    by (rule batches_from_concat) (simp add: maxConcurrentAgents_def)
  from run_batches_recording [OF run]
  have seen: "seen = concat ?ins" and len: "length scripts = length (concat ?ins)" by simp_all
  have s: "map scr_section (concat ?ins) = map sec_content (concat ?bs)"
    by (simp add: map_concat comp_def scriptInput_sections)
  have t: "map scr_targetWords (concat ?ins) =
           replicate (length (concat ?bs))
             (nat (js_round (real (pl_targetWords planningInput) /
                             real (length (sections outline)))))"
    by (simp add: map_concat comp_def scriptInput_targets concat_replicate)
  show "map scr_section seen = map sec_content (sections outline)"
    using s seen cc by simp
  then have "length seen = length (sections outline)" by (metis length_map)
  with len seen show "length scripts = length (sections outline)" by simp
  show "map scr_targetWords seen =
           replicate (length (sections outline))
             (nat (js_round (real (pl_targetWords planningInput) /
                             real (length (sections outline)))))"
    using t seen cc by simp
qed


lemma em_outline: "extractMarkdown ''OutlineAgent'' outline_text =
   Inr \<lparr>content = outline_text, meta = meta outline0, wordCount = 0\<rparr>"
  unfolding outline0_def by code_simp

lemma parse_outline: "parseOutlineSections outline_text n = Some (sections outline0)"
  unfolding parseOutlineSections_def outline0_def by code_simp

lemma timing_outline: "calculateTiming (sections outline0) 150 = timing outline0"
  by (simp add: calculateTiming_def outline0_def js_round_def Let_def)

lemma valid_outline:
  "validateOutline \<lparr>content = outline_text, meta = m, wordCount = 0\<rparr> outline_input0 = Inr True"
  by code_simp

lemma valid_outline_input: "outline_validateInput outline_input0 = Inr True"
  by code_simp

lemma outline_run:
  "outline_execute outline_answers (\<lambda>i. ''Outline.'') outline_input0 [] =
     Some (Inr outline0, [(''OutlineAgent'', ''Outline.'')])"
proof -
  have c: "chatComplete outline_answers ''OutlineAgent'' ''Outline.'' [] =
             (Inr outline_text, [(''OutlineAgent'', ''Outline.'')])"
    by (simp add: chatComplete_def outline_answers_def)
  have i: "ol_chapters outline_input0 = 1" "ol_targetWords outline_input0 = 150"
    by (simp_all add: outline_input0_def)
  have o: "\<lparr>content = outline_text, meta = meta outline0, wordCount = 0,
            sections = sections outline0, timing = timing outline0\<rparr> = outline0"
    by (simp add: outline0_def)
  show ?thesis
    by (simp add: outline_execute_def valid_outline_input c em_outline parse_outline i
        valid_outline timing_outline o)
qed

lemma scripts_run:
  "generateScriptsInParallel (recording echo_script) outline0 planning_input0 ((), []) =
     Some (Inr scripts0, ((), seen0))"
proof -
  have b: "batches_from 5 (sections outline0) = [sections outline0]"
    by (subst batches_from.simps, subst batches_from.simps) (simp add: outline0_def)
  have u: "[0..<3] = [0, 1, 2]" by (simp add: upt_rec)
  have r: "js_round 50 = 50" by (simp add: js_round_def)
  show ?thesis
    by (simp add: generateScriptsInParallel_def createBatches_def maxConcurrentAgents_def b)
       (simp add: outline0_def planning_input0_def scriptInput_def recording_def
         echo_script_def scripts0_def seen0_def u r)
qed

text \<open>
  Claim C1 says that the Scripter is invoked once per chapter of the brief, so that a
  job of \<open>chapters\<close> chapters yields \<open>chapters\<close> scripts, each invocation with the target
  \<open>targetWords / chapters\<close>.  For a job of one chapter and 150 words, the Outline agent
  returns an outline with an opening hook, one chapter and a closing segment; the
  Scripter is then invoked three times, each time with a target of 50 words, and three
  scripts result.
\<close>

theorem generateScriptsInParallel_sections_counterexample:
  "outline_execute outline_answers (\<lambda>i. ''Outline.'') outline_input0 [] =
     Some (Inr outline0, [(''OutlineAgent'', ''Outline.'')]) \<and>
   ol_chapters outline_input0 = 1 \<and>
   pl_chapters planning_input0 = 1 \<and>
   pl_targetWords planning_input0 = 150 \<and>
   generateScriptsInParallel (recording echo_script) outline0 planning_input0 ((), []) =
     Some (Inr scripts0, ((), seen0)) \<and>
   length scripts0 = 3 \<and>
   map scr_targetWords seen0 = [50, 50, 50]"
  by (simp add: outline_run scripts_run)
     (simp add: outline_input0_def planning_input0_def scripts0_def seen0_def)

text \<open>
  Claim C1, amended: the orchestrator invokes the Scripter exactly once per section of
  the outline, which are the opening hook, the chapters found in the outline and the
  closing segment.  A script generation that succeeds yields as many scripts as the
  outline has sections; the invocations receive the contents of the sections, in
  order, and each receives the target word count \<open>targetWords\<close> divided by the number
  of sections of the outline, rounded.
\<close>

theorem generateScriptsInParallel_per_section:
  assumes "generateScriptsInParallel (recording agent) outline planningInput (w, []) =
             Some (Inr scripts, (w', seen))"
  shows "length scripts = length (sections outline) \<and>
         map scr_section seen = map sec_content (sections outline) \<and>
         map scr_targetWords seen =
           replicate (length (sections outline))
             (nat (js_round (real (pl_targetWords planningInput) /
                             real (length (sections outline)))))"
  using generateScripts_recording [OF assms] by simp

theorem generateScriptsInParallel_per_section_witness:
  "generateScriptsInParallel (recording echo_script) outline0 planning_input0 ((), []) =
     Some (Inr scripts0, ((), seen0)) \<and>
   length scripts0 = length (sections outline0) \<and>
   map scr_section seen0 = map sec_content (sections outline0) \<and>
   map scr_targetWords seen0 =
     replicate (length (sections outline0))
       (nat (js_round (real (pl_targetWords planning_input0) /
                       real (length (sections outline0)))))"
  using generateScriptsInParallel_per_section [OF scripts_run] scripts_run by blast

subsection \<open>The research stage with a source\<close>

lemma words_notes: "fetcher_countWords tea_notes = 50"
  by code_simp

lemma researchStage_fetched:
  assumes "req_source request = Some source" and "source \<noteq> []"
    and "(if isUrl svc source then fetchFromUrl svc source else fetchFromFile svc source)
           = Inr fetched"
  shows "researchStage svc request plan w =
           Some (Inr (Some fetched, SourceResearch (groundedResearch fetched)), w)"
  using assms by (simp add: researchStage_def fetched_source_def fetchContent_def)

text \<open>
  Claim C5: for a job whose brief has a source that is fetched successfully, the
  research stage makes no model call, since it leaves the state of the agents as it
  was and does not run the Research agent, and the research notes are the fetched
  title and body under the fixed preamble.  This holds for every fetched source,
  whatever its number of words.
\<close>

theorem researchStage_source_grounded:
  assumes "req_source request = Some source" and "source \<noteq> []"
    and "(if isUrl svc source then fetchFromUrl svc source else fetchFromFile svc source)
           = Inr fetched"
  shows "researchStage svc request plan w =
           Some (Inr (Some fetched, SourceResearch (groundedResearch fetched)), w) \<and>
         research_content (SourceResearch (groundedResearch fetched)) =
           ''# Research Based on Source Material'' @ nl @ nl @ ''## Source: '' @
           src_title fetched @ nl @ nl @ src_content fetched"
  using researchStage_fetched [OF assms] by (simp add: groundedResearch_def)

theorem researchStage_source_grounded_witness:
  "researchStage (example_services plan_answers)
     (generationRequest ''job-1'' (brief0 ''Green tea'' (Some ''notes.txt''))) plan0 [] =
     Some (Inr (Some notes0, SourceResearch (groundedResearch notes0)), []) \<and>
   50 \<le> src_wordCount notes0 \<and>
   research_content (SourceResearch (groundedResearch notes0)) =
     ''# Research Based on Source Material'' @ nl @ nl @ ''## Source: '' @
     ''Tea notes'' @ nl @ nl @ tea_notes"
proof -
  have s: "req_source (generationRequest ''job-1'' (brief0 ''Green tea'' (Some ''notes.txt'')))
             = Some ''notes.txt''"
    by (simp add: generationRequest_def brief0_def)
  have f: "(if isUrl (example_services plan_answers) ''notes.txt''
            then fetchFromUrl (example_services plan_answers) ''notes.txt''
            else fetchFromFile (example_services plan_answers) ''notes.txt'') = Inr notes0"
    by (simp add: example_services_def readNotes_def notes0_def words_notes)
  have n: "''notes.txt'' \<noteq> []" by simp
  from researchStage_source_grounded [OF s n f, of plan0 "[]"]
  show ?thesis by (simp add: notes0_def)
qed

subsection \<open>Word counts of the planning-side artifacts\<close>


lemma extractMarkdown_wordCount:
  "extractMarkdown agent response = Inr m \<Longrightarrow> wordCount m = countSpokenWords response"
  by (auto simp add: extractMarkdown_def split: if_splits)

lemma planner_execute_wordCount:
  assumes "planner_execute model mk input lg = (Inr plan, lg')"
    and "model (length lg) (mk input) = Inr response"
  shows "wordCount plan = countSpokenWords response"
  using assms
  by (auto simp add: planner_execute_def chatComplete_def
      split: sum.splits dest: extractMarkdown_wordCount)

lemma research_execute_wordCount:
  assumes "research_execute model mk input lg = (Inr found, lg')"
    and "model (length lg) (mk input) = Inr response"
  shows "wordCount found = countSpokenWords response"
  using assms
  by (auto simp add: research_execute_def chatComplete_def
      split: sum.splits dest: extractMarkdown_wordCount)

lemma outline_execute_wordCount:
  assumes "outline_execute model mk input lg = Some (Inr outl, lg')"
    and "model (length lg) (mk input) = Inr response"
  shows "wordCount outl = countSpokenWords response"
  using assms
  by (auto simp add: outline_execute_def chatComplete_def
      split: sum.splits option.splits dest: extractMarkdown_wordCount)

lemma em_plan: "extractMarkdown agent plan_text = Inr plan0"
  unfolding extractMarkdown_def plan0_def by code_simp

lemma valid_plan: "validatePlan plan0 input = Inr True"
  unfolding validatePlan_def by code_simp

lemma valid_notes: "validateResearch plan0 input = Inr True"
  unfolding validateResearch_def by code_simp

lemma valid_planning_input: "planner_validateInput planning_input0 = Inr True"
  by code_simp

lemma valid_research_input: "research_validateInput research_input0 = Inr True"
  by code_simp

lemma planner_run:
  "planner_execute plan_answers (\<lambda>i. ''Plan.'') planning_input0 [] =
     (Inr plan0, [(''PlannerAgent'', ''Plan.'')])"
  by (simp add: planner_execute_def valid_planning_input chatComplete_def plan_answers_def
      em_plan valid_plan)

lemma research_run:
  "research_execute plan_answers (\<lambda>i. ''Research.'') research_input0 [] =
     (Inr plan0, [(''ResearchAgent'', ''Research.'')])"
  by (simp add: research_execute_def valid_research_input chatComplete_def plan_answers_def
      em_plan valid_notes)

lemma raw_words_plan: "countWords plan_text = 9"
  by code_simp

text \<open>
  In general, the word count recorded on a plan, on the research notes of the Research
  agent and on an outline is the count of the spoken words of the answer of the model;
  the word count recorded on research notes that are built from a fetched source is
  the word count of the fetcher.
\<close>

theorem planning_side_wordCount:
  "(planner_execute model1 mk1 input1 lg1 = (Inr plan, lg1') \<and>
    model1 (length lg1) (mk1 input1) = Inr response1
      \<longrightarrow> wordCount plan = countSpokenWords response1) \<and>
   (research_execute model2 mk2 input2 lg2 = (Inr found, lg2') \<and>
    model2 (length lg2) (mk2 input2) = Inr response2
      \<longrightarrow> wordCount found = countSpokenWords response2) \<and>
   (outline_execute model3 mk3 input3 lg3 = Some (Inr outl, lg3') \<and>
    model3 (length lg3) (mk3 input3) = Inr response3
      \<longrightarrow> wordCount outl = countSpokenWords response3) \<and>
   research_wordCount (SourceResearch (groundedResearch fetched)) = src_wordCount fetched"
  using planner_execute_wordCount [of model1 mk1 input1 lg1 plan lg1' response1]
    research_execute_wordCount [of model2 mk2 input2 lg2 found lg2' response2]
    outline_execute_wordCount [of model3 mk3 input3 lg3 outl lg3' response3]
  by (simp add: groundedResearch_def)

theorem planning_side_wordCount_witness:
  "planner_execute plan_answers (\<lambda>i. ''Plan.'') planning_input0 [] =
     (Inr plan0, [(''PlannerAgent'', ''Plan.'')]) \<and>
   wordCount plan0 = countSpokenWords plan_text \<and>
   research_execute plan_answers (\<lambda>i. ''Research.'') research_input0 [] =
     (Inr plan0, [(''ResearchAgent'', ''Research.'')]) \<and>
   outline_execute outline_answers (\<lambda>i. ''Outline.'') outline_input0 [] =
     Some (Inr outline0, [(''OutlineAgent'', ''Outline.'')]) \<and>
   wordCount outline0 = countSpokenWords outline_text \<and>
   research_wordCount (SourceResearch (groundedResearch notes0)) = src_wordCount notes0"
proof -
  have p: "plan_answers (length ([] :: call_log)) ((\<lambda>i. ''Plan.'') planning_input0) = Inr plan_text"
    and r: "plan_answers (length ([] :: call_log)) ((\<lambda>i. ''Research.'') research_input0) = Inr plan_text"
    and ou: "outline_answers (length ([] :: call_log)) ((\<lambda>i. ''Outline.'') outline_input0) = Inr outline_text"
    by (simp_all add: plan_answers_def outline_answers_def)
  from planning_side_wordCount
    [where ?model1.0 = plan_answers and ?mk1.0 = "\<lambda>i. ''Plan.''" and ?input1.0 = planning_input0
       and ?lg1.0 = "[]" and plan = plan0 and ?lg1' = "[(''PlannerAgent'', ''Plan.'')]"
       and ?response1.0 = plan_text
       and ?model2.0 = plan_answers and ?mk2.0 = "\<lambda>i. ''Research.''"
       and ?input2.0 = research_input0
       and ?lg2.0 = "[]" and found = plan0 and ?lg2' = "[(''ResearchAgent'', ''Research.'')]"
       and ?response2.0 = plan_text
       and ?model3.0 = outline_answers and ?mk3.0 = "\<lambda>i. ''Outline.''"
       and ?input3.0 = outline_input0
       and ?lg3.0 = "[]" and outl = outline0 and ?lg3' = "[(''OutlineAgent'', ''Outline.'')]"
       and ?response3.0 = outline_text and fetched = notes0]
    planner_run research_run outline_run p r ou
  show ?thesis by blast
qed

text \<open>
  Claim C9: the word count recorded on a plan, on research notes and on an outline
  should be the count of the raw words, the spoken-word counter being for the dialogue
  artifacts.  \<open>BaseAgent.extractMarkdown\<close>, which every agent calls, records the count
  of the spoken words, under the comment that this is the counter for podcast scripts:
  the plan that the Planner returns for an answer of nine raw words and no dialogue
  line records the word count 0.
\<close>

theorem planner_records_spoken_words:
  "planner_execute plan_answers (\<lambda>i. ''Plan.'') planning_input0 [] =
     (Inr plan0, [(''PlannerAgent'', ''Plan.'')]) \<and>
   content plan0 = plan_text \<and> wordCount plan0 = 0 \<and> countWords plan_text = 9"
  by (simp add: planner_run raw_words_plan) (simp add: plan0_def)

subsection \<open>Short topics\<close>

lemma generatePodcast_planner_diverges:
  assumes "ag_planner svc (planningInputOf request) (world st) = None"
  shows "generatePodcast svc request st = None"
  using assms
  by (simp add: generatePodcast_def Let_def rethrow_def and_then_def updateProgress_def
      agent_call_def)

lemma generatePodcast_planner_throws:
  assumes "ag_planner svc (planningInputOf request) (world st) = Some (Inl e, w')"
  shows "generatePodcast svc request st =
           Some (Inl (AgentError (''Podcast generation failed: '' @ message e) ''Orchestrator''),
                 \<lparr>progress = progress st @ [(''planning'', 1, 7)], world = w'\<rparr>)"
  using assms
  by (simp add: generatePodcast_def Let_def rethrow_def and_then_def updateProgress_def
      agent_call_def)

lemma generatePodcast_research_throws:
  assumes "ag_planner svc (planningInputOf request) (world st) = Some (Inr plan, w1)"
    and "researchStage svc request plan w1 = Some (Inl e, w2)"
  shows "generatePodcast svc request st =
           Some (Inl (AgentError (''Podcast generation failed: '' @ message e) ''Orchestrator''),
                 \<lparr>progress = progress st @ [(''planning'', 1, 7), (''research'', 2, 7)],
                  world = w2\<rparr>)"
  using assms
  by (simp add: generatePodcast_def Let_def rethrow_def and_then_def updateProgress_def
      agent_call_def)

lemma researchStage_short_topic:
  assumes "length (req_topic request) < 5"
    and "fetched_source svc (req_source request) = None"
    and "ag_research svc = (\<lambda>input. returns (research_execute model mk input))"
  shows "researchStage svc request plan lg =
           Some (Inl (Error (research_rejection (req_topic request))), lg)"
  using assms
  by (simp add: researchStage_def and_then_def returns_def research_execute_def
      research_validateInput_def research_rejection_def)


lemma accepted_topic: "generateValidation b = [] \<Longrightarrow> 1 \<le> length (br_topic b)"
  by (simp add: generateValidation_def split: if_splits)

lemma trim_blank: "trim '' '' = []"
  by code_simp

lemma blank_planner:
  "ag_planner (example_services model)
     (planningInputOf (generationRequest jobId (brief0 '' '' None))) lg =
     Some (Inl (Error ''Topic is required and must be a non-empty string''), lg)"
  by (simp add: example_services_def returns_def planner_execute_def planner_validateInput_def
      planningInputOf_def generationRequest_def brief0_def trim_blank)

lemma valid_brief0: "length t \<le> 500 \<Longrightarrow> t \<noteq> [] \<Longrightarrow> generateValidation (brief0 t None) = []"
  by (cases t) (simp_all add: generateValidation_def brief0_def)

text \<open>
  Claim C10 says that a job with an accepted brief, a topic of one to four characters
  and no fetched source always fails at the research stage.  The brief whose topic is
  one blank is accepted, and its job fails at the planning stage: the Planner rejects
  the topic, and the research stage is never reached.
\<close>

theorem blank_topic_counterexample:
  "generateValidation (brief0 '' '' None) = [] \<and>
   length '' '' = (1::nat) \<and>
   generatePodcast (example_services plan_answers)
     (generationRequest ''job-1'' (brief0 '' '' None)) run0 =
     Some (Inl (AgentError
                  ''Podcast generation failed: Topic is required and must be a non-empty string''
                  ''Orchestrator''),
           \<lparr>progress = [(''planning'', 1, 7)], world = []\<rparr>)"
proof -
  have "generatePodcast (example_services plan_answers)
          (generationRequest ''job-1'' (brief0 '' '' None)) run0 =
        Some (Inl (AgentError
                  (''Podcast generation failed: '' @
                   message (Error ''Topic is required and must be a non-empty string''))
                  ''Orchestrator''),
           \<lparr>progress = progress run0 @ [(''planning'', 1, 7)], world = world run0\<rparr>)"
    by (rule generatePodcast_planner_throws) (rule blank_planner)
  then show ?thesis by (simp add: valid_brief0 run0_def)
qed

text \<open>
  Claim C10, amended: for every accepted brief whose topic has fewer than five
  characters and that has no fetched source, the topic has at least one character and
  the job does not get past the research stage.  If the Planner throws, as it does for
  a blank topic, the job fails at the planning stage with the error of the Planner; if
  the Planner returns a plan, the job fails at the research stage, where the Research
  agent rejects the topic before it makes a model call, so that the calls made are
  those of the Planner; if the Planner does not return, neither does the job.
\<close>

theorem short_topic_stops_by_research:
  assumes "generateValidation b = []" and "length (br_topic b) < 5"
    and "fetched_source svc (br_source b) = None"
    and "ag_research svc = (\<lambda>input. returns (research_execute model mk input))"
  shows "1 \<le> length (br_topic b) \<and>
         (case ag_planner svc (planningInputOf (generationRequest jobId b)) (world st) of
            None \<Rightarrow> generatePodcast svc (generationRequest jobId b) st = None
          | Some (Inl e, lg) \<Rightarrow>
              generatePodcast svc (generationRequest jobId b) st =
                Some (Inl (AgentError (''Podcast generation failed: '' @ message e)
                             ''Orchestrator''),
                      \<lparr>progress = progress st @ [(''planning'', 1, 7)], world = lg\<rparr>)
          | Some (Inr plan, lg) \<Rightarrow>
              generatePodcast svc (generationRequest jobId b) st =
                Some (Inl (AgentError
                             (''Podcast generation failed: '' @ research_rejection (br_topic b))
                             ''Orchestrator''),
                      \<lparr>progress = progress st @ [(''planning'', 1, 7), (''research'', 2, 7)],
                       world = lg\<rparr>))"
proof -
  let ?request = "generationRequest jobId b"
  have t: "req_topic ?request = br_topic b" and s: "req_source ?request = br_source b"
    by (simp_all add: generationRequest_def)
  have r: "researchStage svc ?request plan lg =
             Some (Inl (Error (research_rejection (br_topic b))), lg)" for plan lg
    using researchStage_short_topic [of ?request svc model mk plan lg] assms t s by simp
  show ?thesis
  proof (cases "ag_planner svc (planningInputOf ?request) (world st)")
    case None
    then show ?thesis
      using generatePodcast_planner_diverges [of svc ?request st] accepted_topic [OF assms(1)]
      by simp
  next
    case (Some a)
    obtain res lg where a: "a = (res, lg)" by (cases a)
    show ?thesis
    proof (cases res)
      case (Inl e)
      with Some a show ?thesis
        using generatePodcast_planner_throws [of svc ?request st e lg]
          accepted_topic [OF assms(1)]
        by simp
    next
      case (Inr plan)
      with Some a show ?thesis
        using generatePodcast_research_throws [of svc ?request st plan lg _ lg, OF _ r]
          accepted_topic [OF assms(1)]
        by simp
    qed
  qed
qed

lemma trim_tea: "trim ''Tea'' = ''Tea''"
  by code_simp

lemma tea_planner:
  "ag_planner (example_services plan_answers)
     (planningInputOf (generationRequest jobId (brief0 ''Tea'' None))) [] =
     Some (Inr plan0, [(''PlannerAgent'', ''Plan.'')])"
  by (simp add: example_services_def returns_def planner_execute_def planner_validateInput_def
      planningInputOf_def generationRequest_def brief0_def trim_tea wordsPerMinute_def
      chatComplete_def plan_answers_def em_plan valid_plan)

theorem short_topic_stops_by_research_witness:
  "generateValidation (brief0 ''Tea'' None) = [] \<and>
   length ''Tea'' < (5::nat) \<and>
   generatePodcast (example_services plan_answers)
     (generationRequest ''job-1'' (brief0 ''Tea'' None)) run0 =
     Some (Inl (AgentError
                  ''Podcast generation failed: Topic is too short for meaningful research''
                  ''Orchestrator''),
           \<lparr>progress = [(''planning'', 1, 7), (''research'', 2, 7)],
            world = [(''PlannerAgent'', ''Plan.'')]\<rparr>)"
proof -
  have v: "generateValidation (brief0 ''Tea'' None) = []" by (simp add: valid_brief0)
  have l: "length (br_topic (brief0 ''Tea'' None)) < 5" by (simp add: brief0_def)
  have f: "fetched_source (example_services plan_answers) (br_source (brief0 ''Tea'' None)) = None"
    by (simp add: fetched_source_def brief0_def)
  have a: "ag_research (example_services plan_answers) =
             (\<lambda>input. returns (research_execute plan_answers (\<lambda>i. ''Research.'') input))"
    by (simp add: example_services_def)
  have w: "world run0 = []" "progress run0 = []" by (simp_all add: run0_def)
  have rj: "research_rejection (br_topic (brief0 ''Tea'' None)) =
              ''Topic is too short for meaningful research''"
    by (simp add: research_rejection_def brief0_def trim_tea)
  from short_topic_stops_by_research [OF v l f a, of "''job-1''" run0]
  show ?thesis
    by (simp add: w tea_planner rj v)
qed

end
